(* ===== verification/Prelude.thy ===== *)
theory Prelude
  imports Complex_Main "HOL-Library.Sublist"
begin

text \<open>
  Shared vocabulary of the development: the lemma collections the component theories
  fill and use, the types that stand for Python values (timestamps, exceptions), the
  Python string operations that \<^verbatim>\<open>ping_test\<close> applies to the output of
  \<^verbatim>\<open>ping\<close> (\<^verbatim>\<open>in\<close>, \<^verbatim>\<open>str.split(sep)\<close>, \<^verbatim>\<open>str.split()\<close>), the list
  aggregates the report computes (\<^verbatim>\<open>sum\<close>, \<^verbatim>\<open>min\<close>, \<^verbatim>\<open>max\<close>, average) and the
  generic lemmas about them.

  Numbers: Python \<^verbatim>\<open>float\<close> values are modelled as \<^typ>\<open>real\<close>, so rounding of
  IEEE doubles, infinities and NaN are outside the model; Python \<^verbatim>\<open>int\<close> is
  \<^typ>\<open>int\<close> or \<^typ>\<open>nat\<close> (counts). A \<^verbatim>\<open>datetime\<close> is the number of microseconds
  since an arbitrary epoch, which is the resolution \<^verbatim>\<open>datetime\<close> has.
\<close>

section \<open>Lemma collections\<close>

named_theorems monitor_defs "definitions of the operations of the monitor, for unfolding"
named_theorems frame_simps "fields that an operation leaves unchanged"

section \<open>Time\<close>

type_synonym timestamp = int

text \<open>\<^verbatim>\<open>timedelta.total_seconds()\<close>: the difference of two timestamps in seconds.\<close>

definition total_seconds :: "int \<Rightarrow> real" where
  "total_seconds d = real_of_int d / 1000000"

section \<open>Exceptions\<close>

text \<open>
  The exceptions the program can meet, and the text \<^verbatim>\<open>str(e)\<close> gives for each. The
  two \<^verbatim>\<open>raise Exception(...)\<close> of \<^verbatim>\<open>run_speedtest\<close> are \<open>PyException\<close> with their
  literal message; the others come from the interpreter and the libraries. A
  \<open>KeyError\<close> carries the key, and its text is the key in quotes; for the others the
  argument stands for the message, whose wording depends on the version of the
  interpreter (where the model raises one itself, the argument is what the message is
  about: the name of a type, the text that could not be converted).
\<close>

datatype exn =
    PyException string
  | FileNotFoundError string
  | TimeoutExpired string
  | JSONDecodeError string
  | KeyError string
  | TypeError string
  | AttributeError string
  | ValueError string
  | IndexError string
  | OSError string
  | NoSectionError string
  | NoOptionError string string

text \<open>\<^verbatim>\<open>repr\<close> of a string without quotes or escapes in it.\<close>

definition py_repr :: "string \<Rightarrow> string" where
  "py_repr s = CHR 0x27 # s @ [CHR 0x27]"

fun exn_str :: "exn \<Rightarrow> string" where
  "exn_str (PyException s) = s"
| "exn_str (FileNotFoundError s) = s"
| "exn_str (TimeoutExpired s) = s"
| "exn_str (JSONDecodeError s) = s"
| "exn_str (KeyError s) = py_repr s"
| "exn_str (TypeError s) = s"
| "exn_str (AttributeError s) = s"
| "exn_str (ValueError s) = s"
| "exn_str (IndexError s) = s"
| "exn_str (OSError s) = s"
| "exn_str (NoSectionError section) = ''No section: '' @ py_repr section"
| "exn_str (NoOptionError option section) =
     ''No option '' @ py_repr option @ '' in section: '' @ py_repr section"

text \<open>\<open>Inl\<close> is a raised exception, \<open>Inr\<close> a returned value.\<close>

type_synonym 'a result = "exn + 'a"

text \<open>Sequencing: an exception of the first step is the exception of the whole.\<close>

definition rbind :: "'a result \<Rightarrow> ('a \<Rightarrow> 'b result) \<Rightarrow> 'b result" where
  "rbind r f = (case r of Inl e \<Rightarrow> Inl e | Inr x \<Rightarrow> f x)"

lemma rbind_simps [simp]: "rbind (Inl e) f = Inl e" "rbind (Inr x) f = f x"
  by (simp_all add: rbind_def)

lemma rbind_Inr_iff: "rbind r f = Inr y \<longleftrightarrow> (\<exists>x. r = Inr x \<and> f x = Inr y)"
  by (cases r) auto

lemma rbind_Inl_iff: "rbind r f = Inl e \<longleftrightarrow> r = Inl e \<or> (\<exists>x. r = Inr x \<and> f x = Inl e)"
  by (cases r) auto

text \<open>
  A comprehension over fallible items: the items in order, or the first exception.
\<close>

primrec collect :: "'a result list \<Rightarrow> 'a list result" where
  "collect [] = Inr []"
| "collect (x # xs) = rbind x (\<lambda>y. rbind (collect xs) (\<lambda>ys. Inr (y # ys)))"

lemma collect_Inr_iff: "collect xs = Inr ys \<longleftrightarrow> xs = map Inr ys"
  by (induction xs arbitrary: ys) (auto simp: rbind_Inr_iff)

lemma collect_map_Inr [simp]: "collect (map Inr ys) = Inr ys"
  by (simp add: collect_Inr_iff)

lemma collect_map_ok: "(\<And>x. x \<in> set xs \<Longrightarrow> f x = Inr (g x)) \<Longrightarrow> collect (map f xs) = Inr (map g xs)"
  by (simp add: collect_Inr_iff)

lemma collect_first_error: "collect (map Inr ys @ Inl e # zs) = Inl e"
  by (induction ys) simp_all

lemma collect_Inl_iff: "collect xs = Inl e \<longleftrightarrow> (\<exists>ys zs. xs = map Inr ys @ Inl e # zs)"
proof
  show "collect xs = Inl e \<Longrightarrow> \<exists>ys zs. xs = map Inr ys @ Inl e # zs"
  proof (induction xs)
    case Nil
    then show ?case by simp
  next
    case (Cons x xs)
    show ?case
    proof (cases x)
      case (Inl e')
      with Cons.prems have "x # xs = map Inr [] @ Inl e # xs" by simp
      then show ?thesis by blast
    next
      case (Inr y)
      with Cons.prems have "collect xs = Inl e" by (auto simp: rbind_Inl_iff)
      then obtain ys zs where "xs = map Inr ys @ Inl e # zs" using Cons.IH by blast
      with Inr have "x # xs = map Inr (y # ys) @ Inl e # zs" by simp
      then show ?thesis by blast
    qed
  qed
qed (auto simp: collect_first_error)

lemma collect_length: "collect xs = Inr ys \<Longrightarrow> length ys = length xs"
  by (auto simp: collect_Inr_iff)

text \<open>Python's \<^verbatim>\<open>float(s)\<close> on a string: the interpreter's parser, an interface.\<close>

type_synonym float_parser = "string \<Rightarrow> real option"

section \<open>JSON values\<close>

text \<open>
  What \<^verbatim>\<open>json.loads\<close> returns: \<^verbatim>\<open>None\<close>, a \<^verbatim>\<open>bool\<close>, an \<^verbatim>\<open>int\<close>, a
  \<^verbatim>\<open>float\<close>, a \<^verbatim>\<open>str\<close>, a \<^verbatim>\<open>list\<close> or a \<^verbatim>\<open>dict\<close>. A dictionary is the
  list of its members as the text has them; of two members with the same name the
  later one is the value (\<open>dict_get\<close>).
\<close>

datatype json =
    JNull
  | JBool bool
  | JInt int
  | JFloat real
  | JStr string
  | JArr "json list"
  | JObj "(string \<times> json) list"

fun type_name :: "json \<Rightarrow> string" where
  "type_name JNull = ''NoneType''"
| "type_name (JBool b) = ''bool''"
| "type_name (JInt i) = ''int''"
| "type_name (JFloat x) = ''float''"
| "type_name (JStr s) = ''str''"
| "type_name (JArr xs) = ''list''"
| "type_name (JObj kvs) = ''dict''"

definition dict_get :: "(string \<times> json) list \<Rightarrow> string \<Rightarrow> json option" where
  "dict_get kvs k = map_of (rev kvs) k"

text \<open>\<^verbatim>\<open>obj.get(key, default)\<close>: only a dictionary has the method.\<close>

fun py_get :: "json \<Rightarrow> string \<Rightarrow> json \<Rightarrow> json result" where
  "py_get (JObj kvs) k dflt = Inr (case dict_get kvs k of None \<Rightarrow> dflt | Some v \<Rightarrow> v)"
| "py_get v k dflt = Inl (AttributeError (type_name v))"

text \<open>\<^verbatim>\<open>obj[key]\<close> with a string key: a missing key, or a value that is no dictionary.\<close>

fun py_getitem :: "json \<Rightarrow> string \<Rightarrow> json result" where
  "py_getitem (JObj kvs) k = (case dict_get kvs k of None \<Rightarrow> Inl (KeyError k) | Some v \<Rightarrow> Inr v)"
| "py_getitem v k = Inl (TypeError (type_name v))"

text \<open>The number a value is in arithmetic: a \<^verbatim>\<open>bool\<close> is an \<^verbatim>\<open>int\<close> in Python.\<close>

fun py_number :: "json \<Rightarrow> real option" where
  "py_number (JInt i) = Some (real_of_int i)"
| "py_number (JFloat x) = Some x"
| "py_number (JBool b) = Some (if b then 1 else 0)"
| "py_number v = None"

text \<open>\<^verbatim>\<open>v / d\<close> for a non-zero literal \<open>d\<close>.\<close>

definition py_truediv :: "json \<Rightarrow> real \<Rightarrow> real result" where
  "py_truediv v d = (case py_number v of Some x \<Rightarrow> Inr (x / d) | None \<Rightarrow> Inl (TypeError (type_name v)))"

text \<open>
  \<^verbatim>\<open>format(v, '.1f')\<close>, as an f-string does it: the number that is formatted, a
  \<^verbatim>\<open>ValueError\<close> for a string and a \<^verbatim>\<open>TypeError\<close> for the other values.
\<close>

definition py_format_f :: "json \<Rightarrow> real result" where
  "py_format_f v =
     (case py_number v of
        Some x \<Rightarrow> Inr x
      | None \<Rightarrow> (case v of JStr s \<Rightarrow> Inl (ValueError ''Unknown format code'')
                         | _ \<Rightarrow> Inl (TypeError (type_name v))))"

section \<open>Strings\<close>

text \<open>
  \<^verbatim>\<open>c.isspace()\<close> on the ASCII range: tab, line feed, vertical tab, form feed,
  carriage return, the four separators 28 to 31, and the space.
\<close>

definition py_isspace :: "char \<Rightarrow> bool" where
  "py_isspace c = (let n = (of_char c :: nat) in (9 \<le> n \<and> n \<le> 13) \<or> (28 \<le> n \<and> n \<le> 32))"

text \<open>\<^verbatim>\<open>sub in s\<close> for strings: a scan for the first position where \<open>sub\<close> starts.\<close>

fun contains :: "'a list \<Rightarrow> 'a list \<Rightarrow> bool" where
  "contains sub [] = (sub = [])"
| "contains sub (c # cs) = (prefix sub (c # cs) \<or> contains sub cs)"

text \<open>
  \<^verbatim>\<open>s.split(sep)\<close> for a non-empty separator: the pieces between the occurrences of
  \<open>sep\<close>, found from the left and never overlapping. \<open>split_on\<close> is the scan;
  \<open>py_split\<close> adds the \<^verbatim>\<open>ValueError\<close> Python raises for the empty separator.
\<close>

function split_on :: "'a list \<Rightarrow> 'a list \<Rightarrow> 'a list list" where
  "split_on sep s =
     (if sep \<noteq> [] \<and> prefix sep s then [] # split_on sep (drop (length sep) s)
      else (case s of
              [] \<Rightarrow> [[]]
            | c # cs \<Rightarrow> (case split_on sep cs of
                          [] \<Rightarrow> [[c]]
                        | p # ps \<Rightarrow> (c # p) # ps)))"
  by pat_completeness auto
termination
proof (relation "measure (\<lambda>(sep, s). length s)")
  show "wf (measure (\<lambda>(sep, s). length s))" by simp
next
  fix sep s :: "'a list"
  assume "sep \<noteq> [] \<and> prefix sep s"
  then have "s \<noteq> []" by auto
  with \<open>sep \<noteq> [] \<and> prefix sep s\<close>
  show "((sep, drop (length sep) s), (sep, s)) \<in> measure (\<lambda>(sep, s). length s)"
    by simp
next
  fix sep s :: "'a list" and c cs
  assume "s = c # cs"
  then show "((sep, cs), (sep, s)) \<in> measure (\<lambda>(sep, s). length s)" by simp
qed

declare split_on.simps [simp del]

definition py_split :: "string \<Rightarrow> string \<Rightarrow> string list result" where
  "py_split sep s = (if sep = [] then Inl (ValueError ''empty separator'') else Inr (split_on sep s))"

text \<open>
  \<^verbatim>\<open>s.split()\<close>: the maximal runs of characters that are not white space, in order;
  no piece is empty.
\<close>

function py_split_ws :: "string \<Rightarrow> string list" where
  "py_split_ws s =
     (case dropWhile py_isspace s of
        [] \<Rightarrow> []
      | c # cs \<Rightarrow> takeWhile (\<lambda>x. \<not> py_isspace x) (c # cs)
                 # py_split_ws (dropWhile (\<lambda>x. \<not> py_isspace x) cs))"
  by pat_completeness auto
termination
proof (relation "measure length")
  show "wf (measure length)" by simp
next
  fix s :: string and c cs
  assume eq: "dropWhile py_isspace s = c # cs"
  have "length (dropWhile (\<lambda>x. \<not> py_isspace x) cs) \<le> length cs"
    by (rule length_dropWhile_le)
  also have "length cs < length (dropWhile py_isspace s)"
    by (simp add: eq)
  also have "\<dots> \<le> length s"
    by (rule length_dropWhile_le)
  finally show "(dropWhile (\<lambda>x. \<not> py_isspace x) cs, s) \<in> measure length"
    by simp
qed

declare py_split_ws.simps [simp del]

text \<open>\<^verbatim>\<open>xs[i]\<close> for a non-negative literal index, with its \<^verbatim>\<open>IndexError\<close>.\<close>

definition py_index :: "'a list \<Rightarrow> nat \<Rightarrow> 'a result" where
  "py_index xs i = (if i < length xs then Inr (xs ! i) else Inl (IndexError ''list index out of range''))"

text \<open>\<^verbatim>\<open>str.lower()\<close> on ASCII text: bit 5 of a capital letter is set.\<close>

definition lower_char :: "char \<Rightarrow> char" where
  "lower_char c =
     (if 65 \<le> (of_char c :: nat) \<and> (of_char c :: nat) \<le> 90
      then (case c of Char b0 b1 b2 b3 b4 b5 b6 b7 \<Rightarrow> Char b0 b1 b2 b3 b4 True b6 b7)
      else c)"

definition py_lower :: "string \<Rightarrow> string" where
  "py_lower s = map lower_char s"

text \<open>
  \<^verbatim>\<open>max(xs, key=f)\<close> on a list with first element \<open>best\<close>: the first of the greatest.
\<close>

fun max_by :: "('a \<Rightarrow> int) \<Rightarrow> 'a \<Rightarrow> 'a list \<Rightarrow> 'a" where
  "max_by f best [] = best"
| "max_by f best (x # xs) = max_by f (if f best < f x then x else best) xs"

section \<open>Aggregates\<close>

text \<open>\<^verbatim>\<open>min(xs)\<close> and \<^verbatim>\<open>max(xs)\<close> on a list: a left-to-right scan.\<close>

fun py_min :: "real list \<Rightarrow> real result" where
  "py_min [] = Inl (ValueError ''min() arg is an empty sequence'')"
| "py_min (x # xs) = Inr (fold min xs x)"

fun py_max :: "real list \<Rightarrow> real result" where
  "py_max [] = Inl (ValueError ''max() arg is an empty sequence'')"
| "py_max (x # xs) = Inr (fold max xs x)"

text \<open>\<^verbatim>\<open>sum(xs) / len(xs)\<close>, the average the report prints, on a non-empty list.\<close>

definition average :: "real list \<Rightarrow> real" where
  "average xs = sum_list xs / real (length xs)"

section \<open>Lemmas on strings\<close>

lemma contains_sublist: "contains sub s \<longleftrightarrow> sublist sub s"
  by (induction s) (auto simp: sublist_Cons_right)

lemma contains_append: "contains sub (pre @ sub @ post)"
  by (simp add: contains_sublist)

lemma split_on_nonempty [simp]: "split_on sep s \<noteq> []"
  by (subst split_on.simps) (auto split: list.splits)

lemma split_on_Nil [simp]: "split_on sep [] = [[]]"
  by (subst split_on.simps) simp

lemma split_on_prefix:
  "sep \<noteq> [] \<Longrightarrow> prefix sep s \<Longrightarrow> split_on sep s = [] # split_on sep (drop (length sep) s)"
  by (subst split_on.simps) simp

lemma split_on_Cons:
  "\<not> (sep \<noteq> [] \<and> prefix sep (c # cs)) \<Longrightarrow>
     split_on sep (c # cs) = (c # hd (split_on sep cs)) # tl (split_on sep cs)"
  by (subst split_on.simps) (auto split: list.splits)

lemmas split_on_simps = split_on_prefix split_on_Cons

text \<open>An occurrence of the separator gives at least two pieces, so \<^verbatim>\<open>[1]\<close> exists.\<close>

lemma split_on_contains_length:
  "sep \<noteq> [] \<Longrightarrow> contains sep s \<Longrightarrow> 2 \<le> length (split_on sep s)"
proof (induction s)
  case Nil
  then show ?case by simp
next
  case (Cons c cs)
  show ?case
  proof (cases "prefix sep (c # cs)")
    case True
    with Cons.prems have "split_on sep (c # cs) = [] # split_on sep (drop (length sep) (c # cs))"
      by (simp add: split_on_prefix)
    moreover have "1 \<le> length (split_on sep (drop (length sep) (c # cs)))"
      by (simp add: Suc_le_eq)
    ultimately show ?thesis by simp
  next
    case False
    with Cons.prems have "contains sep cs" by simp
    with Cons have "2 \<le> length (split_on sep cs)" by simp
    moreover from False
    have "length (split_on sep (c # cs)) = length (split_on sep cs)"
      by (simp add: split_on_Cons Suc_le_eq)
    ultimately show ?thesis by simp
  qed
qed

text \<open>
  The first piece ends at the first occurrence: when the separator does not occur
  earlier, the text before it is the first piece.
\<close>

lemma prefix_take_le: "prefix xs ys \<Longrightarrow> length xs \<le> n \<Longrightarrow> prefix xs (take n ys)"
  by (auto simp: prefix_def)

lemma split_on_first:
  assumes "sep \<noteq> []" and "\<not> contains sep (pre @ butlast sep)"
  shows "split_on sep (pre @ sep @ rest) = pre # split_on sep rest"
  using assms(2)
proof (induction pre)
  case Nil
  from assms(1) show ?case by (simp add: split_on_prefix)
next
  case (Cons c cs)
  have "\<not> prefix sep ((c # cs) @ sep @ rest)"
  proof
    assume "prefix sep ((c # cs) @ sep @ rest)"
    then have "prefix sep (take (length (c # cs) + (length sep - 1)) ((c # cs) @ sep @ rest))"
      using assms(1) by (intro prefix_take_le) (auto simp: Suc_le_eq)
    moreover have "take (length (c # cs) + (length sep - 1)) ((c # cs) @ sep @ rest) = (c # cs) @ butlast sep"
      by (simp add: butlast_conv_take)
    ultimately have "contains sep ((c # cs) @ butlast sep)" by simp
    with Cons.prems show False by simp
  qed
  moreover from Cons have "split_on sep (cs @ sep @ rest) = cs # split_on sep rest" by simp
  ultimately show ?case by (simp add: split_on_Cons)
qed

text \<open>The first piece reaches at least to the first character that could start the separator.\<close>

lemma split_on_hd_takeWhile:
  "prefix (takeWhile (\<lambda>c. c \<noteq> a) s) (hd (split_on (a # sep) s))"
proof (induction s)
  case Nil
  show ?case by simp
next
  case (Cons c cs)
  show ?case
  proof (cases "c = a")
    case True
    then show ?thesis by simp
  next
    case False
    then have "\<not> prefix (a # sep) (c # cs)" by auto
    with Cons False show ?thesis by (simp add: split_on_Cons)
  qed
qed

text \<open>Without an occurrence the string is the only piece.\<close>

lemma split_on_not_contains: "\<not> contains sep s \<Longrightarrow> split_on sep s = [s]"
proof (induction s)
  case Nil
  then show ?case by simp
next
  case (Cons c cs)
  then have "\<not> prefix sep (c # cs)" and "split_on sep cs = [cs]" by auto
  then show ?case by (simp add: split_on_Cons)
qed

text \<open>Joining the pieces with the separator gives the string back.\<close>

fun join :: "'a list \<Rightarrow> 'a list list \<Rightarrow> 'a list" where
  "join sep [] = []"
| "join sep [p] = p"
| "join sep (p # q # ps) = p @ sep @ join sep (q # ps)"

lemma join_Cons_hd:
  "ps \<noteq> [] \<Longrightarrow> join sep ((c # hd ps) # tl ps) = c # join sep ps"
  by (cases ps; cases "tl ps") auto

lemma join_split_on: "join sep (split_on sep s) = s"
proof (induction sep s rule: split_on.induct)
  case (1 sep s)
  show ?case
  proof (cases "sep \<noteq> [] \<and> prefix sep s")
    case True
    then obtain r where s: "s = sep @ r" by (auto simp: prefix_def)
    from True "1.IH"(1) have "join sep (split_on sep (drop (length sep) s)) = drop (length sep) s"
      by simp
    with True s show ?thesis
      by (cases "split_on sep r") (auto simp: split_on_prefix)
  next
    case False
    show ?thesis
    proof (cases s)
      case Nil
      then show ?thesis by simp
    next
      case (Cons c cs)
      with False "1.IH"(2) have "join sep (split_on sep cs) = cs" by simp
      with False Cons show ?thesis
        by (simp add: split_on_Cons join_Cons_hd)
    qed
  qed
qed

lemma py_split_ws_Nil [simp]: "py_split_ws [] = []"
  by (subst py_split_ws.simps) simp

lemma py_split_ws_space [simp]: "py_isspace c \<Longrightarrow> py_split_ws (c # cs) = py_split_ws cs"
  by (subst py_split_ws.simps, subst (2) py_split_ws.simps) simp

lemma py_split_ws_gap: "\<forall>c \<in> set gap. py_isspace c \<Longrightarrow> py_split_ws (gap @ s) = py_split_ws s"
  by (induction gap) simp_all

lemma py_split_ws_blank: "\<forall>c \<in> set gap. py_isspace c \<Longrightarrow> py_split_ws gap = []"
  using py_split_ws_gap [of gap "[]"] by simp

lemma py_split_ws_word:
  "\<not> py_isspace c \<Longrightarrow>
     py_split_ws (c # cs) =
       (c # takeWhile (\<lambda>x. \<not> py_isspace x) cs) # py_split_ws (dropWhile (\<lambda>x. \<not> py_isspace x) cs)"
  by (subst py_split_ws.simps) simp

text \<open>Every piece of \<^verbatim>\<open>s.split()\<close> is non-empty and free of white space.\<close>

lemma py_split_ws_pieces:
  "w \<in> set (py_split_ws s) \<Longrightarrow> w \<noteq> [] \<and> (\<forall>c \<in> set w. \<not> py_isspace c)"
proof (induction s arbitrary: w rule: py_split_ws.induct)
  case (1 s)
  show ?case
  proof (cases "dropWhile py_isspace s")
    case Nil
    with "1.prems" show ?thesis by (subst (asm) py_split_ws.simps) simp
  next
    case (Cons c cs)
    then have c: "\<not> py_isspace c"
      by (metis hd_dropWhile list.distinct(1) list.sel(1))
    from "1.prems" Cons
    consider "w = takeWhile (\<lambda>x. \<not> py_isspace x) (c # cs)"
      | "w \<in> set (py_split_ws (dropWhile (\<lambda>x. \<not> py_isspace x) cs))"
      by (subst (asm) py_split_ws.simps) auto
    then show ?thesis
    proof cases
      case 1
      with c show ?thesis by (auto dest: set_takeWhileD)
    next
      case 2
      with "1.IH" Cons show ?thesis by blast
    qed
  qed
qed

text \<open>The first piece: the first run after the leading white space.\<close>

lemma py_split_ws_first:
  "py_index (py_split_ws s) 0 =
     (case dropWhile py_isspace s of
        [] \<Rightarrow> Inl (IndexError ''list index out of range'')
      | c # cs \<Rightarrow> Inr (takeWhile (\<lambda>x. \<not> py_isspace x) (c # cs)))"
  by (subst py_split_ws.simps) (simp add: py_index_def split: list.split del: dropWhile_eq_Nil_conv)

text \<open>A word followed by white space is the first piece of \<^verbatim>\<open>s.split()\<close>.\<close>

lemma py_split_ws_first_word:
  assumes "w \<noteq> []" and "\<forall>c \<in> set w. \<not> py_isspace c" and "py_isspace x"
  shows "py_index (py_split_ws (w @ x # rest)) 0 = Inr w"
proof -
  from assms(1) obtain c cs where w: "w = c # cs" by (cases w) auto
  with assms(2) have "dropWhile py_isspace (w @ x # rest) = w @ x # rest" by simp
  moreover have "takeWhile (\<lambda>c. \<not> py_isspace c) (w @ x # rest) = w"
    using assms(2,3) by (simp add: takeWhile_tail)
  ultimately show ?thesis
    using w by (simp add: py_split_ws_first)
qed

section \<open>Lemmas on JSON values\<close>

lemma dict_get_Nil [simp]: "dict_get [] k = None"
  by (simp add: dict_get_def)

lemma dict_get_single [simp]: "dict_get [(k, v)] k' = (if k' = k then Some v else None)"
  by (simp add: dict_get_def)

lemma dict_get_append:
  "dict_get (kvs @ kvs') k = (case dict_get kvs' k of None \<Rightarrow> dict_get kvs k | Some v \<Rightarrow> Some v)"
  by (simp add: dict_get_def map_add_def split: option.split)

lemma dict_get_distinct:
  "distinct (map fst kvs) \<Longrightarrow> (k, v) \<in> set kvs \<Longrightarrow> dict_get kvs k = Some v"
  by (simp add: dict_get_def rev_map [symmetric] distinct_rev)

lemma py_get_obj [simp]:
  "dict_get kvs k = Some v \<Longrightarrow> py_get (JObj kvs) k dflt = Inr v"
  "dict_get kvs k = None \<Longrightarrow> py_get (JObj kvs) k dflt = Inr dflt"
  by simp_all

lemma py_get_Inr_iff: "(\<exists>v. py_get j k dflt = Inr v) \<longleftrightarrow> (\<exists>kvs. j = JObj kvs)"
  by (cases j) auto

lemma py_getitem_Inr_iff: "py_getitem j k = Inr v \<longleftrightarrow> (\<exists>kvs. j = JObj kvs \<and> dict_get kvs k = Some v)"
  by (cases j) (auto split: option.splits)

lemma py_truediv_Inr_iff: "py_truediv v d = Inr y \<longleftrightarrow> (\<exists>x. py_number v = Some x \<and> y = x / d)"
  by (auto simp: py_truediv_def split: option.splits)

lemma py_format_f_Inr_iff: "py_format_f v = Inr x \<longleftrightarrow> py_number v = Some x"
  by (cases v) (auto simp: py_format_f_def)

section \<open>Lemmas on aggregates\<close>

lemma fold_min_le: "fold min xs (a::real) \<le> a"
proof (induction xs arbitrary: a)
  case Nil
  show ?case by simp
next
  case (Cons x xs)
  have "fold min xs (min x a) \<le> min x a" by (rule Cons.IH)
  then show ?case by simp
qed

lemma fold_min_le_mem: "x \<in> set xs \<Longrightarrow> fold min xs (a::real) \<le> x"
proof (induction xs arbitrary: a)
  case Nil
  then show ?case by simp
next
  case (Cons y xs)
  show ?case
  proof (cases "x = y")
    case True
    with fold_min_le [of xs "min y a"] show ?thesis by simp
  next
    case False
    with Cons show ?thesis by simp
  qed
qed

lemma fold_max_ge: "a \<le> fold max xs (a::real)"
proof (induction xs arbitrary: a)
  case Nil
  show ?case by simp
next
  case (Cons x xs)
  have "max x a \<le> fold max xs (max x a)" by (rule Cons.IH)
  then show ?case by simp
qed

lemma fold_max_ge_mem: "x \<in> set xs \<Longrightarrow> x \<le> fold max xs (a::real)"
proof (induction xs arbitrary: a)
  case Nil
  then show ?case by simp
next
  case (Cons y xs)
  show ?case
  proof (cases "x = y")
    case True
    with fold_max_ge [of "max y a" xs] show ?thesis by simp
  next
    case False
    with Cons show ?thesis by simp
  qed
qed

lemma py_min_le: "py_min xs = Inr m \<Longrightarrow> x \<in> set xs \<Longrightarrow> m \<le> x"
  by (cases xs) (auto simp: fold_min_le fold_min_le_mem)

lemma py_max_ge: "py_max xs = Inr m \<Longrightarrow> x \<in> set xs \<Longrightarrow> x \<le> m"
  by (cases xs) (auto simp: fold_max_ge fold_max_ge_mem)

lemma fold_min_mem: "fold min xs (a::real) \<in> insert a (set xs)"
  by (induction xs arbitrary: a) (auto simp: min_def)

lemma fold_max_mem: "fold max xs (a::real) \<in> insert a (set xs)"
  by (induction xs arbitrary: a) (auto simp: max_def)

lemma py_min_mem: "py_min xs = Inr m \<Longrightarrow> m \<in> set xs"
  using fold_min_mem by (cases xs) auto

lemma py_max_mem: "py_max xs = Inr m \<Longrightarrow> m \<in> set xs"
  using fold_max_mem by (cases xs) auto

lemma sum_list_lower: "(\<And>x. x \<in> set xs \<Longrightarrow> (m::real) \<le> x) \<Longrightarrow> real (length xs) * m \<le> sum_list xs"
  by (induction xs) (force simp: algebra_simps intro: add_mono)+

lemma sum_list_upper: "(\<And>x. x \<in> set xs \<Longrightarrow> x \<le> (m::real)) \<Longrightarrow> sum_list xs \<le> real (length xs) * m"
  by (induction xs) (force simp: algebra_simps intro: add_mono)+

lemma average_lower: "xs \<noteq> [] \<Longrightarrow> (\<And>x. x \<in> set xs \<Longrightarrow> m \<le> x) \<Longrightarrow> m \<le> average xs"
  using sum_list_lower [of xs m] by (simp add: average_def pos_le_divide_eq mult.commute)

lemma average_upper: "xs \<noteq> [] \<Longrightarrow> (\<And>x. x \<in> set xs \<Longrightarrow> x \<le> m) \<Longrightarrow> average xs \<le> m"
  using sum_list_upper [of xs m] by (simp add: average_def pos_divide_le_eq mult.commute)

lemma length_filter_split: "length (filter P xs) + length (filter (\<lambda>x. \<not> P x) xs) = length xs"
  by (induction xs) auto

section \<open>Lemmas on lower case and on the greatest element\<close>

lemma lower_char_idem [simp]: "lower_char (lower_char c) = lower_char c"
  by (cases c) (auto simp: lower_char_def)

lemma py_lower_idem [simp]: "py_lower (py_lower s) = py_lower s"
  by (simp add: py_lower_def)

lemma py_lower_length [simp]: "length (py_lower s) = length s"
  by (simp add: py_lower_def)

lemma max_by_mem: "max_by f best xs \<in> insert best (set xs)"
  by (induction xs arbitrary: best) auto

lemma max_by_ge_best: "f best \<le> f (max_by f best xs)"
proof (induction xs arbitrary: best)
  case Nil
  show ?case by simp
next
  case (Cons x xs)
  have "f best \<le> f (if f best < f x then x else best)" by simp
  also have "\<dots> \<le> f (max_by f (if f best < f x then x else best) xs)" by (rule Cons.IH)
  finally show ?case by simp
qed

lemma max_by_ge: "x \<in> insert best (set xs) \<Longrightarrow> f x \<le> f (max_by f best xs)"
proof (induction xs arbitrary: best)
  case Nil
  then show ?case by simp
next
  case (Cons y ys)
  let ?b = "if f best < f y then y else best"
  from Cons.prems consider "x = best" | "x = y" | "x \<in> set ys" by auto
  then show ?case
  proof cases
    case 1
    have "f best \<le> f ?b" by simp
    also have "\<dots> \<le> f (max_by f ?b ys)" by (rule max_by_ge_best)
    finally show ?thesis using 1 by simp
  next
    case 2
    have "f y \<le> f ?b" by simp
    also have "\<dots> \<le> f (max_by f ?b ys)" by (rule max_by_ge_best)
    finally show ?thesis using 2 by simp
  next
    case 3
    then show ?thesis using Cons.IH [of ?b] by simp
  qed
qed

end
