(* ===== verification/Logging.thy ===== *)
theory Logging
  imports Prelude
begin

text \<open>
  The logger of \<^verbatim>\<open>src/internet_monitor.py\<close>. \<^verbatim>\<open>__init__\<close> configures the root
  logger with \<^verbatim>\<open>level=logging.INFO\<close> (lines 52 to 60), so a record below that level
  is dropped: \<open>emit\<close> appends a line only when its level passes \<open>root_level\<close>. A log
  line is its level and a structured message, one constructor of \<open>log_msg\<close> for each
  \<^verbatim>\<open>self.logger\<close> call of the source, with the values the f-string formats as
  arguments (the formatting itself is not modelled). The levels are ordered by their
  Python numbers, through an instance of \<open>linorder\<close>.
\<close>

section \<open>Levels\<close>

datatype log_level = DEBUG | INFO | WARNING | ERROR

fun levelno :: "log_level \<Rightarrow> nat" where
  "levelno DEBUG = 10"
| "levelno INFO = 20"
| "levelno WARNING = 30"
| "levelno ERROR = 40"

lemma levelno_inj: "levelno a = levelno b \<longleftrightarrow> a = b"
  by (cases a; cases b) simp_all

instantiation log_level :: linorder
begin

definition less_eq_log_level :: "log_level \<Rightarrow> log_level \<Rightarrow> bool" where
  "less_eq_log_level a b \<longleftrightarrow> levelno a \<le> levelno b"

definition less_log_level :: "log_level \<Rightarrow> log_level \<Rightarrow> bool" where
  "less_log_level a b \<longleftrightarrow> levelno a < levelno b"

instance
  by standard (auto simp: less_eq_log_level_def less_log_level_def levelno_inj)

end

lemmas log_level_ord = less_eq_log_level_def less_log_level_def

section \<open>Messages\<close>

datatype log_msg =
    Ping_failed_rc string int
  | Ping_timed_out string
  | Ping_failed string exn
  | Http_status string int
  | Http_failed string exn
  | Connectivity_result nat nat bool
  | Connection_restored real
  | Connection_lost
  | Running_speedtest
  | Speedtest_result real real real
  | Speedtest_error string
  | Report_generated int
  | Report_failed exn
  | Uploading string string string
  | Uploaded string
  | Not_found_locally string
  | Uploaded_report int
  | Upload_completed
  | Scp_failed string
  | Scp_failed_status "string list" int
  | Upload_failed string
  | Starting_monitor
  | Ping_interval_is int
  | Speedtest_interval_is int
  | Upload_interval_is int bool
  | Logs_directory_is string
  | Stopped_by_user

type_synonym log_line = "log_level \<times> log_msg"

section \<open>The handler\<close>

definition root_level :: log_level where
  "root_level = INFO"

definition emit :: "log_level \<Rightarrow> log_msg \<Rightarrow> log_line list \<Rightarrow> log_line list" where
  "emit lvl msg ls = (if root_level \<le> lvl then ls @ [(lvl, msg)] else ls)"

section \<open>Lemmas\<close>

lemma emit_debug [simp]: "emit DEBUG msg ls = ls"
  by (simp add: emit_def root_level_def log_level_ord)

lemma emit_info [simp]: "emit INFO msg ls = ls @ [(INFO, msg)]"
  by (simp add: emit_def root_level_def log_level_ord)

lemma emit_warning [simp]: "emit WARNING msg ls = ls @ [(WARNING, msg)]"
  by (simp add: emit_def root_level_def log_level_ord)

lemma emit_error [simp]: "emit ERROR msg ls = ls @ [(ERROR, msg)]"
  by (simp add: emit_def root_level_def log_level_ord)

lemma emit_prefix: "prefix ls (emit lvl msg ls)"
  by (simp add: emit_def)

lemma emit_levels: "(l, x) \<in> set (emit lvl msg ls) \<Longrightarrow> (l, x) \<in> set ls \<or> root_level \<le> l"
  by (auto simp: emit_def split: if_splits)

end
