(* ===== verification/Records.thy ===== *)
theory Records
  imports Logging
begin

text \<open>
  The record store: the three CSV series and the report files that
  \<^verbatim>\<open>src/internet_monitor.py\<close> keeps under its log directory, as values.

  A CSV file is \<open>None\<close> when it does not exist and otherwise the list of its rows, a row
  being the list of its fields. A field (\<open>cell\<close>) is what \<^verbatim>\<open>csv.writer\<close> was given:
  \<open>Text\<close> for a string, \<open>Num\<close> for a number, \<open>Stamp\<close> for the \<^verbatim>\<open>isoformat()\<close> of a
  \<^verbatim>\<open>datetime\<close>, \<open>Details\<close> for the f-string of line 229, \<open>Label\<close> for the
  f-strings of lines 261, 272 and 285 (two values with a dash between them) and
  \<open>Absent\<close> for \<^verbatim>\<open>None\<close>. The text of numbers and dates is not modelled, so reading a file back
  keeps the constructor: \<open>cell_float\<close> is \<^verbatim>\<open>float(field)\<close>, which gives back the
  number of a \<open>Num\<close> cell (the text \<^verbatim>\<open>csv.writer\<close> writes for a float is its
  \<^verbatim>\<open>repr\<close>, which \<^verbatim>\<open>float()\<close> reads back exactly), asks the interpreter's parser
  for a \<open>Text\<close> cell, and raises for the others, whose text is never that of a number.
  \<open>cell_is\<close> is \<^verbatim>\<open>field == 'literal'\<close> for the three literals the report compares
  with, none of which is the text of a number or a date.

  \<open>writerow\<close> and \<open>append_rows\<close> are \<^verbatim>\<open>csv.writer(f).writerow\<close> on a file opened with
  \<^verbatim>\<open>'w'\<close> or \<^verbatim>\<open>'a'\<close>; \<open>dict_reader\<close> is \<^verbatim>\<open>list(csv.DictReader(f))\<close> and
  \<open>getitem\<close> the lookup \<^verbatim>\<open>row['key']\<close> in one of its dictionaries, both after the
  documented behaviour of the \<^verbatim>\<open>csv\<close> module. Failures of the file system itself
  (permissions, a full disk) are not modelled.
\<close>

section \<open>Cells, rows and files\<close>

datatype cell =
    Text string
  | Num real
  | Stamp timestamp
  | Details timestamp timestamp
  | Label json json
  | Absent

type_synonym row = "cell list"

type_synonym csv_file = "row list option"

text \<open>The header rows of \<^verbatim>\<open>_init_csv_files\<close>.\<close>

definition connectivity_header :: row where
  "connectivity_header =
     [Text ''timestamp'', Text ''status'', Text ''target'', Text ''response_time_ms'', Text ''method'']"

definition speedtest_header :: row where
  "speedtest_header =
     [Text ''timestamp'', Text ''download_mbps'', Text ''upload_mbps'', Text ''ping_ms'',
      Text ''server'', Text ''status'']"

definition events_header :: row where
  "events_header =
     [Text ''timestamp'', Text ''event_type'', Text ''duration_seconds'', Text ''details'']"

lemmas header_defs = connectivity_header_def speedtest_header_def events_header_def

section \<open>Writing\<close>

text \<open>\<^verbatim>\<open>csv.writer\<close> writes \<^verbatim>\<open>None\<close> as the empty string.\<close>

fun csv_field :: "cell \<Rightarrow> cell" where
  "csv_field Absent = Text []"
| "csv_field c = c"

definition writerow :: "row \<Rightarrow> row" where
  "writerow r = map csv_field r"

text \<open>The rows of a file, none when it does not exist.\<close>

definition rows_of :: "csv_file \<Rightarrow> row list" where
  "rows_of f = (case f of None \<Rightarrow> [] | Some rs \<Rightarrow> rs)"

text \<open>
  \<^verbatim>\<open>if not path.exists(): open(path, 'w'); writerow(header)\<close>: one step of
  \<^verbatim>\<open>_init_csv_files\<close>.
\<close>

definition init_file :: "row \<Rightarrow> csv_file \<Rightarrow> csv_file" where
  "init_file header f = (case f of None \<Rightarrow> Some [writerow header] | Some rs \<Rightarrow> Some rs)"

text \<open>\<^verbatim>\<open>open(path, 'a')\<close> and one \<^verbatim>\<open>writerow\<close> for each row: creates a missing file.\<close>

definition append_rows :: "row list \<Rightarrow> csv_file \<Rightarrow> csv_file" where
  "append_rows rs f = Some (rows_of f @ map writerow rs)"

section \<open>Reading\<close>

type_synonym csv_dict = "cell \<Rightarrow> cell option"

text \<open>
  One row as a dictionary over the field names: a short row is filled with
  \<^verbatim>\<open>None\<close>, and of two equal field names the later one wins.
\<close>

definition row_dict :: "row \<Rightarrow> row \<Rightarrow> csv_dict" where
  "row_dict fieldnames r =
     map_of (rev (zip fieldnames (r @ replicate (length fieldnames - length r) Absent)))"

text \<open>The first row gives the field names; empty rows are skipped.\<close>

fun dict_reader :: "row list \<Rightarrow> csv_dict list" where
  "dict_reader [] = []"
| "dict_reader (fieldnames # rs) = map (row_dict fieldnames) (filter (\<lambda>r. r \<noteq> []) rs)"

definition getitem :: "csv_dict \<Rightarrow> string \<Rightarrow> cell result" where
  "getitem d k = (case d (Text k) of None \<Rightarrow> Inl (KeyError k) | Some v \<Rightarrow> Inr v)"

definition cell_is :: "cell \<Rightarrow> string \<Rightarrow> bool" where
  "cell_is c s \<longleftrightarrow> c = Text s"

fun cell_float :: "float_parser \<Rightarrow> cell \<Rightarrow> real result" where
  "cell_float flt (Num x) = Inr x"
| "cell_float flt (Text s) = (case flt s of Some x \<Rightarrow> Inr x | None \<Rightarrow> Inl (ValueError s))"
| "cell_float flt (Stamp t) = Inl (ValueError ''could not convert string to float'')"
| "cell_float flt (Details a b) = Inl (ValueError ''could not convert string to float'')"
| "cell_float flt (Label a b) = Inl (ValueError ''could not convert string to float'')"
| "cell_float flt Absent = Inl (TypeError ''float() argument must be a string or a real number'')"

section \<open>Report files\<close>

text \<open>
  A report file is the list of the parts \<^verbatim>\<open>generate_report\<close> has written to it, in
  order: the heading with the time of generation, then one part for each summary.
\<close>

datatype report_part =
    Heading timestamp
  | Connectivity_summary nat nat real
  | Disconnection_summary nat real real
  | Speed_summary nat nat real real real real

type_synonym report_file = "report_part list"

section \<open>The log directory\<close>

text \<open>
  What the program keeps on disk: the configuration file (\<open>None\<close> when it does not
  exist), the three series under the names of the attributes that hold their paths, the
  report files by the second of their generation (the file name
  \<^verbatim>\<open>report_%Y%m%d_%H%M%S.txt\<close> has no finer part), and the lines of
  \<^verbatim>\<open>monitor.log\<close>. The monitor object extends this record with its own fields.
\<close>

type_synonym config = "((string \<times> string) \<times> string) list"

record disk =
  config_ini :: "config option"
  connectivity_log :: csv_file
  speedtest_log :: csv_file
  events_log :: csv_file
  report_files :: "(int \<times> report_file) list"
  log_lines :: "log_line list"

text \<open>\<^verbatim>\<open>_init_csv_files\<close>: each series gets its header unless the file exists.\<close>

definition init_csv_files :: "'a disk_scheme \<Rightarrow> 'a disk_scheme" where
  "init_csv_files d =
     d\<lparr>connectivity_log := init_file connectivity_header (connectivity_log d),
       speedtest_log := init_file speedtest_header (speedtest_log d),
       events_log := init_file events_header (events_log d)\<rparr>"

text \<open>
  A series is well formed when the file exists, starts with its header, and every
  other row has the header's length.
\<close>

fun series_ok :: "row \<Rightarrow> csv_file \<Rightarrow> bool" where
  "series_ok header (Some (h # rs)) \<longleftrightarrow> h = header \<and> list_all (\<lambda>r. length r = length header) rs"
| "series_ok header (Some []) \<longleftrightarrow> False"
| "series_ok header None \<longleftrightarrow> False"

section \<open>Lemmas: files only grow\<close>

lemma rows_of_simps [simp]: "rows_of None = []" "rows_of (Some rs) = rs"
  by (simp_all add: rows_of_def)

lemma writerow_length [simp]: "length (writerow r) = length r"
  by (simp add: writerow_def)

lemma csv_field_not_Absent [simp]: "csv_field c \<noteq> Absent" "Absent \<noteq> csv_field c"
  by (cases c; simp)+

lemma writerow_no_Absent: "Absent \<notin> set (writerow r)"
  by (auto simp: writerow_def)

lemma csv_field_idem [simp]: "csv_field (csv_field c) = csv_field c"
  by (cases c) simp_all

lemma writerow_idem [simp]: "writerow (writerow r) = writerow r"
  by (simp add: writerow_def)

lemma writerow_headers [simp]:
  "writerow connectivity_header = connectivity_header"
  "writerow speedtest_header = speedtest_header"
  "writerow events_header = events_header"
  by (simp_all add: writerow_def header_defs)

lemma init_file_exists [simp]: "init_file h f \<noteq> None"
  by (simp add: init_file_def split: option.split)

lemma init_file_keeps: "f \<noteq> None \<Longrightarrow> init_file h f = f"
  by (auto simp: init_file_def)

lemma init_file_None [simp]: "init_file h None = Some [writerow h]"
  by (simp add: init_file_def)

lemma init_file_Some [simp]: "init_file h (Some rs) = Some rs"
  by (simp add: init_file_def)

lemma init_file_idem [simp]: "init_file h (init_file h f) = init_file h f"
  by (cases f) simp_all

lemma init_file_prefix: "prefix (rows_of f) (rows_of (init_file h f))"
  by (cases f) simp_all

lemma rows_of_append_rows [simp]: "rows_of (append_rows rs f) = rows_of f @ map writerow rs"
  by (simp add: append_rows_def)

lemma append_rows_exists [simp]: "append_rows rs f \<noteq> None"
  by (simp add: append_rows_def)

lemma append_rows_prefix: "prefix (rows_of f) (rows_of (append_rows rs f))"
  by simp

lemma append_rows_length: "length (rows_of (append_rows rs f)) = length (rows_of f) + length rs"
  by simp

lemma append_rows_append:
  "append_rows rs2 (append_rows rs1 f) = append_rows (rs1 @ rs2) f"
  by (simp add: append_rows_def)

lemma append_rows_Nil [simp]: "append_rows [] (Some rs) = Some rs"
  by (simp add: append_rows_def)

lemma init_csv_files_idem [simp]: "init_csv_files (init_csv_files d) = init_csv_files d"
  by (simp add: init_csv_files_def)

lemma init_csv_files_exist [simp]:
  "connectivity_log (init_csv_files d) \<noteq> None"
  "speedtest_log (init_csv_files d) \<noteq> None"
  "events_log (init_csv_files d) \<noteq> None"
  by (simp_all add: init_csv_files_def)

lemma init_csv_files_frame [frame_simps]:
  "config_ini (init_csv_files d) = config_ini d"
  "report_files (init_csv_files d) = report_files d"
  "log_lines (init_csv_files d) = log_lines d"
  "disk.more (init_csv_files d) = disk.more d"
  by (simp_all add: init_csv_files_def)

lemma series_ok_rows: "series_ok h f \<longleftrightarrow> (\<exists>rs. f = Some (h # rs) \<and> list_all (\<lambda>r. length r = length h) rs)"
  by (cases "(h, f)" rule: series_ok.cases) auto

lemma series_ok_init_file:
  "writerow h = h \<Longrightarrow> f = None \<or> series_ok h f \<Longrightarrow> series_ok h (init_file h f)"
  by (cases f) (auto simp: series_ok_rows)

lemma series_ok_append_rows:
  "series_ok h f \<Longrightarrow> list_all (\<lambda>r. length r = length h) rs \<Longrightarrow> series_ok h (append_rows rs f)"
  by (auto simp: series_ok_rows append_rows_def list_all_iff)

text \<open>The header stays the first row of a file that has one.\<close>

lemma append_rows_hd:
  "rows_of f \<noteq> [] \<Longrightarrow> hd (rows_of (append_rows rs f)) = hd (rows_of f)"
  by simp

section \<open>Lemmas: reading\<close>

lemma dict_reader_length: "length (dict_reader (h # rs)) = length (filter (\<lambda>r. r \<noteq> []) rs)"
  by simp

lemma dict_reader_append:
  "dict_reader ((h # rs) @ rs') = dict_reader (h # rs) @ map (row_dict h) (filter (\<lambda>r. r \<noteq> []) rs')"
  by simp

lemma row_dict_distinct:
  assumes "distinct fieldnames" and "i < length fieldnames" and "length r = length fieldnames"
  shows "row_dict fieldnames r (fieldnames ! i) = Some (r ! i)"
proof -
  have "distinct (map fst (rev (zip fieldnames r)))"
    using assms(1,3) by (simp add: rev_map [symmetric] distinct_rev)
  moreover have "(fieldnames ! i, r ! i) \<in> set (rev (zip fieldnames r))"
    using assms(2,3) by (auto simp: set_zip)
  ultimately show ?thesis
    using assms(3) by (simp add: row_dict_def)
qed

lemma row_dict_short:
  assumes "distinct fieldnames" and "i < length fieldnames" and "length r \<le> i"
  shows "row_dict fieldnames r (fieldnames ! i) = Some Absent"
proof -
  let ?r = "r @ replicate (length fieldnames - length r) Absent"
  have len: "length ?r = length fieldnames" using assms(2,3) by simp
  have "distinct (map fst (rev (zip fieldnames ?r)))"
    using assms(1) len by (simp add: rev_map [symmetric] distinct_rev)
  moreover have "?r ! i = Absent"
    using assms(2,3) by (simp add: nth_append)
  then have "(fieldnames ! i, Absent) \<in> set (rev (zip fieldnames ?r))"
    using assms(2) len by (auto simp: set_zip)
  ultimately show ?thesis
    by (simp add: row_dict_def)
qed

lemma csv_file_rows: "f \<noteq> None \<Longrightarrow> f = Some (rows_of f)"
  by (cases f) simp_all

lemma series_ok_Some: "series_ok h f \<Longrightarrow> f = Some (h # tl (rows_of f))"
  by (auto simp: series_ok_rows)

lemma series_ok_tl: "series_ok h f \<Longrightarrow> list_all (\<lambda>r. length r = length h) (tl (rows_of f))"
  by (auto simp: series_ok_rows)

lemma getitem_Inr: "d (Text k) = Some v \<Longrightarrow> getitem d k = Inr v"
  by (simp add: getitem_def)

lemma getitem_Inl: "d (Text k) = None \<Longrightarrow> getitem d k = Inl (KeyError k)"
  by (simp add: getitem_def)

lemma cell_float_Inr:
  "cell_float flt c = Inr x \<longleftrightarrow> c = Num x \<or> (\<exists>s. c = Text s \<and> flt s = Some x)"
  by (cases c) (auto split: option.splits)

lemma cell_is_Text [simp]: "cell_is (Text s) t \<longleftrightarrow> s = t"
  by (simp add: cell_is_def)

lemma cell_is_other [simp]:
  "\<not> cell_is (Num x) t" "\<not> cell_is (Stamp a) t" "\<not> cell_is (Details a b) t"
  "\<not> cell_is (Label j k) t" "\<not> cell_is Absent t"
  by (simp_all add: cell_is_def)

end
