(* ===== verification/Monitor.thy ===== *)
theory Monitor
  imports Records "HOL-Library.AList"
begin

text \<open>
  The object of class \<^verbatim>\<open>InternetMonitor\<close>: its fields as a record that extends the
  log directory of theory \<open>Records\<close>, and \<^verbatim>\<open>__init__\<close> (lines 21 to 86) as the
  function that builds it from the constructor's arguments, the directory as it was
  found and the clock. Every operation of the later theories takes a monitor and returns
  the monitor after the call, over any extension of the record.
\<close>

section \<open>State\<close>

record monitor = disk +
  log_dir :: string
  ping_interval :: int
  speedtest_interval :: int
  upload_interval :: int
  config_file :: string
  config :: config
  is_connected :: bool
  disconnect_start :: "timestamp option"
  last_successful_ping :: timestamp
  ping_targets :: "string list"
  http_targets :: "string list"

section \<open>Construction\<close>

text \<open>The configuration written when the file does not exist (lines 36 to 47).\<close>

definition default_config :: config where
  "default_config =
     [((''VPS'', ''enabled''), ''false''),
      ((''VPS'', ''hostname''), ''your-vps-hostname.com''),
      ((''VPS'', ''username''), ''your-username''),
      ((''VPS'', ''key_file''), ''~/.ssh/id_rsa''),
      ((''VPS'', ''remote_directory''), ''/opt/internet-monitor''),
      ((''VPS'', ''port''), ''22''),
      ((''MONITOR'', ''location_name''), ''Home Network''),
      ((''MONITOR'', ''timezone''), ''UTC'')]"

definition default_ping_targets :: "string list" where
  "default_ping_targets = [''8.8.8.8'', ''1.1.1.1'', ''208.67.222.222'']"

definition default_http_targets :: "string list" where
  "default_http_targets =
     [''https://www.google.com'', ''https://www.cloudflare.com'', ''https://httpbin.org/get'']"

section \<open>Reading the configuration\<close>

text \<open>
  The three calls of \<^verbatim>\<open>configparser\<close> that the program makes, after the documented
  behaviour of the library on values without interpolation and without a
  \<^verbatim>\<open>DEFAULT\<close> section: \<^verbatim>\<open>config.get(section, option)\<close>,
  \<^verbatim>\<open>config.getboolean(section, option, fallback=...)\<close>, whose fallback stands in for a
  missing option but not for a value that is no boolean word, and
  \<^verbatim>\<open>config.set(section, option, value)\<close>.
\<close>

definition has_section :: "config \<Rightarrow> string \<Rightarrow> bool" where
  "has_section cfg section \<longleftrightarrow> section \<in> set (map (fst \<circ> fst) cfg)"

definition config_get :: "config \<Rightarrow> string \<Rightarrow> string \<Rightarrow> string result" where
  "config_get cfg section option =
     (case map_of cfg (section, option) of
        Some v \<Rightarrow> Inr v
      | None \<Rightarrow> if has_section cfg section then Inl (NoOptionError option section)
                else Inl (NoSectionError section))"

definition boolean_state :: "string \<Rightarrow> bool option" where
  "boolean_state v =
     (if py_lower v \<in> set [''1'', ''yes'', ''true'', ''on''] then Some True
      else if py_lower v \<in> set [''0'', ''no'', ''false'', ''off''] then Some False
      else None)"

definition getboolean :: "config \<Rightarrow> string \<Rightarrow> string \<Rightarrow> bool \<Rightarrow> bool result" where
  "getboolean cfg section option fallback =
     (case map_of cfg (section, option) of
        None \<Rightarrow> Inr fallback
      | Some v \<Rightarrow> (case boolean_state v of
                     Some b \<Rightarrow> Inr b
                   | None \<Rightarrow> Inl (ValueError (''Not a boolean: '' @ v))))"

definition config_set :: "config \<Rightarrow> string \<Rightarrow> string \<Rightarrow> string \<Rightarrow> config result" where
  "config_set cfg section option v =
     (if has_section cfg section then Inr (AList.update (section, option) v cfg)
      else Inl (NoSectionError section))"

text \<open>\<^verbatim>\<open>self.config.getboolean('VPS', 'enabled', fallback=False)\<close> (lines 390, 439, 445).\<close>

definition vps_enabled :: "'a monitor_scheme \<Rightarrow> bool result" where
  "vps_enabled m = getboolean (config m) ''VPS'' ''enabled'' False"

text \<open>
  \<^verbatim>\<open>__init__\<close>: the configuration is read, or the default one is taken and written;
  the series are initialised; the connection state starts connected, with no
  disconnection pending and the last successful check at the time of construction.
\<close>

definition init_monitor ::
  "string \<Rightarrow> int \<Rightarrow> int \<Rightarrow> int \<Rightarrow> string \<Rightarrow> disk \<Rightarrow> timestamp \<Rightarrow> monitor" where
  "init_monitor dir p_int s_int u_int cfile d now =
     (let cfg = (case config_ini d of Some c \<Rightarrow> c | None \<Rightarrow> default_config);
          d' = init_csv_files (d\<lparr>config_ini := Some cfg\<rparr>)
      in \<lparr>config_ini = config_ini d',
          connectivity_log = connectivity_log d',
          speedtest_log = speedtest_log d',
          events_log = events_log d',
          report_files = report_files d',
          log_lines = log_lines d',
          log_dir = dir,
          ping_interval = p_int,
          speedtest_interval = s_int,
          upload_interval = u_int,
          config_file = cfile,
          config = cfg,
          is_connected = True,
          disconnect_start = None,
          last_successful_ping = now,
          ping_targets = default_ping_targets,
          http_targets = default_http_targets\<rparr>)"

text \<open>The constructor with the defaults of its signature (line 21).\<close>

definition default_monitor :: "disk \<Rightarrow> timestamp \<Rightarrow> monitor" where
  "default_monitor d now = init_monitor ''internet_logs'' 30 3600 300 ''monitor_config.ini'' d now"

text \<open>A log directory in which nothing exists yet.\<close>

definition empty_disk :: disk where
  "empty_disk =
     \<lparr>config_ini = None, connectivity_log = None, speedtest_log = None, events_log = None,
      report_files = [], log_lines = []\<rparr>"

text \<open>Writing a line through \<^verbatim>\<open>self.logger\<close>.\<close>

definition log_emit :: "log_level \<Rightarrow> log_msg \<Rightarrow> 'a disk_scheme \<Rightarrow> 'a disk_scheme" where
  "log_emit lvl msg m = m\<lparr>log_lines := emit lvl msg (log_lines m)\<rparr>"

section \<open>Well-formedness\<close>

text \<open>
  The invariant of the connection state that the specification names: a disconnection
  is pending exactly when the monitor is not connected.
\<close>

definition conn_inv :: "'a monitor_scheme \<Rightarrow> bool" where
  "conn_inv m \<longleftrightarrow> (disconnect_start m = None) = is_connected m"

text \<open>The three series exist and are well formed.\<close>

definition store_ok :: "'a disk_scheme \<Rightarrow> bool" where
  "store_ok d \<longleftrightarrow>
     series_ok connectivity_header (connectivity_log d) \<and>
     series_ok speedtest_header (speedtest_log d) \<and>
     series_ok events_header (events_log d)"

section \<open>Lemmas\<close>

lemmas init_defs = init_monitor_def default_monitor_def empty_disk_def

lemma log_emit_frame [simp]:
  "config_ini (log_emit lvl msg m) = config_ini m"
  "connectivity_log (log_emit lvl msg m) = connectivity_log m"
  "speedtest_log (log_emit lvl msg m) = speedtest_log m"
  "events_log (log_emit lvl msg m) = events_log m"
  "report_files (log_emit lvl msg m) = report_files m"
  "disk.more (log_emit lvl msg m) = disk.more m"
  by (simp_all add: log_emit_def)

lemma log_emit_monitor_frame [simp]:
  "is_connected (log_emit lvl msg m) = is_connected m"
  "disconnect_start (log_emit lvl msg m) = disconnect_start m"
  "last_successful_ping (log_emit lvl msg m) = last_successful_ping m"
  "ping_targets (log_emit lvl msg m) = ping_targets m"
  "http_targets (log_emit lvl msg m) = http_targets m"
  "config (log_emit lvl msg m) = config m"
  "ping_interval (log_emit lvl msg m) = ping_interval m"
  "speedtest_interval (log_emit lvl msg m) = speedtest_interval m"
  "upload_interval (log_emit lvl msg m) = upload_interval m"
  "log_dir (log_emit lvl msg m) = log_dir m"
  "config_file (log_emit lvl msg m) = config_file m"
  "monitor.more (log_emit lvl msg m) = monitor.more m"
  by (simp_all add: log_emit_def)

lemma log_emit_lines [simp]: "log_lines (log_emit lvl msg m) = emit lvl msg (log_lines m)"
  by (simp add: log_emit_def)

lemma log_emit_debug [simp]: "log_emit DEBUG msg m = m"
  by (simp add: log_emit_def)

lemma init_monitor_state [simp]:
  "is_connected (init_monitor dir p s u c d now)"
  "disconnect_start (init_monitor dir p s u c d now) = None"
  "last_successful_ping (init_monitor dir p s u c d now) = now"
  "ping_targets (init_monitor dir p s u c d now) = default_ping_targets"
  "http_targets (init_monitor dir p s u c d now) = default_http_targets"
  by (simp_all add: init_monitor_def Let_def)

lemma init_monitor_settings [simp]:
  "log_dir (init_monitor dir p s u c d now) = dir"
  "ping_interval (init_monitor dir p s u c d now) = p"
  "speedtest_interval (init_monitor dir p s u c d now) = s"
  "upload_interval (init_monitor dir p s u c d now) = u"
  "config_file (init_monitor dir p s u c d now) = c"
  by (simp_all add: init_monitor_def Let_def)

lemma init_monitor_files [simp]:
  "connectivity_log (init_monitor dir p s u c d now) = init_file connectivity_header (connectivity_log d)"
  "speedtest_log (init_monitor dir p s u c d now) = init_file speedtest_header (speedtest_log d)"
  "events_log (init_monitor dir p s u c d now) = init_file events_header (events_log d)"
  "log_lines (init_monitor dir p s u c d now) = log_lines d"
  "report_files (init_monitor dir p s u c d now) = report_files d"
  by (simp_all add: init_monitor_def Let_def init_csv_files_def)

lemma init_monitor_config:
  "config (init_monitor dir p s u c d now) = (case config_ini d of Some cfg \<Rightarrow> cfg | None \<Rightarrow> default_config)"
  "config_ini (init_monitor dir p s u c d now) = Some (config (init_monitor dir p s u c d now))"
  by (simp_all add: init_monitor_def Let_def init_csv_files_def)

lemma conn_inv_disk_update [simp]:
  "conn_inv (m\<lparr>connectivity_log := c\<rparr>) = conn_inv m"
  "conn_inv (m\<lparr>speedtest_log := f\<rparr>) = conn_inv m"
  "conn_inv (m\<lparr>events_log := e\<rparr>) = conn_inv m"
  "conn_inv (m\<lparr>report_files := r\<rparr>) = conn_inv m"
  "conn_inv (m\<lparr>log_lines := l\<rparr>) = conn_inv m"
  "conn_inv (log_emit lvl msg m) = conn_inv m"
  by (simp_all add: conn_inv_def)

lemma conn_inv_init: "conn_inv (init_monitor dir p s u c d now)"
  by (simp add: conn_inv_def)

lemma conn_inv_default: "conn_inv (default_monitor d now)"
  by (simp add: default_monitor_def conn_inv_init)

lemma default_monitor_state [simp]:
  "is_connected (default_monitor d now)"
  "disconnect_start (default_monitor d now) = None"
  "last_successful_ping (default_monitor d now) = now"
  "ping_targets (default_monitor d now) = default_ping_targets"
  "http_targets (default_monitor d now) = default_http_targets"
  by (simp_all add: default_monitor_def)

lemma default_monitor_empty_files [simp]:
  "connectivity_log (default_monitor empty_disk now) = Some [connectivity_header]"
  "speedtest_log (default_monitor empty_disk now) = Some [speedtest_header]"
  "events_log (default_monitor empty_disk now) = Some [events_header]"
  "report_files (default_monitor empty_disk now) = []"
  "log_lines (default_monitor empty_disk now) = []"
  by (simp_all add: default_monitor_def empty_disk_def)

lemma vps_enabled_default [simp]: "vps_enabled (default_monitor empty_disk now) = Inr False"
  by (simp add: vps_enabled_def getboolean_def boolean_state_def py_lower_def lower_char_def
      default_monitor_def init_monitor_def empty_disk_def default_config_def Let_def)

lemma vps_enabled_frame [simp]:
  "vps_enabled (log_emit lvl msg m) = vps_enabled m"
  by (simp add: vps_enabled_def)

lemma getboolean_missing: "map_of cfg (section, option) = None \<Longrightarrow> getboolean cfg section option fb = Inr fb"
  by (simp add: getboolean_def)

lemma getboolean_Inl:
  "getboolean cfg section option fb = Inl e \<longleftrightarrow>
     (\<exists>v. map_of cfg (section, option) = Some v \<and> boolean_state v = None \<and> e = ValueError (''Not a boolean: '' @ v))"
  by (auto simp: getboolean_def split: option.splits)

lemma has_section_update:
  "has_section (AList.update (s', k') v cfg) s \<longleftrightarrow> s = s' \<or> has_section cfg s"
proof -
  have "has_section c s \<longleftrightarrow> s \<in> fst ` fst ` set c" for c :: config
    by (simp add: has_section_def image_image)
  then show ?thesis by (auto simp: dom_update)
qed

lemma config_get_other:
  "(s, k) \<noteq> (s', k') \<Longrightarrow> has_section cfg s \<Longrightarrow>
     config_get (AList.update (s', k') v cfg) s k = config_get cfg s k"
  by (auto simp: config_get_def update_conv' has_section_update)

lemma config_get_set:
  "has_section cfg section \<Longrightarrow>
     rbind (config_set cfg section option v) (\<lambda>cfg'. config_get cfg' section option) = Inr v"
  by (simp add: config_set_def config_get_def update_conv')

lemma boolean_state_words [simp]:
  "boolean_state ''true'' = Some True" "boolean_state ''false'' = Some False"
  "boolean_state ''True'' = Some True" "boolean_state ''maybe'' = None"
  by (simp_all add: boolean_state_def py_lower_def lower_char_def)

lemma default_monitor_fields [simp]:
  "log_dir (default_monitor d now) = ''internet_logs''"
  "ping_interval (default_monitor d now) = 30"
  "speedtest_interval (default_monitor d now) = 3600"
  "upload_interval (default_monitor d now) = 300"
  "config_file (default_monitor d now) = ''monitor_config.ini''"
  by (simp_all add: default_monitor_def init_monitor_def Let_def)

lemma store_ok_init_empty: "store_ok (default_monitor empty_disk now)"
  by (simp add: store_ok_def default_monitor_def empty_disk_def)

end
