(* ===== verification/Probes.thy ===== *)
theory Probes
  imports Monitor
begin

text \<open>
  The probe runner: \<^verbatim>\<open>ping_test\<close> (lines 109 to 133) and \<^verbatim>\<open>http_test\<close> (lines
  135 to 153). What the network does is an argument: a \<open>ping_outcome\<close> is what
  \<^verbatim>\<open>subprocess.run\<close> did (it returned with a return code and an output, it timed
  out, or it raised something else), an \<open>http_outcome\<close> what \<^verbatim>\<open>requests.get\<close> did
  (a response with its status code after so many seconds, a
  \<^verbatim>\<open>RequestException\<close>, or another exception). Each probe returns its pair
  \<^verbatim>\<open>(success, response_time)\<close> and the monitor, whose only possible change is a log
  line. The float parser that reads the round-trip time is a parameter, so every lemma
  holds for Python's own.
\<close>

section \<open>Outcomes and results\<close>

datatype ping_outcome = Ping_exit int string | Ping_timeout | Ping_error exn

datatype http_outcome = Http_response int real | Http_request_exception exn | Http_error exn

type_synonym probe_result = "bool \<times> real option"

section \<open>Ping\<close>

text \<open>\<^verbatim>\<open>float(output.split('time=')[1].split()[0])\<close> of line 122, with its exceptions.\<close>

definition parse_ping_time :: "float_parser \<Rightarrow> string \<Rightarrow> real result" where
  "parse_ping_time flt output =
     rbind (py_split ''time='' output) (\<lambda>parts.
     rbind (py_index parts 1) (\<lambda>rest.
     rbind (py_index (py_split_ws rest) 0) (\<lambda>tok.
       case flt tok of None \<Rightarrow> Inl (ValueError tok) | Some x \<Rightarrow> Inr x)))"

definition ping_test ::
  "float_parser \<Rightarrow> string \<Rightarrow> ping_outcome \<Rightarrow> 'a monitor_scheme \<Rightarrow> probe_result \<times> 'a monitor_scheme" where
  "ping_test flt target outcome m =
     (case outcome of
        Ping_exit returncode output \<Rightarrow>
          if returncode = 0 then
            (if contains ''time='' output then
               (case parse_ping_time flt output of
                  Inr ping_time \<Rightarrow> ((True, Some ping_time), m)
                | Inl e \<Rightarrow> ((False, None), log_emit DEBUG (Ping_failed target e) m))
             else ((True, Some 0), m))
          else ((False, None), log_emit DEBUG (Ping_failed_rc target returncode) m)
      | Ping_timeout \<Rightarrow> ((False, None), log_emit DEBUG (Ping_timed_out target) m)
      | Ping_error e \<Rightarrow> ((False, None), log_emit DEBUG (Ping_failed target e) m))"

section \<open>HTTP\<close>

text \<open>The status codes that count as reachable (line 143).\<close>

definition ok_statuses :: "int list" where
  "ok_statuses = [200, 301, 302, 303, 307, 308]"

definition http_test ::
  "string \<Rightarrow> http_outcome \<Rightarrow> 'a monitor_scheme \<Rightarrow> probe_result \<times> 'a monitor_scheme" where
  "http_test url outcome m =
     (case outcome of
        Http_response status_code elapsed \<Rightarrow>
          if status_code \<in> set ok_statuses then ((True, Some (elapsed * 1000)), m)
          else ((False, None), log_emit DEBUG (Http_status url status_code) m)
      | Http_request_exception e \<Rightarrow> ((False, None), log_emit DEBUG (Http_failed url e) m)
      | Http_error e \<Rightarrow> ((False, None), log_emit DEBUG (Http_failed url e) m))"

text \<open>A result is well formed when it has a response time exactly when it succeeded.\<close>

definition probe_wf :: "probe_result \<Rightarrow> bool" where
  "probe_wf r \<longleftrightarrow> (fst r \<longleftrightarrow> snd r \<noteq> None)"

section \<open>Lemmas\<close>

lemma ping_test_monitor [simp]: "snd (ping_test flt target outcome m) = m"
  by (simp add: ping_test_def split: ping_outcome.split sum.split)

lemma http_test_monitor [simp]: "snd (http_test url outcome m) = m"
  by (simp add: http_test_def split: http_outcome.split)

lemma ping_test_wf: "probe_wf (fst (ping_test flt target outcome m))"
  by (simp add: ping_test_def probe_wf_def split: ping_outcome.split sum.split)

lemma http_test_wf: "probe_wf (fst (http_test url outcome m))"
  by (simp add: http_test_def probe_wf_def split: http_outcome.split)

lemma ping_test_independent:
  "fst (ping_test flt target outcome m) = fst (ping_test flt target' outcome m')"
  by (simp add: ping_test_def split: ping_outcome.split sum.split)

lemma http_test_independent:
  "fst (http_test url outcome m) = fst (http_test url' outcome m')"
  by (simp add: http_test_def split: http_outcome.split)

lemma ping_test_success:
  "fst (fst (ping_test flt target outcome m)) \<longleftrightarrow>
     (\<exists>output. outcome = Ping_exit 0 output \<and>
        (contains ''time='' output \<longrightarrow> (\<exists>x. parse_ping_time flt output = Inr x)))"
  by (auto simp: ping_test_def split: ping_outcome.split sum.split)

lemma http_test_success:
  "fst (fst (http_test url outcome m)) \<longleftrightarrow>
     (\<exists>code elapsed. outcome = Http_response code elapsed \<and> code \<in> {200, 301, 302, 303, 307, 308})"
  by (auto simp: http_test_def ok_statuses_def split: http_outcome.split)

text \<open>
  The parse of an output in which the first \<^verbatim>\<open>time=\<close> is followed by white space (or by
  nothing), a word and a blank; and of one in which only white space follows it.
\<close>

lemma isspace_not_t: "py_isspace c \<Longrightarrow> c \<noteq> CHR ''t''"
  by (auto simp: py_isspace_def)

lemma parse_ping_time_gap:
  assumes first: "\<not> contains ''time='' (pre @ ''time'')"
    and gap: "\<forall>c \<in> set gap. py_isspace c"
    and tok: "tok \<noteq> []" "\<forall>c \<in> set tok. \<not> py_isspace c \<and> c \<noteq> CHR ''t''"
  shows "parse_ping_time flt (pre @ ''time='' @ gap @ tok @ '' '' @ post) =
           (case flt tok of None \<Rightarrow> Inl (ValueError tok) | Some x \<Rightarrow> Inr x)"
proof -
  let ?rest = "gap @ tok @ '' '' @ post"
  have parts: "split_on ''time='' (pre @ ''time='' @ ?rest) = pre # split_on ''time='' ?rest"
    using first by (intro split_on_first) simp_all
  have "takeWhile (\<lambda>c. c \<noteq> CHR ''t'') ?rest =
      gap @ tok @ takeWhile (\<lambda>c. c \<noteq> CHR ''t'') ('' '' @ post)"
    using tok(2) gap by (simp add: takeWhile_append2 isspace_not_t)
  then have "prefix (gap @ tok @ '' '') (takeWhile (\<lambda>c. c \<noteq> CHR ''t'') ?rest)" by simp
  also have "prefix \<dots> (hd (split_on ''time='' ?rest))"
    by (rule split_on_hd_takeWhile)
  finally obtain more where hd: "hd (split_on ''time='' ?rest) = gap @ tok @ CHR '' '' # more"
    by (auto simp: prefix_def)
  have "py_index (py_split_ws (tok @ CHR '' '' # more)) 0 = Inr tok"
    using tok by (intro py_split_ws_first_word) (simp_all add: py_isspace_def)
  then have "py_index (py_split_ws (gap @ tok @ CHR '' '' # more)) 0 = Inr tok"
    using gap by (simp add: py_split_ws_gap)
  with parts hd show ?thesis
    by (cases "split_on ''time='' ?rest") (simp_all add: parse_ping_time_def py_split_def py_index_def)
qed

lemma parse_ping_time_word:
  assumes first: "\<not> contains ''time='' (pre @ ''time'')"
    and tok: "tok \<noteq> []" "\<forall>c \<in> set tok. \<not> py_isspace c \<and> c \<noteq> CHR ''t''"
  shows "parse_ping_time flt (pre @ ''time='' @ tok @ '' '' @ post) =
           (case flt tok of None \<Rightarrow> Inl (ValueError tok) | Some x \<Rightarrow> Inr x)"
  using parse_ping_time_gap [OF first _ tok, of "[]" flt post] by simp

lemma parse_ping_time_blank:
  assumes first: "\<not> contains ''time='' (pre @ ''time'')"
    and gap: "\<forall>c \<in> set gap. py_isspace c"
  shows "parse_ping_time flt (pre @ ''time='' @ gap) = Inl (IndexError ''list index out of range'')"
proof -
  have "\<not> contains ''time='' gap"
  proof
    assume "contains ''time='' gap"
    then have "sublist ''time='' gap" by (simp add: contains_sublist)
    then have "set ''time='' \<subseteq> set gap" by (rule set_mono_sublist)
    then have "CHR ''t'' \<in> set gap" by simp
    with gap isspace_not_t show False by blast
  qed
  then have "split_on ''time='' gap = [gap]" by (rule split_on_not_contains)
  moreover have "split_on ''time='' (pre @ ''time='' @ gap) = pre # split_on ''time='' gap"
    using first by (intro split_on_first) simp_all
  ultimately show ?thesis
    using gap by (simp add: parse_ping_time_def py_split_def py_index_def py_split_ws_blank)
qed

section \<open>Properties\<close>

text \<open>
  The round-trip time of a ping is read from the word that follows the
  first \<^verbatim>\<open>time=\<close> of the output: when that word is not empty, has no white
  space and no letter \<open>t\<close>, and is followed by a blank, \<^verbatim>\<open>ping_test\<close> succeeds with
  the float of the word, and fails without a response time when the word is not a float.
\<close>

theorem ping_time_extracted:
  assumes "\<not> contains ''time='' (pre @ ''time'')"
    and "tok \<noteq> []" and "\<forall>c \<in> set tok. \<not> py_isspace c \<and> c \<noteq> CHR ''t''"
  shows "fst (ping_test flt target (Ping_exit 0 (pre @ ''time='' @ tok @ '' '' @ post)) m) =
           (case flt tok of None \<Rightarrow> (False, None) | Some x \<Rightarrow> (True, Some x))"
proof -
  have "contains ''time='' (pre @ ''time='' @ tok @ '' '' @ post)"
    by (rule contains_append)
  with parse_ping_time_word [OF assms, of flt post] show ?thesis
    by (simp add: ping_test_def split: option.split)
qed

theorem ping_time_extracted_witness:
  "fst (ping_test (\<lambda>s. if s = ''12.3'' then Some 12.3 else None) ''8.8.8.8''
        (Ping_exit 0 (''64 bytes from 8.8.8.8: icmp_seq=1 ttl=117 '' @ ''time='' @ ''12.3'' @ '' '' @ ''ms''))
        (default_monitor empty_disk 0)) =
     (case (\<lambda>s. if s = ''12.3'' then Some 12.3 else None) ''12.3'' of
        None \<Rightarrow> (False, None) | Some x \<Rightarrow> (True, Some x))"
  by (rule ping_time_extracted) (simp_all add: py_isspace_def)

text \<open>
  C32 (error). A probe never raises and never changes the monitor: whatever the outcome
  of the process or the request, \<^verbatim>\<open>ping_test\<close> and \<^verbatim>\<open>http_test\<close> return a pair
  that carries a response time exactly when it reports success, and the monitor is the
  one they were given (their log lines are below the logger's level).
\<close>

theorem probes_total_and_silent:
  "probe_wf (fst (ping_test flt target po m)) \<and> snd (ping_test flt target po m) = m \<and>
   probe_wf (fst (http_test url ho m)) \<and> snd (http_test url ho m) = m"
  by (simp add: ping_test_wf http_test_wf)

text \<open>
  An HTTP probe succeeds exactly on a response whose status code is one
  of 200, 301, 302, 303, 307 and 308, and then reports the elapsed time in milliseconds.
\<close>

theorem http_success_statuses:
  "fst (http_test url outcome m) =
     (case outcome of
        Http_response code elapsed \<Rightarrow>
          if code \<in> {200, 301, 302, 303, 307, 308} then (True, Some (elapsed * 1000)) else (False, None)
      | _ \<Rightarrow> (False, None))"
  by (simp add: http_test_def ok_statuses_def split: http_outcome.split)

text \<open>
  C40 (error). A ping that was answered is reported as failed when its time cannot be
  read. When the process exits with 0 and the first \<^verbatim>\<open>time=\<close> of its output is followed
  by nothing but white space up to the end of the output, or by a word (after white
  space, if any) that is not a float, the exception of line 122 is caught by the
  handler for everything and \<^verbatim>\<open>ping_test\<close> returns \<^verbatim>\<open>(False, None)\<close>, although the
  host replied.
\<close>

theorem ping_unreadable_time_fails:
  assumes "\<not> contains ''time='' (pre @ ''time'')" and "\<forall>c \<in> set gap. py_isspace c"
  shows "fst (ping_test flt target (Ping_exit 0 (pre @ ''time='' @ gap)) m) = (False, None) \<and>
         (tok \<noteq> [] \<and> (\<forall>c \<in> set tok. \<not> py_isspace c \<and> c \<noteq> CHR ''t'') \<and> flt tok = None \<longrightarrow>
            fst (ping_test flt target (Ping_exit 0 (pre @ ''time='' @ gap @ tok @ '' '' @ post)) m) =
              (False, None))"
proof -
  have "contains ''time='' (pre @ ''time='' @ rest)" for rest by (rule contains_append)
  then show ?thesis
    using parse_ping_time_blank [OF assms, of flt] parse_ping_time_gap [OF assms, of tok flt post]
    by (simp add: ping_test_def)
qed

theorem ping_unreadable_time_fails_witness:
  "fst (ping_test (\<lambda>s. None) ''8.8.8.8'' (Ping_exit 0 (''64 bytes: '' @ ''time='' @ '' ''))
          (default_monitor empty_disk 0)) = (False, None) \<and>
   fst (ping_test (\<lambda>s. None) ''8.8.8.8''
          (Ping_exit 0 (''64 bytes: '' @ ''time='' @ '' '' @ ''n/a'' @ '' '' @ ''ms''))
          (default_monitor empty_disk 0)) = (False, None)"
  using ping_unreadable_time_fails [of "''64 bytes: ''" "'' ''" "\<lambda>s. None" "''8.8.8.8''"
      "default_monitor empty_disk 0" "''n/a''" "''ms''"]
  by (simp add: py_isspace_def)

end
