(* ===== verification/StateMachine.thy ===== *)
theory StateMachine
  imports Monitor
begin

text \<open>
  The connection state machine: \<^verbatim>\<open>_handle_connection_state\<close> (lines 212 to 244),
  which \<^verbatim>\<open>test_connectivity\<close> calls once per check with the verdict of the check.
  The time \<^verbatim>\<open>datetime.now()\<close> of line 214 is an argument. The handler is
  \<open>handle_connection_state\<close>; \<open>run_verdicts\<close> feeds it a sequence of verdicts, each with
  its time, in order.

  The specification's machine has two states and four transitions. It is \<open>conn_step\<close>,
  an inductive relation on \<open>conn\<close> labelled with the verdict and with the outage that
  the transition closes, if any. \<open>abs_conn\<close> maps a monitor to its state of that
  machine, and the handler is proved to take exactly the transitions of \<open>conn_step\<close>
  and to append exactly the row of the closed outage to the events series.

  What the handler has done after a sequence of checks is read from the monitor it
  leaves: \<open>written_events\<close> are the rows the checks added to the events series,
  \<open>duration_cell\<close> is the duration that a row holds, and \<open>open_downtime\<close> the length of
  the outage that a monitor holds open. The accounting of downtime and the sign of the
  durations are stated of these.
\<close>

section \<open>The handler\<close>

text \<open>The row of the events series for an outage from \<open>start\<close> to \<open>now\<close> (lines 225 to 230).\<close>

definition event_row :: "timestamp \<Rightarrow> timestamp \<Rightarrow> row" where
  "event_row start now =
     [Stamp start, Text ''disconnect'', Num (total_seconds (now - start)), Details start now]"

definition handle_connection_state ::
  "bool \<Rightarrow> timestamp \<Rightarrow> 'a monitor_scheme \<Rightarrow> 'a monitor_scheme" where
  "handle_connection_state verdict now m =
     (if verdict \<and> \<not> is_connected m then
        (case disconnect_start m of
           None \<Rightarrow> m
         | Some start \<Rightarrow>
             (log_emit WARNING (Connection_restored (total_seconds (now - start))) m)
               \<lparr>events_log := append_rows [event_row start now] (events_log m)\<rparr>)
          \<lparr>is_connected := True, disconnect_start := None, last_successful_ping := now\<rparr>
      else if \<not> verdict \<and> is_connected m then
        (log_emit ERROR Connection_lost m)\<lparr>is_connected := False, disconnect_start := Some now\<rparr>
      else if verdict then m\<lparr>last_successful_ping := now\<rparr>
      else m)"

text \<open>A sequence of checks: the handler applied to each verdict in turn.\<close>

fun run_verdicts :: "(bool \<times> timestamp) list \<Rightarrow> 'a monitor_scheme \<Rightarrow> 'a monitor_scheme" where
  "run_verdicts [] m = m"
| "run_verdicts ((v, now) # vs) m = run_verdicts vs (handle_connection_state v now m)"

section \<open>The machine of the specification\<close>

datatype conn = CONNECTED | DISCONNECTED timestamp

type_synonym outage = "timestamp \<times> timestamp"

inductive conn_step :: "conn \<Rightarrow> bool \<times> timestamp \<Rightarrow> outage list \<Rightarrow> conn \<Rightarrow> bool" where
  still_connected: "conn_step CONNECTED (True, now) [] CONNECTED"
| connection_lost: "conn_step CONNECTED (False, now) [] (DISCONNECTED now)"
| still_disconnected: "conn_step (DISCONNECTED start) (False, now) [] (DISCONNECTED start)"
| connection_restored: "conn_step (DISCONNECTED start) (True, now) [(start, now)] CONNECTED"

inductive_cases conn_step_connectedE: "conn_step CONNECTED (v, now) out c"
inductive_cases conn_step_disconnectedE: "conn_step (DISCONNECTED start) (v, now) out c"
inductive_simps conn_step_simps: "conn_step c (v, now) out c'"

code_pred conn_step .

text \<open>A run of the machine, with the outages it closes, in order.\<close>

inductive conn_run :: "conn \<Rightarrow> (bool \<times> timestamp) list \<Rightarrow> outage list \<Rightarrow> conn \<Rightarrow> bool" where
  run_nil: "conn_run c [] [] c"
| run_cons: "conn_step c v out c' \<Longrightarrow> conn_run c' vs outs c'' \<Longrightarrow> conn_run c (v # vs) (out @ outs) c''"

inductive_cases conn_run_NilE: "conn_run c [] outs c'"
inductive_cases conn_run_ConsE: "conn_run c (v # vs) outs c'"

text \<open>The same machine as functions: the next state and the closed outages.\<close>

fun conn_next :: "conn \<Rightarrow> bool \<times> timestamp \<Rightarrow> conn" where
  "conn_next CONNECTED (True, now) = CONNECTED"
| "conn_next CONNECTED (False, now) = DISCONNECTED now"
| "conn_next (DISCONNECTED start) (False, now) = DISCONNECTED start"
| "conn_next (DISCONNECTED start) (True, now) = CONNECTED"

fun conn_out :: "conn \<Rightarrow> bool \<times> timestamp \<Rightarrow> outage list" where
  "conn_out (DISCONNECTED start) (True, now) = [(start, now)]"
| "conn_out c v = []"

fun outages :: "conn \<Rightarrow> (bool \<times> timestamp) list \<Rightarrow> outage list" where
  "outages c [] = []"
| "outages c (v # vs) = conn_out c v @ outages (conn_next c v) vs"

definition final_conn :: "conn \<Rightarrow> (bool \<times> timestamp) list \<Rightarrow> conn" where
  "final_conn c vs = foldl conn_next c vs"

text \<open>The state of the machine that a monitor is in.\<close>

definition abs_conn :: "'a monitor_scheme \<Rightarrow> conn" where
  "abs_conn m = (case disconnect_start m of None \<Rightarrow> CONNECTED | Some start \<Rightarrow> DISCONNECTED start)"

text \<open>The downtime of a list of outages, in seconds.\<close>

definition downtime :: "outage list \<Rightarrow> real" where
  "downtime outs = sum_list (map (\<lambda>(start, now). total_seconds (now - start)) outs)"

text \<open>Timestamps that never go back, from a given start.\<close>

fun monotone_from :: "timestamp \<Rightarrow> (bool \<times> timestamp) list \<Rightarrow> bool" where
  "monotone_from t [] = True"
| "monotone_from t ((v, now) # vs) = (t \<le> now \<and> monotone_from now vs)"

text \<open>
  The time spent disconnected, counted check by check: the time since the previous check
  whenever the machine was disconnected in between. \<open>pending\<close> is the part of an
  outage that is still open.
\<close>

fun time_down :: "conn \<Rightarrow> timestamp \<Rightarrow> (bool \<times> timestamp) list \<Rightarrow> int" where
  "time_down c t [] = 0"
| "time_down c t ((v, now) # vs) =
     (case c of CONNECTED \<Rightarrow> 0 | DISCONNECTED start \<Rightarrow> now - t) + time_down (conn_next c (v, now)) now vs"

fun pending :: "conn \<Rightarrow> timestamp \<Rightarrow> int" where
  "pending CONNECTED t = 0"
| "pending (DISCONNECTED start) t = t - start"

fun last_time :: "timestamp \<Rightarrow> (bool \<times> timestamp) list \<Rightarrow> timestamp" where
  "last_time t [] = t"
| "last_time t ((v, now) # vs) = last_time now vs"

definition outage_length :: "outage \<Rightarrow> int" where
  "outage_length out = snd out - fst out"

text \<open>
  What a sequence of checks leaves in the files and in the object: the rows it has added
  to the events series, the seconds in the field \<^verbatim>\<open>duration_seconds\<close> of such a row,
  and the length at time \<open>t\<close> of the outage that the monitor has open.
\<close>

definition written_events :: "(bool \<times> timestamp) list \<Rightarrow> 'a monitor_scheme \<Rightarrow> row list" where
  "written_events vs m =
     drop (length (rows_of (events_log m))) (rows_of (events_log (run_verdicts vs m)))"

definition duration_cell :: "row \<Rightarrow> real" where
  "duration_cell r = (case r of [t, e, Num d, x] \<Rightarrow> d | _ \<Rightarrow> 0)"

definition open_downtime :: "'a monitor_scheme \<Rightarrow> timestamp \<Rightarrow> int" where
  "open_downtime m t = (case disconnect_start m of None \<Rightarrow> 0 | Some start \<Rightarrow> t - start)"

section \<open>The handler, branch by branch\<close>

lemma handle_still_connected:
  "is_connected m \<Longrightarrow> handle_connection_state True now m = m\<lparr>last_successful_ping := now\<rparr>"
  by (simp add: handle_connection_state_def)

lemma handle_connection_lost:
  "is_connected m \<Longrightarrow>
     handle_connection_state False now m =
       (log_emit ERROR Connection_lost m)\<lparr>is_connected := False, disconnect_start := Some now\<rparr>"
  by (simp add: handle_connection_state_def)

lemma handle_still_disconnected:
  "\<not> is_connected m \<Longrightarrow> handle_connection_state False now m = m"
  by (simp add: handle_connection_state_def)

lemma handle_connection_restored:
  "\<not> is_connected m \<Longrightarrow> disconnect_start m = Some start \<Longrightarrow>
     handle_connection_state True now m =
       (log_emit WARNING (Connection_restored (total_seconds (now - start))) m)
         \<lparr>events_log := append_rows [event_row start now] (events_log m),
           is_connected := True, disconnect_start := None, last_successful_ping := now\<rparr>"
  by (simp add: handle_connection_state_def)

lemma handle_restored_no_start:
  "\<not> is_connected m \<Longrightarrow> disconnect_start m = None \<Longrightarrow>
     handle_connection_state True now m =
       m\<lparr>is_connected := True, disconnect_start := None, last_successful_ping := now\<rparr>"
  by (simp add: handle_connection_state_def)

lemmas handle_simps =
  handle_still_connected handle_connection_lost handle_still_disconnected
  handle_connection_restored handle_restored_no_start

section \<open>Fields the handler writes and fields it leaves\<close>

lemma handle_is_connected [simp]: "is_connected (handle_connection_state v now m) = v"
  by (simp add: handle_connection_state_def split: option.split)

lemma handle_frame [frame_simps]:
  "connectivity_log (handle_connection_state v now m) = connectivity_log m"
  "speedtest_log (handle_connection_state v now m) = speedtest_log m"
  "report_files (handle_connection_state v now m) = report_files m"
  "config_ini (handle_connection_state v now m) = config_ini m"
  "config (handle_connection_state v now m) = config m"
  "ping_targets (handle_connection_state v now m) = ping_targets m"
  "http_targets (handle_connection_state v now m) = http_targets m"
  "ping_interval (handle_connection_state v now m) = ping_interval m"
  "speedtest_interval (handle_connection_state v now m) = speedtest_interval m"
  "upload_interval (handle_connection_state v now m) = upload_interval m"
  "log_dir (handle_connection_state v now m) = log_dir m"
  "config_file (handle_connection_state v now m) = config_file m"
  "monitor.more (handle_connection_state v now m) = monitor.more m"
  by (simp_all add: handle_connection_state_def log_emit_def split: option.split)

lemma handle_disconnect_start:
  "disconnect_start (handle_connection_state v now m) =
     (if v \<and> \<not> is_connected m then None
      else if \<not> v \<and> is_connected m then Some now
      else disconnect_start m)"
  by (simp add: handle_connection_state_def split: option.split)

lemma handle_last_successful_ping:
  "last_successful_ping (handle_connection_state v now m) =
     (if v then now else last_successful_ping m)"
  by (simp add: handle_connection_state_def split: option.split)

lemma handle_events_log:
  "conn_inv m \<Longrightarrow>
     events_log (handle_connection_state v now m) =
       (case conn_out (abs_conn m) (v, now) of
          [] \<Rightarrow> events_log m
        | (start, stop) # _ \<Rightarrow> append_rows [event_row start stop] (events_log m))"
  by (cases v) (auto simp: handle_connection_state_def conn_inv_def abs_conn_def log_emit_def
      split: option.split)

lemma handle_events_rows:
  "conn_inv m \<Longrightarrow>
     rows_of (events_log (handle_connection_state v now m)) =
       rows_of (events_log m) @ map (\<lambda>(start, stop). event_row start stop) (conn_out (abs_conn m) (v, now))"
  by (cases v) (auto simp: handle_connection_state_def conn_inv_def abs_conn_def log_emit_def
      writerow_def event_row_def split: option.split)

lemma handle_log_lines:
  "conn_inv m \<Longrightarrow>
     log_lines (handle_connection_state v now m) =
       log_lines m @
         (if v then map (\<lambda>(start, stop). (WARNING, Connection_restored (total_seconds (stop - start))))
                     (conn_out (abs_conn m) (v, now))
          else if is_connected m then [(ERROR, Connection_lost)] else [])"
  by (cases v) (auto simp: handle_connection_state_def conn_inv_def abs_conn_def
      split: option.split)

section \<open>The invariant\<close>

lemma conn_inv_handle: "conn_inv m \<Longrightarrow> conn_inv (handle_connection_state v now m)"
  by (auto simp: conn_inv_def handle_disconnect_start)

lemma conn_inv_run: "conn_inv m \<Longrightarrow> conn_inv (run_verdicts vs m)"
  by (induction vs arbitrary: m) (auto simp: conn_inv_handle)

lemma run_verdicts_append:
  "run_verdicts (vs @ ws) m = run_verdicts ws (run_verdicts vs m)"
  by (induction vs arbitrary: m) auto

lemma run_verdicts_preserves:
  "(\<And>v now m. f (handle_connection_state v now m) = f m) \<Longrightarrow> f (run_verdicts vs m) = f m"
  by (induction vs arbitrary: m) auto

lemma run_frame [frame_simps]:
  "connectivity_log (run_verdicts vs m) = connectivity_log m"
  "speedtest_log (run_verdicts vs m) = speedtest_log m"
  "report_files (run_verdicts vs m) = report_files m"
  "ping_targets (run_verdicts vs m) = ping_targets m"
  "http_targets (run_verdicts vs m) = http_targets m"
  "config (run_verdicts vs m) = config m"
  by (rule run_verdicts_preserves, simp add: frame_simps)+

section \<open>The machine: determinism, progress, function and relation\<close>

lemma conn_step_iff: "conn_step c v out c' \<longleftrightarrow> c' = conn_next c v \<and> out = conn_out c v"
  by (cases c; cases v; cases "fst v") (auto simp: conn_step_simps)

lemma conn_step_deterministic:
  "conn_step c v out1 c1 \<Longrightarrow> conn_step c v out2 c2 \<Longrightarrow> c1 = c2 \<and> out1 = out2"
  by (simp add: conn_step_iff)

lemma conn_step_progress: "\<exists>out c'. conn_step c v out c'"
  by (simp add: conn_step_iff)

lemma conn_run_iff: "conn_run c vs outs c' \<longleftrightarrow> c' = final_conn c vs \<and> outs = outages c vs"
proof (induction vs arbitrary: c outs c')
  case Nil
  show ?case
    by (auto simp: final_conn_def intro: conn_run.intros elim: conn_run_NilE)
next
  case (Cons v vs)
  show ?case
  proof
    assume "conn_run c (v # vs) outs c'"
    then show "c' = final_conn c (v # vs) \<and> outs = outages c (v # vs)"
      by (rule conn_run_ConsE) (auto simp: conn_step_iff Cons.IH final_conn_def)
  next
    assume r: "c' = final_conn c (v # vs) \<and> outs = outages c (v # vs)"
    have "conn_step c v (conn_out c v) (conn_next c v)"
      by (simp add: conn_step_iff)
    moreover have "conn_run (conn_next c v) vs (outages (conn_next c v) vs) (final_conn (conn_next c v) vs)"
      by (simp add: Cons.IH)
    ultimately have "conn_run c (v # vs) (conn_out c v @ outages (conn_next c v) vs) (final_conn (conn_next c v) vs)"
      by (rule conn_run.run_cons)
    with r show "conn_run c (v # vs) outs c'"
      by (simp add: final_conn_def)
  qed
qed

lemma outages_append:
  "outages c (vs @ ws) = outages c vs @ outages (final_conn c vs) ws"
  by (induction vs arbitrary: c) (auto simp: final_conn_def)

lemma final_conn_append: "final_conn c (vs @ ws) = final_conn (final_conn c vs) ws"
  by (simp add: final_conn_def)

section \<open>Refinement: the handler implements the machine\<close>

lemma abs_conn_handle:
  "conn_inv m \<Longrightarrow> abs_conn (handle_connection_state v now m) = conn_next (abs_conn m) (v, now)"
  by (cases v) (auto simp: abs_conn_def handle_disconnect_start conn_inv_def split: option.split)

lemma abs_conn_run:
  "conn_inv m \<Longrightarrow> abs_conn (run_verdicts vs m) = final_conn (abs_conn m) vs"
proof (induction vs arbitrary: m)
  case Nil
  show ?case by (simp add: final_conn_def)
next
  case (Cons v vs)
  obtain b now where v: "v = (b, now)" by (cases v)
  from Cons.prems have "conn_inv (handle_connection_state b now m)"
    by (simp add: conn_inv_handle)
  then have "abs_conn (run_verdicts vs (handle_connection_state b now m)) =
      final_conn (abs_conn (handle_connection_state b now m)) vs"
    by (rule Cons.IH)
  with Cons.prems v show ?case
    by (simp add: abs_conn_handle final_conn_def)
qed

lemma run_events_rows:
  "conn_inv m \<Longrightarrow>
     rows_of (events_log (run_verdicts vs m)) =
       rows_of (events_log m) @ map (\<lambda>(start, stop). event_row start stop) (outages (abs_conn m) vs)"
proof (induction vs arbitrary: m)
  case Nil
  show ?case by simp
next
  case (Cons v vs)
  obtain b now where v: "v = (b, now)" by (cases v)
  let ?m = "handle_connection_state b now m"
  from Cons.prems have "conn_inv ?m" by (simp add: conn_inv_handle)
  then have "rows_of (events_log (run_verdicts vs ?m)) =
      rows_of (events_log ?m) @ map (\<lambda>(start, stop). event_row start stop) (outages (abs_conn ?m) vs)"
    by (rule Cons.IH)
  with Cons.prems v show ?case
    by (simp add: handle_events_rows abs_conn_handle)
qed

section \<open>Outages and downtime\<close>

lemma downtime_append [simp]: "downtime (xs @ ys) = downtime xs + downtime ys"
  by (simp add: downtime_def)

lemma downtime_Nil [simp]: "downtime [] = 0"
  by (simp add: downtime_def)

lemma downtime_Cons [simp]: "downtime ((a, b) # xs) = total_seconds (b - a) + downtime xs"
  by (simp add: downtime_def)

lemma total_seconds_nonneg: "0 \<le> d \<Longrightarrow> 0 \<le> total_seconds d"
  by (simp add: total_seconds_def)

lemma total_seconds_diff: "total_seconds (c - a) = total_seconds (c - b) + total_seconds (b - a)"
  by (simp add: total_seconds_def field_simps)

text \<open>The start of an outage in the list is the start of the pending one or a time of the run.\<close>

fun conn_since :: "conn \<Rightarrow> timestamp \<Rightarrow> timestamp" where
  "conn_since CONNECTED t = t"
| "conn_since (DISCONNECTED start) t = start"

lemma outages_ordered:
  "monotone_from t vs \<Longrightarrow> conn_since c t \<le> t \<Longrightarrow> (a, b) \<in> set (outages c vs) \<Longrightarrow> a \<le> b"
proof (induction vs arbitrary: c t)
  case Nil
  then show ?case by simp
next
  case (Cons v vs)
  obtain x now where v: "v = (x, now)" by (cases v)
  from Cons.prems(1) v have mono: "t \<le> now" "monotone_from now vs" by simp_all
  from Cons.prems(3) consider "(a, b) \<in> set (conn_out c v)" | "(a, b) \<in> set (outages (conn_next c v) vs)"
    by auto
  then show ?case
  proof cases
    case 1
    with v Cons.prems(2) mono show ?thesis
      by (cases c; cases x) auto
  next
    case 2
    have "conn_since (conn_next c v) now \<le> now"
      using v Cons.prems(2) mono by (cases c; cases x) auto
    from mono(2) this 2 show ?thesis by (rule Cons.IH)
  qed
qed

lemma handle_events_prefix:
  "prefix (rows_of (events_log m)) (rows_of (events_log (handle_connection_state v now m)))"
  by (simp add: handle_connection_state_def split: option.split)

lemma run_events_prefix: "prefix (rows_of (events_log m)) (rows_of (events_log (run_verdicts vs m)))"
proof (induction vs arbitrary: m)
  case Nil
  show ?case by simp
next
  case (Cons v vs)
  obtain b now where "v = (b, now)" by (cases v)
  with Cons.IH [of "handle_connection_state b now m"] handle_events_prefix [of m b now]
  show ?case by (auto intro: prefix_order.trans)
qed

lemma run_true_connected:
  "is_connected m \<Longrightarrow>
     run_verdicts (map (Pair True) ts) m = (if ts = [] then m else m\<lparr>last_successful_ping := last ts\<rparr>)"
proof (induction ts arbitrary: m)
  case Nil
  show ?case by simp
next
  case (Cons t ts)
  from Cons.prems have "is_connected (m\<lparr>last_successful_ping := t\<rparr>)" by simp
  from Cons.IH [OF this] Cons.prems show ?case
    by (simp add: handle_still_connected)
qed

lemma downtime_outage_length: "downtime outs = total_seconds (sum_list (map outage_length outs))"
  by (induction outs) (auto simp: total_seconds_def outage_length_def field_simps)

lemma time_down_accounting:
  "sum_list (map outage_length (outages c vs)) + pending (final_conn c vs) (last_time t vs) =
     pending c t + time_down c t vs"
proof (induction vs arbitrary: c t)
  case Nil
  show ?case by (simp add: final_conn_def)
next
  case (Cons v vs)
  obtain b now where v: "v = (b, now)" by (cases v)
  from Cons.IH [of "conn_next c v" now] v show ?case
    by (cases c; cases b) (simp_all add: final_conn_def outage_length_def)
qed

section \<open>What the handler has written\<close>

lemma written_events_outages:
  "conn_inv m \<Longrightarrow>
     written_events vs m = map (\<lambda>(start, stop). event_row start stop) (outages (abs_conn m) vs)"
  by (simp add: written_events_def run_events_rows)

lemma duration_cell_event_row [simp]: "duration_cell (event_row start stop) = total_seconds (stop - start)"
  by (simp add: duration_cell_def event_row_def)

lemma written_durations:
  "conn_inv m \<Longrightarrow>
     map duration_cell (written_events vs m) =
       map (\<lambda>(start, stop). total_seconds (stop - start)) (outages (abs_conn m) vs)"
  by (simp add: written_events_outages split_def o_def)

lemma open_downtime_pending: "open_downtime m t = pending (abs_conn m) t"
  by (simp add: open_downtime_def abs_conn_def split: option.split)

lemma machine_downtime_accounting:
  "downtime (outages c vs) + total_seconds (pending (final_conn c vs) (last_time t vs)) =
     total_seconds (pending c t) + total_seconds (time_down c t vs)"
proof -
  have "total_seconds (sum_list (map outage_length (outages c vs)) + pending (final_conn c vs) (last_time t vs)) =
      total_seconds (pending c t + time_down c t vs)"
    by (simp only: time_down_accounting)
  then show ?thesis
    by (simp add: downtime_outage_length total_seconds_def add_divide_distrib)
qed

lemma written_nonnegative:
  assumes "conn_inv m" and "monotone_from t vs" and "0 \<le> open_downtime m t"
  shows "list_all (\<lambda>r. 0 \<le> duration_cell r) (written_events vs m)"
proof -
  from assms(3) have "conn_since (abs_conn m) t \<le> t"
    by (simp add: open_downtime_def abs_conn_def split: option.splits)
  with assms(2) have "a \<le> b" if "(a, b) \<in> set (outages (abs_conn m) vs)" for a b
    using that by (rule outages_ordered)
  then show ?thesis
    by (auto simp: written_events_outages [OF assms(1)] list_all_iff total_seconds_nonneg)
qed

lemma total_seconds_neg_iff: "total_seconds d < 0 \<longleftrightarrow> d < 0"
  by (simp add: total_seconds_def divide_less_0_iff)

section \<open>Properties\<close>

text \<open>
  C4 (invariant). From construction on, after any sequence of checks, a disconnection
  start is recorded exactly when the monitor is not connected.
\<close>

theorem connection_invariant:
  "conn_inv (run_verdicts vs (init_monitor dir p s u c d now))"
  by (simp add: conn_inv_run conn_inv_init)

text \<open>
  C2 (refinement). On a monitor that satisfies the invariant the handler takes a
  transition of the specification's machine, and the rows it appends to the events
  series are the rows of the outages that this transition closes.
\<close>

theorem handler_refines_machine:
  assumes "conn_inv m"
  shows "\<exists>out. conn_step (abs_conn m) (v, now) out (abs_conn (handle_connection_state v now m)) \<and>
           rows_of (events_log (handle_connection_state v now m)) =
             rows_of (events_log m) @ map (\<lambda>(start, stop). event_row start stop) out"
  using assms by (auto simp: conn_step_iff abs_conn_handle handle_events_rows)

theorem handler_refines_machine_witness:
  "\<exists>out. conn_step (abs_conn (default_monitor empty_disk 0)) (False, 7) out
            (abs_conn (handle_connection_state False 7 (default_monitor empty_disk 0))) \<and>
         rows_of (events_log (handle_connection_state False 7 (default_monitor empty_disk 0))) =
           rows_of (events_log (default_monitor empty_disk 0)) @ map (\<lambda>(start, stop). event_row start stop) out"
  by (rule handler_refines_machine) (simp add: default_monitor_def conn_inv_init)

text \<open>
  C1 (functional). Over any sequence of checks the events series grows by exactly one row
  for each outage of the sequence, in order: the row of an outage carries the time
  connectivity was lost and the seconds until it was restored.
\<close>

theorem events_are_the_outages:
  assumes "conn_inv m"
  shows "rows_of (events_log (run_verdicts vs m)) =
           rows_of (events_log m) @
             map (\<lambda>(start, stop). [Stamp start, Text ''disconnect'', Num (total_seconds (stop - start)),
                                   Details start stop])
               (outages (abs_conn m) vs)"
  using run_events_rows [OF assms, of vs] by (simp add: event_row_def [abs_def])

theorem events_are_the_outages_witness:
  "rows_of (events_log (run_verdicts [(False, 1000000), (False, 2000000), (True, 4500000)]
       (default_monitor empty_disk 0))) =
     rows_of (events_log (default_monitor empty_disk 0)) @
       map (\<lambda>(start, stop). [Stamp start, Text ''disconnect'', Num (total_seconds (stop - start)),
                               Details start stop])
         (outages (abs_conn (default_monitor empty_disk 0)) [(False, 1000000), (False, 2000000), (True, 4500000)])"
  by (rule events_are_the_outages) (simp add: default_monitor_def conn_inv_init)

text \<open>
  C9 (functional). Starting connected, the verdicts true, false, false, true at the times
  \<open>t0\<close>, \<open>t1\<close>, \<open>t2\<close>, \<open>t3\<close> add exactly one row to the events series, and its
  duration is counted from \<open>t1\<close>, the first failed check, to \<open>t3\<close>.
\<close>

theorem one_outage_one_event:
  "rows_of (events_log (run_verdicts [(True, t0), (False, t1), (False, t2), (True, t3)]
       (init_monitor dir p s u c d now))) =
     rows_of (init_file events_header (events_log d)) @
       [[Stamp t1, Text ''disconnect'', Num (total_seconds (t3 - t1)), Details t1 t3]]"
  by (simp add: handle_connection_state_def writerow_def event_row_def)

text \<open>
  While the monitor is connected, any number of successful checks
  changes nothing but the time of the last successful check: no event is written and
  no line is logged.
\<close>

theorem successful_checks_idempotent:
  assumes "is_connected m"
  shows "run_verdicts (map (Pair True) (ts @ [t])) m = m\<lparr>last_successful_ping := t\<rparr>"
  using run_true_connected [OF assms, of "ts @ [t]"] by simp

theorem successful_checks_idempotent_witness:
  "run_verdicts (map (Pair True) ([1, 2] @ [3])) (default_monitor empty_disk 0) =
     (default_monitor empty_disk 0)\<lparr>last_successful_ping := 3\<rparr>"
  by (rule successful_checks_idempotent) (simp add: default_monitor_def)

text \<open>
  The events series is append-only under the handler: whatever the
  verdicts, the rows present before a sequence of checks are a prefix of the rows after
  it, and the other two series are not touched.
\<close>

theorem handler_append_only:
  "prefix (rows_of (events_log m)) (rows_of (events_log (run_verdicts vs m))) \<and>
   connectivity_log (run_verdicts vs m) = connectivity_log m \<and>
   speedtest_log (run_verdicts vs m) = speedtest_log m"
  by (simp add: run_events_prefix frame_simps)

text \<open>
  When the clock never goes back and a pending outage did not start in the
  future, every outage of a sequence of checks has a duration that is not negative.
\<close>

theorem durations_nonnegative:
  assumes "monotone_from t vs" and "conn_since c t \<le> t" and "(a, b) \<in> set (outages c vs)"
  shows "0 \<le> total_seconds (b - a)"
  using outages_ordered [OF assms] by (simp add: total_seconds_nonneg)

theorem durations_nonnegative_witness:
  "0 \<le> total_seconds (4500000 - 1000000)"
  by (rule durations_nonnegative [of 0 "[(False, 1000000), (False, 2000000), (True, 4500000)]" CONNECTED])
    simp_all

text \<open>
  C38 (bounds). The sign of a recorded duration follows the clock. The handler computes
  a duration from two readings of the wall clock and nothing orders them: when the
  readings of a sequence of checks never go back, and an outage that is open at its
  start did not begin in the future, every row it writes has a duration that is not
  negative; and when a check that restores the connection reads a time before that of
  the check that lost it, the row written has a negative duration.
\<close>

theorem duration_sign_follows_clock:
  assumes "conn_inv m"
  shows "(monotone_from t vs \<and> 0 \<le> open_downtime m t \<longrightarrow>
            list_all (\<lambda>r. 0 \<le> duration_cell r) (written_events vs m)) \<and>
         (is_connected m \<and> t2 < t1 \<longrightarrow>
            written_events [(False, t1), (True, t2)] m =
              [[Stamp t1, Text ''disconnect'', Num (total_seconds (t2 - t1)), Details t1 t2]] \<and>
            total_seconds (t2 - t1) < 0)"
proof -
  have "written_events [(False, t1), (True, t2)] m =
      [[Stamp t1, Text ''disconnect'', Num (total_seconds (t2 - t1)), Details t1 t2]]"
    if "is_connected m"
    using that assms
    by (simp add: written_events_outages abs_conn_def conn_inv_def event_row_def)
  moreover have "list_all (\<lambda>r. 0 \<le> duration_cell r) (written_events vs m)"
    if "monotone_from t vs" and "0 \<le> open_downtime m t"
    using assms that by (rule written_nonnegative)
  ultimately show ?thesis by (simp add: total_seconds_neg_iff)
qed

theorem duration_sign_follows_clock_witness:
  "list_all (\<lambda>r. 0 \<le> duration_cell r)
     (written_events [(False, 1000000), (True, 4500000)] (default_monitor empty_disk 0)) \<and>
   written_events [(False, 2000000), (True, 1000000)] (default_monitor empty_disk 0) =
     [[Stamp 2000000, Text ''disconnect'', Num (total_seconds (1000000 - 2000000)),
       Details 2000000 1000000]] \<and>
   total_seconds (1000000 - 2000000) < 0"
  using duration_sign_follows_clock [OF conn_inv_default, of 0 "[(False, 1000000), (True, 4500000)]"
      empty_disk 0 1000000 2000000]
  by (simp add: open_downtime_def)

text \<open>
  C28 (equivalence). The handler accounts for downtime exactly. The durations in the
  rows that a sequence of checks adds to the events series, plus the length of the
  outage that the monitor still has open after the last check, are the time that the
  specification's machine spends disconnected between the checks, counted check by
  check, plus the length of the outage that was open at the start.
\<close>

theorem handler_downtime_accounting:
  assumes "conn_inv m"
  shows "sum_list (map duration_cell (written_events vs m)) +
           total_seconds (open_downtime (run_verdicts vs m) (last_time t vs)) =
         total_seconds (open_downtime m t) + total_seconds (time_down (abs_conn m) t vs)"
  using machine_downtime_accounting [of "abs_conn m" vs t]
  by (simp add: written_durations [OF assms] open_downtime_pending abs_conn_run [OF assms]
      downtime_def)

theorem handler_downtime_accounting_witness:
  "sum_list (map duration_cell
       (written_events [(False, 1000000), (False, 2000000), (True, 4500000), (False, 6000000)]
          (default_monitor empty_disk 0))) +
     total_seconds (open_downtime
       (run_verdicts [(False, 1000000), (False, 2000000), (True, 4500000), (False, 6000000)]
          (default_monitor empty_disk 0))
       (last_time 0 [(False, 1000000), (False, 2000000), (True, 4500000), (False, 6000000)])) =
   total_seconds (open_downtime (default_monitor empty_disk 0) 0) +
     total_seconds (time_down (abs_conn (default_monitor empty_disk 0)) 0
       [(False, 1000000), (False, 2000000), (True, 4500000), (False, 6000000)])"
  by (rule handler_downtime_accounting) (rule conn_inv_default)

text \<open>
  The loss of connectivity is logged once, as an error, by the check that
  finds it, and a later failed check logs nothing.
\<close>

theorem loss_logged_as_error:
  assumes "is_connected m"
  shows "log_lines (run_verdicts [(False, t1), (False, t2)] m) = log_lines m @ [(ERROR, Connection_lost)]"
  using assms by (simp add: handle_connection_state_def)

theorem loss_logged_as_error_witness:
  "log_lines (run_verdicts [(False, 1), (False, 2)] (default_monitor empty_disk 0)) =
     log_lines (default_monitor empty_disk 0) @ [(ERROR, Connection_lost)]"
  by (rule loss_logged_as_error) (simp add: default_monitor_def)

end
