(* ===== verification/Connectivity.thy ===== *)
theory Connectivity
  imports Probes StateMachine
begin

text \<open>
  One connectivity check: \<^verbatim>\<open>test_connectivity\<close> (lines 155 to 210). It probes every
  ping target and then every HTTP target, one after the other, counts the successes,
  takes the majority as the verdict, appends one row for each probe to the connectivity
  series and hands the verdict to the connection state machine.

  The outside world during one check is a \<open>check_env\<close>: the outcome of the i-th ping
  and of the i-th request, the time read for the row of each probe, and the time the
  state machine reads. The two loops of the source have the same body; \<open>probe_loop\<close>
  is that body, taken once with \<^verbatim>\<open>ping_test\<close> and once with \<^verbatim>\<open>http_test\<close>.
  \<open>majority\<close> is the aggregator of line 190.
\<close>

section \<open>The environment of a check\<close>

record check_env =
  ping_outcomes :: "nat \<Rightarrow> ping_outcome"
  http_outcomes :: "nat \<Rightarrow> http_outcome"
  ping_times :: "nat \<Rightarrow> timestamp"
  http_times :: "nat \<Rightarrow> timestamp"
  check_time :: timestamp

section \<open>Results of the probes\<close>

text \<open>One entry of the list \<^verbatim>\<open>results\<close> (lines 164 to 170).\<close>

record probe_record =
  pr_timestamp :: timestamp
  pr_status :: string
  pr_target :: string
  pr_response_time_ms :: "real option"
  pr_method :: string

definition make_record :: "timestamp \<Rightarrow> bool \<Rightarrow> string \<Rightarrow> real option \<Rightarrow> string \<Rightarrow> probe_record" where
  "make_record t success target response_time method =
     \<lparr>pr_timestamp = t,
      pr_status = (if success then ''connected'' else ''disconnected''),
      pr_target = target,
      pr_response_time_ms = response_time,
      pr_method = method\<rparr>"

text \<open>The row written for an entry (lines 199 to 205).\<close>

definition result_row :: "probe_record \<Rightarrow> row" where
  "result_row r =
     [Stamp (pr_timestamp r), Text (pr_status r), Text (pr_target r),
      (case pr_response_time_ms r of None \<Rightarrow> Absent | Some x \<Rightarrow> Num x), Text (pr_method r)]"

section \<open>The check\<close>

text \<open>The accumulator of the loops: the results, the successful and the total count.\<close>

type_synonym tally = "probe_record list \<times> nat \<times> nat"

fun probe_loop ::
  "(string \<Rightarrow> nat \<Rightarrow> 'm \<Rightarrow> probe_result \<times> 'm) \<Rightarrow> (nat \<Rightarrow> timestamp) \<Rightarrow> string \<Rightarrow>
     nat \<Rightarrow> string list \<Rightarrow> tally \<Rightarrow> 'm \<Rightarrow> tally \<times> 'm" where
  "probe_loop probe clock method i [] acc m = (acc, m)"
| "probe_loop probe clock method i (target # targets) (results, successful_tests, total_tests) m =
     (let ((success, response_time), m') = probe target i m;
          results' = results @ [make_record (clock i) success target response_time method];
          total_tests' = total_tests + 1;
          successful_tests' = (if success then successful_tests + 1 else successful_tests)
      in probe_loop probe clock method (Suc i) targets (results', successful_tests', total_tests') m')"

text \<open>The probes as the loops call them: the i-th target meets the i-th outcome.\<close>

definition ping_probe ::
  "float_parser \<Rightarrow> check_env \<Rightarrow> string \<Rightarrow> nat \<Rightarrow> 'a monitor_scheme \<Rightarrow> probe_result \<times> 'a monitor_scheme" where
  "ping_probe flt env target i = ping_test flt target (ping_outcomes env i)"

definition http_probe ::
  "check_env \<Rightarrow> string \<Rightarrow> nat \<Rightarrow> 'a monitor_scheme \<Rightarrow> probe_result \<times> 'a monitor_scheme" where
  "http_probe env target i = http_test target (http_outcomes env i)"

text \<open>More than half: \<^verbatim>\<open>successful_tests > (total_tests * 0.5)\<close>.\<close>

definition majority :: "nat \<Rightarrow> nat \<Rightarrow> bool" where
  "majority successful_tests total_tests \<longleftrightarrow> real successful_tests > real total_tests * 0.5"

definition test_connectivity ::
  "float_parser \<Rightarrow> check_env \<Rightarrow> 'a monitor_scheme \<Rightarrow> bool \<times> 'a monitor_scheme" where
  "test_connectivity flt env m =
     (let (acc, m1) = probe_loop (ping_probe flt env) (ping_times env) ''ping'' 0 (ping_targets m) ([], 0, 0) m;
          ((results, successful_tests, total_tests), m2) =
            probe_loop (http_probe env) (http_times env) ''http'' 0 (http_targets m1) acc m1;
          verdict = majority successful_tests total_tests;
          m3 = log_emit DEBUG (Connectivity_result successful_tests total_tests verdict) m2;
          m4 = m3\<lparr>connectivity_log := append_rows (map result_row results) (connectivity_log m3)\<rparr>
      in (verdict, handle_connection_state verdict (check_time env) m4))"

text \<open>
  Two environments for examples: in \<open>pings_down\<close> every ping times out and every request
  is answered with 200; in \<open>all_up\<close> every ping is answered too, without a time in its
  output.
\<close>

definition pings_down :: check_env where
  "pings_down =
     \<lparr>ping_outcomes = (\<lambda>i. Ping_timeout), http_outcomes = (\<lambda>i. Http_response 200 0.1),
      ping_times = (\<lambda>i. 1000000), http_times = (\<lambda>i. 2000000), check_time = 3000000\<rparr>"

definition all_up :: check_env where
  "all_up =
     \<lparr>ping_outcomes = (\<lambda>i. Ping_exit 0 []), http_outcomes = (\<lambda>i. Http_response 200 0.1),
      ping_times = (\<lambda>i. 5000000), http_times = (\<lambda>i. 6000000), check_time = 7000000\<rparr>"

section \<open>The check, by comprehension\<close>

text \<open>
  What the loops compute, without the loops: the result of each probe and the entry
  made of it, for the targets numbered from \<open>i\<close>.
\<close>

definition probe_results ::
  "(string \<Rightarrow> nat \<Rightarrow> 'm \<Rightarrow> probe_result \<times> 'm) \<Rightarrow> nat \<Rightarrow> string list \<Rightarrow> 'm \<Rightarrow> probe_result list" where
  "probe_results probe i targets m = map (\<lambda>(j, target). fst (probe target j m)) (enumerate i targets)"

definition probe_records ::
  "(string \<Rightarrow> nat \<Rightarrow> 'm \<Rightarrow> probe_result \<times> 'm) \<Rightarrow> (nat \<Rightarrow> timestamp) \<Rightarrow> string \<Rightarrow> nat \<Rightarrow>
     string list \<Rightarrow> 'm \<Rightarrow> probe_record list" where
  "probe_records probe clock method i targets m =
     map (\<lambda>(j, target). make_record (clock j) (fst (fst (probe target j m))) target
                           (snd (fst (probe target j m))) method)
       (enumerate i targets)"

definition all_results :: "float_parser \<Rightarrow> check_env \<Rightarrow> 'a monitor_scheme \<Rightarrow> probe_result list" where
  "all_results flt env m =
     probe_results (ping_probe flt env) 0 (ping_targets m) m @
     probe_results (http_probe env) 0 (http_targets m) m"

definition all_records :: "float_parser \<Rightarrow> check_env \<Rightarrow> 'a monitor_scheme \<Rightarrow> probe_record list" where
  "all_records flt env m =
     probe_records (ping_probe flt env) (ping_times env) ''ping'' 0 (ping_targets m) m @
     probe_records (http_probe env) (http_times env) ''http'' 0 (http_targets m) m"

definition successes :: "probe_result list \<Rightarrow> nat" where
  "successes rs = length (filter fst rs)"

section \<open>Lemmas: the aggregator\<close>

lemma majority_iff: "majority s n \<longleftrightarrow> n < 2 * s"
proof -
  have "real n * 0.5 < real s \<longleftrightarrow> real n < real (2 * s)" by (simp add: field_simps)
  also have "\<dots> \<longleftrightarrow> n < 2 * s" by (simp only: of_nat_less_iff)
  finally show ?thesis by (simp add: majority_def)
qed

lemma majority_mono: "majority s n \<Longrightarrow> s \<le> s' \<Longrightarrow> n' \<le> n \<Longrightarrow> majority s' n'"
  by (simp add: majority_iff)

lemma majority_none [simp]: "\<not> majority 0 n"
  by (simp add: majority_iff)

lemma majority_all: "0 < n \<Longrightarrow> majority n n"
  by (simp add: majority_iff)

section \<open>Lemmas: the loops\<close>

lemma successes_simps [simp]:
  "successes [] = 0"
  "successes (r # rs) = (if fst r then Suc (successes rs) else successes rs)"
  "successes (rs @ rs') = successes rs + successes rs'"
  by (simp_all add: successes_def)

lemma successes_le: "successes rs \<le> length rs"
  by (simp add: successes_def)

lemma probe_results_simps [simp]:
  "probe_results probe i [] m = []"
  "probe_results probe i (t # ts) m = fst (probe t i m) # probe_results probe (Suc i) ts m"
  by (simp_all add: probe_results_def)

lemma probe_records_simps [simp]:
  "probe_records probe clock method i [] m = []"
  "probe_records probe clock method i (t # ts) m =
     make_record (clock i) (fst (fst (probe t i m))) t (snd (fst (probe t i m))) method
       # probe_records probe clock method (Suc i) ts m"
  by (simp_all add: probe_records_def)

lemma length_probe_results [simp]: "length (probe_results probe i targets m) = length targets"
  by (simp add: probe_results_def)

lemma length_probe_records [simp]: "length (probe_records probe clock method i targets m) = length targets"
  by (simp add: probe_records_def)

lemma probe_records_targets [simp]:
  "map pr_target (probe_records probe clock method i targets m) = targets"
  by (induction targets arbitrary: i) (simp_all add: make_record_def)

lemma probe_records_methods:
  "map pr_method (probe_records probe clock method i targets m) = replicate (length targets) method"
  by (induction targets arbitrary: i) (simp_all add: make_record_def)

lemma probe_records_status:
  "map pr_status (probe_records probe clock method i targets m) =
     map (\<lambda>r. if fst r then ''connected'' else ''disconnected'') (probe_results probe i targets m)"
  by (induction targets arbitrary: i) (simp_all add: make_record_def)

lemma probe_records_response:
  "map pr_response_time_ms (probe_records probe clock method i targets m) =
     map snd (probe_results probe i targets m)"
  by (induction targets arbitrary: i) (simp_all add: make_record_def)

text \<open>A loop over a probe that leaves the monitor alone is the comprehension.\<close>

lemma probe_loop_silent:
  assumes "\<And>t j. snd (probe t j m) = m"
  shows "probe_loop probe clock method i targets (results, s, n) m =
           ((results @ probe_records probe clock method i targets m,
             s + successes (probe_results probe i targets m),
             n + length targets), m)"
proof (induction targets arbitrary: i results s n)
  case Nil
  show ?case by simp
next
  case (Cons t ts)
  have "probe t i m = (fst (probe t i m), m)"
    using assms [of t i] by (metis prod.collapse)
  then obtain b rt where p: "probe t i m = ((b, rt), m)"
    by (metis prod.collapse)
  show ?case
    by (simp add: p Cons.IH)
qed

lemma ping_probe_silent [simp]: "snd (ping_probe flt env t j m) = m"
  by (simp add: ping_probe_def)

lemma http_probe_silent [simp]: "snd (http_probe env t j m) = m"
  by (simp add: http_probe_def)

lemma length_all_results [simp]:
  "length (all_results flt env m) = length (ping_targets m) + length (http_targets m)"
  by (simp add: all_results_def)

lemma length_all_records [simp]:
  "length (all_records flt env m) = length (ping_targets m) + length (http_targets m)"
  by (simp add: all_records_def)

text \<open>The whole check, without loops.\<close>

lemma test_connectivity_eq:
  "test_connectivity flt env m =
     (majority (successes (all_results flt env m)) (length (all_results flt env m)),
      handle_connection_state (majority (successes (all_results flt env m)) (length (all_results flt env m)))
        (check_time env)
        (m\<lparr>connectivity_log := append_rows (map result_row (all_records flt env m)) (connectivity_log m)\<rparr>))"
  by (simp add: test_connectivity_def probe_loop_silent all_results_def all_records_def Let_def)

lemma result_row_length [simp]: "length (result_row r) = 5"
  by (simp add: result_row_def)

lemma event_row_length [simp]: "length (event_row a b) = 4"
  by (simp add: event_row_def)

section \<open>Lemmas: the monitor after a check\<close>

lemma test_connectivity_is_connected [simp]:
  "is_connected (snd (test_connectivity flt env m)) = fst (test_connectivity flt env m)"
  by (simp add: test_connectivity_eq)

lemma test_connectivity_conn_inv:
  "conn_inv m \<Longrightarrow> conn_inv (snd (test_connectivity flt env m))"
  by (simp add: test_connectivity_eq conn_inv_handle)

lemma test_connectivity_connectivity_rows:
  "rows_of (connectivity_log (snd (test_connectivity flt env m))) =
     rows_of (connectivity_log m) @ map (writerow \<circ> result_row) (all_records flt env m)"
  by (simp add: test_connectivity_eq frame_simps)

lemma test_connectivity_frame [frame_simps]:
  "speedtest_log (snd (test_connectivity flt env m)) = speedtest_log m"
  "report_files (snd (test_connectivity flt env m)) = report_files m"
  "ping_targets (snd (test_connectivity flt env m)) = ping_targets m"
  "http_targets (snd (test_connectivity flt env m)) = http_targets m"
  "config (snd (test_connectivity flt env m)) = config m"
  by (simp_all add: test_connectivity_eq frame_simps)

lemma series_ok_handle_events:
  "series_ok events_header (events_log m) \<Longrightarrow>
     series_ok events_header (events_log (handle_connection_state v now m))"
  by (auto simp: handle_connection_state_def series_ok_append_rows events_header_def
      split: option.split)

lemma store_ok_test_connectivity:
  "store_ok m \<Longrightarrow> store_ok (snd (test_connectivity flt env m))"
  by (simp add: store_ok_def test_connectivity_eq frame_simps series_ok_handle_events
      series_ok_append_rows connectivity_header_def list_all_iff)

lemma all_records_targets:
  "map pr_target (all_records flt env m) = ping_targets m @ http_targets m"
  by (simp add: all_records_def)

lemma all_records_methods:
  "map pr_method (all_records flt env m) =
     replicate (length (ping_targets m)) ''ping'' @ replicate (length (http_targets m)) ''http''"
  by (simp add: all_records_def probe_records_methods)

lemma all_records_status:
  "map pr_status (all_records flt env m) =
     map (\<lambda>r. if fst r then ''connected'' else ''disconnected'') (all_results flt env m)"
  by (simp add: all_records_def all_results_def probe_records_status)

lemma all_records_response:
  "map pr_response_time_ms (all_records flt env m) = map snd (all_results flt env m)"
  by (simp add: all_records_def all_results_def probe_records_response)

lemma all_results_wf: "list_all probe_wf (all_results flt env m)"
  by (auto simp: all_results_def probe_results_def list_all_iff ping_probe_def http_probe_def
      ping_test_wf http_test_wf)

text \<open>A failed check followed by a successful one, on a connected monitor.\<close>

lemma outage_through_checks:
  assumes "is_connected m" and "disconnect_start m = None"
    and "\<not> fst (test_connectivity flt env1 m)"
    and "fst (test_connectivity flt env2 (snd (test_connectivity flt env1 m)))"
  shows "rows_of (events_log (snd (test_connectivity flt env2 (snd (test_connectivity flt env1 m))))) =
           rows_of (events_log m) @ [writerow (event_row (check_time env1) (check_time env2))]"
proof -
  let ?m1 = "snd (test_connectivity flt env1 m)"
  from assms(1-3) have m1: "\<not> is_connected ?m1" "disconnect_start ?m1 = Some (check_time env1)"
      "events_log ?m1 = events_log m"
    by (simp_all add: test_connectivity_eq handle_connection_state_def)
  from assms(4) m1 show ?thesis
    by (simp add: test_connectivity_eq [of flt env2] handle_connection_state_def)
qed

section \<open>Properties\<close>

text \<open>
  C3 (functional). The verdict of a check is the strict majority of its probes: the
  check reports connected exactly when more than half of the probes of all ping and
  HTTP targets succeeded.
\<close>

theorem verdict_is_majority:
  "fst (test_connectivity flt env m) \<longleftrightarrow>
     length (ping_targets m) + length (http_targets m) < 2 * successes (all_results flt env m)"
  by (simp add: test_connectivity_eq majority_iff)

text \<open>
  The aggregator is a strict comparison with half of the total: exactly
  half is disconnected. Two of four is disconnected, three of four is connected, and a
  batch of no probes is disconnected.
\<close>

theorem majority_boundary:
  "(majority s n \<longleftrightarrow> n < 2 * s) \<and> \<not> majority 2 4 \<and> majority 3 4 \<and> \<not> majority 0 0"
  by (simp add: majority_iff)

text \<open>
  C25 (functional). Every probe of a check is recorded, whatever the outcomes: the
  connectivity series grows by one row for each target, the ping targets first and the
  HTTP targets after them, each in the order of its list and with its method.
\<close>

theorem every_probe_recorded:
  "rows_of (connectivity_log (snd (test_connectivity flt env m))) =
     rows_of (connectivity_log m) @ map (writerow \<circ> result_row) (all_records flt env m) \<and>
   map pr_target (all_records flt env m) = ping_targets m @ http_targets m \<and>
   map pr_method (all_records flt env m) =
     replicate (length (ping_targets m)) ''ping'' @ replicate (length (http_targets m)) ''http''"
  by (simp add: test_connectivity_connectivity_rows all_records_targets all_records_methods)

text \<open>
  The row of a probe says \<^verbatim>\<open>connected\<close> exactly when the probe
  succeeded, and carries a response time exactly then.
\<close>

theorem probe_rows_faithful:
  "map pr_status (all_records flt env m) =
     map (\<lambda>r. if fst r then ''connected'' else ''disconnected'') (all_results flt env m) \<and>
   map pr_response_time_ms (all_records flt env m) = map snd (all_results flt env m) \<and>
   list_all probe_wf (all_results flt env m)"
  by (simp add: all_records_status all_records_response all_results_wf)

text \<open>
  A check keeps the monitor well formed: the state invariant and the
  well-formedness of the three series are preserved, and afterwards the monitor is
  connected exactly when the verdict was.
\<close>

theorem check_preserves_invariants:
  assumes "conn_inv m" and "store_ok m"
  shows "conn_inv (snd (test_connectivity flt env m)) \<and> store_ok (snd (test_connectivity flt env m)) \<and>
         is_connected (snd (test_connectivity flt env m)) = fst (test_connectivity flt env m)"
  using assms by (simp add: test_connectivity_conn_inv store_ok_test_connectivity)

theorem check_preserves_invariants_witness:
  "conn_inv (snd (test_connectivity (\<lambda>s. None) pings_down (default_monitor empty_disk 0))) \<and>
   store_ok (snd (test_connectivity (\<lambda>s. None) pings_down (default_monitor empty_disk 0))) \<and>
   is_connected (snd (test_connectivity (\<lambda>s. None) pings_down (default_monitor empty_disk 0))) =
     fst (test_connectivity (\<lambda>s. None) pings_down (default_monitor empty_disk 0))"
  by (rule check_preserves_invariants) (simp_all add: store_ok_init_empty conn_inv_default)

text \<open>
  From the probes to the events series: when a check on a connected
  monitor fails and the next check succeeds, the events series grows by exactly one
  row, the outage from the time of the first check to the time of the second.
\<close>

theorem outage_recorded_between_checks:
  assumes "is_connected m" and "disconnect_start m = None"
    and "\<not> fst (test_connectivity flt env1 m)"
    and "fst (test_connectivity flt env2 (snd (test_connectivity flt env1 m)))"
  shows "rows_of (events_log (snd (test_connectivity flt env2 (snd (test_connectivity flt env1 m))))) =
           rows_of (events_log m) @
             [[Stamp (check_time env1), Text ''disconnect'',
               Num (total_seconds (check_time env2 - check_time env1)),
               Details (check_time env1) (check_time env2)]]"
  using outage_through_checks [OF assms] by (simp add: event_row_def writerow_def)

lemma pings_down_verdict: "\<not> fst (test_connectivity flt pings_down (default_monitor d now))"
  by (simp add: test_connectivity_eq majority_iff all_results_def pings_down_def ping_probe_def
      http_probe_def ping_test_def http_test_def ok_statuses_def default_ping_targets_def
      default_http_targets_def)

lemma all_up_verdict:
  "ping_targets m = default_ping_targets \<Longrightarrow> http_targets m = default_http_targets \<Longrightarrow>
     fst (test_connectivity flt all_up m)"
  by (simp add: test_connectivity_eq majority_iff all_results_def all_up_def ping_probe_def
      http_probe_def ping_test_def http_test_def ok_statuses_def default_ping_targets_def
      default_http_targets_def)

theorem outage_recorded_between_checks_witness:
  "rows_of (events_log (snd (test_connectivity (\<lambda>s. None) all_up
       (snd (test_connectivity (\<lambda>s. None) pings_down (default_monitor empty_disk 0)))))) =
     rows_of (events_log (default_monitor empty_disk 0)) @
       [[Stamp (check_time pings_down), Text ''disconnect'',
         Num (total_seconds (check_time all_up - check_time pings_down)),
         Details (check_time pings_down) (check_time all_up)]]"
  by (rule outage_recorded_between_checks)
    (simp_all add: pings_down_verdict all_up_verdict frame_simps)

end
