(* ===== verification/SpeedTest.thy ===== *)
theory SpeedTest
  imports Monitor
begin

text \<open>
  The speed test runner: \<^verbatim>\<open>run_speedtest\<close> (lines 246 to 317). It runs the Ookla
  tool \<^verbatim>\<open>speedtest --format=json\<close>, falls back to \<^verbatim>\<open>speedtest-cli --json\<close>
  when the first is not installed or exits with a code other than 0, reads the JSON of
  whichever succeeded into megabits per second, a latency and a server label, and
  appends one row to the speed-test series: the measurement, or a failure with its
  reason. No exception leaves the function.

  What the processes do is a \<open>speed_env\<close>. A \<open>proc_outcome\<close> is the return of
  \<^verbatim>\<open>subprocess.run\<close> with its code and with what \<^verbatim>\<open>json.loads\<close> makes of its
  output (the value, or the message of the \<^verbatim>\<open>JSONDecodeError\<close> when it is not JSON), or
  the exception it raised; the JSON parser itself is not modelled. The fallback can be started twice on one path of the source
  (when the first tool exits with an error and the fallback is not installed, the
  handler for the missing tool starts the fallback again), so the environment gives the
  outcome of each of its starts.
\<close>

section \<open>Environment\<close>

datatype proc_outcome = Proc_exit int "string + json" | Proc_raises exn

record speed_env =
  primary_run :: proc_outcome
  fallback_runs :: "nat \<Rightarrow> proc_outcome"
  speed_time :: timestamp

section \<open>Reading the two schemas\<close>

record measurement =
  download_mbps :: real
  upload_mbps :: real
  ping_ms :: json
  server :: cell

text \<open>\<^verbatim>\<open>json.loads(result.stdout)\<close>.\<close>

definition json_loads :: "string + json \<Rightarrow> json result" where
  "json_loads out = (case out of Inl msg \<Rightarrow> Inl (JSONDecodeError msg) | Inr data \<Rightarrow> Inr data)"

text \<open>The Ookla schema (lines 258 to 261): every missing member has a default.\<close>

definition parse_ookla :: "json \<Rightarrow> measurement result" where
  "parse_ookla data =
     rbind (py_get data ''download'' (JObj [])) (\<lambda>d.
     rbind (py_get d ''bandwidth'' (JInt 0)) (\<lambda>dbw.
     rbind (py_truediv dbw 1000000) (\<lambda>down.
     rbind (py_get data ''upload'' (JObj [])) (\<lambda>u.
     rbind (py_get u ''bandwidth'' (JInt 0)) (\<lambda>ubw.
     rbind (py_truediv ubw 1000000) (\<lambda>up.
     rbind (py_get data ''ping'' (JObj [])) (\<lambda>p.
     rbind (py_get p ''latency'' (JInt 0)) (\<lambda>latency.
     rbind (py_get data ''server'' (JObj [])) (\<lambda>s1.
     rbind (py_get s1 ''name'' (JStr ''Unknown'')) (\<lambda>name.
     rbind (py_get data ''server'' (JObj [])) (\<lambda>s2.
     rbind (py_get s2 ''location'' (JStr [])) (\<lambda>location.
       Inr \<lparr>download_mbps = down, upload_mbps = up, ping_ms = latency,
            server = Label name location\<rparr>))))))))))))"

text \<open>The schema of \<^verbatim>\<open>speedtest-cli\<close> (lines 269 to 272 and 282 to 285): no defaults.\<close>

definition parse_legacy :: "json \<Rightarrow> measurement result" where
  "parse_legacy data =
     rbind (py_getitem data ''download'') (\<lambda>d.
     rbind (py_truediv d 1000000) (\<lambda>down.
     rbind (py_getitem data ''upload'') (\<lambda>u.
     rbind (py_truediv u 1000000) (\<lambda>up.
     rbind (py_getitem data ''ping'') (\<lambda>ping.
     rbind (py_getitem data ''server'') (\<lambda>s1.
     rbind (py_getitem s1 ''sponsor'') (\<lambda>sponsor.
     rbind (py_getitem data ''server'') (\<lambda>s2.
     rbind (py_getitem s2 ''name'') (\<lambda>name.
       Inr \<lparr>download_mbps = down, upload_mbps = up, ping_ms = ping,
            server = Label sponsor name\<rparr>)))))))))"

section \<open>The fallback chain\<close>

definition both_failed :: string where
  "both_failed = ''Both speedtest CLIs failed''"

definition not_found :: string where
  "not_found = ''speedtest CLI not found. Install with: curl -s https://packagecloud.io/install/repositories/ookla/speedtest-cli/script.deb.sh | sudo bash && sudo apt-get install speedtest''"

text \<open>
  One start of the fallback tool (lines 265 to 274, and again 278 to 287): its
  measurement, or the exception with the given message when it exits with an error.
\<close>

definition use_fallback :: "proc_outcome \<Rightarrow> string \<Rightarrow> measurement result" where
  "use_fallback outcome msg =
     (case outcome of
        Proc_raises e \<Rightarrow> Inl e
      | Proc_exit returncode out \<Rightarrow>
          if returncode = 0 then rbind (json_loads out) parse_legacy else Inl (PyException msg))"

text \<open>The inner \<^verbatim>\<open>try\<close> with its handler for \<^verbatim>\<open>FileNotFoundError\<close> (lines 253 to 287).\<close>

definition measure_speed :: "speed_env \<Rightarrow> measurement result" where
  "measure_speed env =
     (case primary_run env of
        Proc_raises (FileNotFoundError s) \<Rightarrow> use_fallback (fallback_runs env 0) not_found
      | Proc_raises e \<Rightarrow> Inl e
      | Proc_exit returncode out \<Rightarrow>
          if returncode = 0 then rbind (json_loads out) parse_ookla
          else (case use_fallback (fallback_runs env 0) both_failed of
                  Inl (FileNotFoundError s) \<Rightarrow> use_fallback (fallback_runs env 1) not_found
                | r \<Rightarrow> r))"

section \<open>The rows\<close>

text \<open>The latency as \<^verbatim>\<open>csv.writer\<close> writes it: a number, or the text of a \<^verbatim>\<open>bool\<close>.\<close>

fun ping_cell :: "json \<Rightarrow> cell" where
  "ping_cell (JInt i) = Num (real_of_int i)"
| "ping_cell (JFloat x) = Num x"
| "ping_cell (JBool b) = Text (if b then ''True'' else ''False'')"
| "ping_cell v = Absent"

definition success_row :: "timestamp \<Rightarrow> measurement \<Rightarrow> row" where
  "success_row now r =
     [Stamp now, Num (download_mbps r), Num (upload_mbps r), ping_cell (ping_ms r), server r, Text ''success'']"

definition failure_row :: "timestamp \<Rightarrow> exn \<Rightarrow> row" where
  "failure_row now e = [Stamp now, Absent, Absent, Absent, Absent, Text (''failed: '' @ exn_str e)]"

section \<open>The runner\<close>

text \<open>
  What the outer \<^verbatim>\<open>try\<close> computes before it writes: the measurement together with
  the latency as line 289 formats it, or the exception that reached the handler of
  line 305.
\<close>

definition speed_outcome :: "speed_env \<Rightarrow> (measurement \<times> real) result" where
  "speed_outcome env = rbind (measure_speed env) (\<lambda>r. rbind (py_format_f (ping_ms r)) (\<lambda>p. Inr (r, p)))"

definition run_speedtest :: "speed_env \<Rightarrow> 'a monitor_scheme \<Rightarrow> bool \<times> 'a monitor_scheme" where
  "run_speedtest env m =
     (let m1 = log_emit INFO Running_speedtest m
      in case speed_outcome env of
           Inr (r, p) \<Rightarrow>
             (True,
              (log_emit INFO (Speedtest_result (download_mbps r) (upload_mbps r) p) m1)
                \<lparr>speedtest_log := append_rows [success_row (speed_time env) r] (speedtest_log m1)\<rparr>)
         | Inl e \<Rightarrow>
             (False,
              (log_emit ERROR (Speedtest_error (exn_str e)) m1)
                \<lparr>speedtest_log := append_rows [failure_row (speed_time env) e] (speedtest_log m1)\<rparr>))"

text \<open>The row of an invocation.\<close>

definition speed_row :: "speed_env \<Rightarrow> row" where
  "speed_row env =
     (case speed_outcome env of
        Inr (r, p) \<Rightarrow> success_row (speed_time env) r
      | Inl e \<Rightarrow> failure_row (speed_time env) e)"

text \<open>Examples of the output of the two tools.\<close>

definition ookla_example :: json where
  "ookla_example =
     JObj [(''download'', JObj [(''bandwidth'', JInt 500000000)]),
           (''upload'', JObj [(''bandwidth'', JInt 40000000)]),
           (''ping'', JObj [(''latency'', JFloat 12.5)]),
           (''server'', JObj [(''name'', JStr ''Provider''), (''location'', JStr ''City'')])]"

definition legacy_example :: json where
  "legacy_example =
     JObj [(''download'', JFloat 500000000), (''upload'', JFloat 40000000), (''ping'', JFloat 12.5),
           (''server'', JObj [(''sponsor'', JStr ''Provider''), (''name'', JStr ''City'')])]"

definition fallback_env :: speed_env where
  "fallback_env =
     \<lparr>primary_run = Proc_exit 2 (Inl []),
      fallback_runs = (\<lambda>i. Proc_exit 0 (Inr legacy_example)),
      speed_time = 9000000\<rparr>"

definition broken_env :: speed_env where
  "broken_env =
     \<lparr>primary_run = Proc_raises (FileNotFoundError ''speedtest''),
      fallback_runs = (\<lambda>i. Proc_exit 1 (Inl [])),
      speed_time = 9000000\<rparr>"

section \<open>Lemmas\<close>

lemma run_speedtest_result: "fst (run_speedtest env m) \<longleftrightarrow> (\<exists>x. speed_outcome env = Inr x)"
  by (auto simp: run_speedtest_def Let_def split: sum.split)

lemma run_speedtest_log_rows:
  "speedtest_log (snd (run_speedtest env m)) = append_rows [speed_row env] (speedtest_log m)"
  by (simp add: run_speedtest_def speed_row_def Let_def split: sum.split)

lemma run_speedtest_frame [frame_simps]:
  "connectivity_log (snd (run_speedtest env m)) = connectivity_log m"
  "events_log (snd (run_speedtest env m)) = events_log m"
  "report_files (snd (run_speedtest env m)) = report_files m"
  "config_ini (snd (run_speedtest env m)) = config_ini m"
  "is_connected (snd (run_speedtest env m)) = is_connected m"
  "disconnect_start (snd (run_speedtest env m)) = disconnect_start m"
  "last_successful_ping (snd (run_speedtest env m)) = last_successful_ping m"
  "ping_targets (snd (run_speedtest env m)) = ping_targets m"
  "http_targets (snd (run_speedtest env m)) = http_targets m"
  "config (snd (run_speedtest env m)) = config m"
  by (simp_all add: run_speedtest_def Let_def split: sum.split)

lemma run_speedtest_log_lines:
  "log_lines (snd (run_speedtest env m)) =
     log_lines m @ [(INFO, Running_speedtest),
       (case speed_outcome env of
          Inr (r, p) \<Rightarrow> (INFO, Speedtest_result (download_mbps r) (upload_mbps r) p)
        | Inl e \<Rightarrow> (ERROR, Speedtest_error (exn_str e)))]"
  by (simp add: run_speedtest_def Let_def split: sum.split)

lemma speed_row_length [simp]: "length (speed_row env) = 6"
  by (simp add: speed_row_def success_row_def failure_row_def split: sum.split)

lemma speed_row_status:
  "speed_row env ! 5 = Text ''success'' \<longleftrightarrow> (\<exists>x. speed_outcome env = Inr x)"
  by (auto simp: speed_row_def success_row_def failure_row_def split: sum.split)

lemma conn_inv_run_speedtest: "conn_inv (snd (run_speedtest env m)) = conn_inv m"
  by (simp add: conn_inv_def frame_simps)

lemma store_ok_run_speedtest: "store_ok m \<Longrightarrow> store_ok (snd (run_speedtest env m))"
  by (simp add: store_ok_def frame_simps run_speedtest_log_rows series_ok_append_rows
      speedtest_header_def)

text \<open>The paths of the fallback chain.\<close>

lemma measure_primary_ok:
  "primary_run env = Proc_exit 0 (Inr data) \<Longrightarrow> measure_speed env = parse_ookla data"
  by (simp add: measure_speed_def json_loads_def)

lemma measure_primary_unparsable:
  "primary_run env = Proc_exit 0 (Inl msg) \<Longrightarrow> measure_speed env = Inl (JSONDecodeError msg)"
  by (simp add: measure_speed_def json_loads_def)

lemma measure_primary_missing:
  "primary_run env = Proc_raises (FileNotFoundError s) \<Longrightarrow>
     measure_speed env = use_fallback (fallback_runs env 0) not_found"
  by (simp add: measure_speed_def)

lemma measure_primary_raises:
  "primary_run env = Proc_raises e \<Longrightarrow> \<forall>s. e \<noteq> FileNotFoundError s \<Longrightarrow> measure_speed env = Inl e"
  by (cases e) (simp_all add: measure_speed_def)

lemma measure_primary_failed:
  "primary_run env = Proc_exit rc out \<Longrightarrow> rc \<noteq> 0 \<Longrightarrow>
     measure_speed env =
       (case use_fallback (fallback_runs env 0) both_failed of
          Inl (FileNotFoundError s) \<Rightarrow> use_fallback (fallback_runs env 1) not_found
        | r \<Rightarrow> r)"
  by (simp add: measure_speed_def)

lemma use_fallback_ok:
  "outcome = Proc_exit 0 (Inr data) \<Longrightarrow> use_fallback outcome msg = parse_legacy data"
  by (simp add: use_fallback_def json_loads_def)

lemma use_fallback_failed:
  "outcome = Proc_exit rc out \<Longrightarrow> rc \<noteq> 0 \<Longrightarrow> use_fallback outcome msg = Inl (PyException msg)"
  by (simp add: use_fallback_def)

lemma parse_legacy_not_missing: "parse_legacy data \<noteq> Inl (FileNotFoundError s)"
  by (auto simp: parse_legacy_def rbind_Inl_iff py_truediv_def
      elim!: py_getitem.elims split: option.splits)

lemma parse_legacy_example:
  "parse_legacy legacy_example =
     Inr \<lparr>download_mbps = 500, upload_mbps = 40, ping_ms = JFloat 12.5,
          server = Label (JStr ''Provider'') (JStr ''City'')\<rparr>"
  by (simp add: parse_legacy_def legacy_example_def dict_get_def py_truediv_def)

lemma parse_ookla_example:
  "parse_ookla ookla_example =
     Inr \<lparr>download_mbps = 500, upload_mbps = 40, ping_ms = JFloat 12.5,
          server = Label (JStr ''Provider'') (JStr ''City'')\<rparr>"
  by (simp add: parse_ookla_def ookla_example_def dict_get_def py_truediv_def)

lemma parse_ookla_empty:
  "parse_ookla (JObj []) =
     Inr \<lparr>download_mbps = 0, upload_mbps = 0, ping_ms = JInt 0, server = Label (JStr ''Unknown'') (JStr [])\<rparr>"
  by (simp add: parse_ookla_def py_truediv_def)

lemma speed_outcome_Inr:
  "measure_speed env = Inr r \<Longrightarrow> py_number (ping_ms r) = Some p \<Longrightarrow> speed_outcome env = Inr (r, p)"
  by (simp add: speed_outcome_def py_format_f_def)

lemma speed_outcome_Inl: "measure_speed env = Inl e \<Longrightarrow> speed_outcome env = Inl e"
  by (simp add: speed_outcome_def)

lemma parse_legacy_download:
  assumes "parse_legacy data = Inr r"
  shows "\<exists>d x. py_getitem data ''download'' = Inr d \<and> py_number d = Some x \<and> download_mbps r = x / 1000000"
  using assms by (auto simp: parse_legacy_def rbind_Inr_iff py_truediv_Inr_iff)

lemma parse_ookla_download:
  assumes "parse_ookla data = Inr r"
  shows "\<exists>d b x. py_get data ''download'' (JObj []) = Inr d \<and> py_get d ''bandwidth'' (JInt 0) = Inr b \<and>
           py_number b = Some x \<and> download_mbps r = x / 1000000"
  using assms by (auto simp: parse_ookla_def rbind_Inr_iff py_truediv_Inr_iff)

section \<open>Properties\<close>

text \<open>
  C7 (error). A speed test always ends with exactly one new row in the speed-test
  series, of six fields, and returns true exactly when the status of that row is
  \<^verbatim>\<open>success\<close>: no failure of a tool or of its output escapes the runner.
\<close>

theorem speedtest_one_row:
  "rows_of (speedtest_log (snd (run_speedtest env m))) = rows_of (speedtest_log m) @ [writerow (speed_row env)] \<and>
   length (speed_row env) = 6 \<and>
   (fst (run_speedtest env m) \<longleftrightarrow> speed_row env ! 5 = Text ''success'')"
  by (simp add: run_speedtest_log_rows run_speedtest_result speed_row_status)

text \<open>
  C5 (functional). When the first tool is not installed or exits with an error and the
  fallback tool exits with 0 and a readable output, the test succeeds and its row is
  the measurement of the fallback.
\<close>

theorem fallback_success:
  assumes "(\<exists>rc out. primary_run env = Proc_exit rc out \<and> rc \<noteq> 0) \<or>
           (\<exists>s. primary_run env = Proc_raises (FileNotFoundError s))"
    and "fallback_runs env 0 = Proc_exit 0 (Inr data)"
    and "parse_legacy data = Inr r" and "py_number (ping_ms r) = Some p"
  shows "fst (run_speedtest env m) \<and> speed_row env = success_row (speed_time env) r"
proof -
  from assms(1-3) have "measure_speed env = Inr r"
    by (auto simp: measure_speed_def use_fallback_def json_loads_def)
  then have "speed_outcome env = Inr (r, p)" using assms(4) by (rule speed_outcome_Inr)
  then show ?thesis by (simp add: run_speedtest_result speed_row_def)
qed

theorem fallback_success_witness:
  "fst (run_speedtest fallback_env (default_monitor empty_disk 0)) \<and>
   speed_row fallback_env =
     success_row (speed_time fallback_env)
       \<lparr>download_mbps = 500, upload_mbps = 40, ping_ms = JFloat 12.5,
        server = Label (JStr ''Provider'') (JStr ''City'')\<rparr>"
  by (rule fallback_success [where data = legacy_example and p = "12.5"])
    (simp_all add: fallback_env_def parse_legacy_example)

text \<open>
  C31 (functional). Bandwidth is normalised by dividing the raw figure by 1,000,000, in
  both schemas: a raw 500,000,000 is recorded as 500.0.
\<close>

theorem bandwidth_normalised:
  "download_mbps (projr (parse_ookla ookla_example)) = 500 \<and>
   download_mbps (projr (parse_legacy legacy_example)) = 500 \<and>
   (parse_legacy data = Inr r \<longrightarrow>
      (\<exists>d x. py_getitem data ''download'' = Inr d \<and> py_number d = Some x \<and> download_mbps r = x / 1000000)) \<and>
   (parse_ookla data' = Inr r' \<longrightarrow>
      (\<exists>d b x. py_get data' ''download'' (JObj []) = Inr d \<and> py_get d ''bandwidth'' (JInt 0) = Inr b \<and>
         py_number b = Some x \<and> download_mbps r' = x / 1000000))"
  using parse_legacy_download [of data r] parse_ookla_download [of data' r']
  by (simp add: parse_ookla_example parse_legacy_example)

theorem bandwidth_normalised_witness:
  "\<exists>d x. py_getitem legacy_example ''download'' = Inr d \<and> py_number d = Some x \<and>
     download_mbps \<lparr>download_mbps = 500, upload_mbps = 40, ping_ms = JFloat 12.5,
        server = Label (JStr ''Provider'') (JStr ''City'')\<rparr> = x / 1000000"
  using bandwidth_normalised [of legacy_example
      "\<lparr>download_mbps = 500, upload_mbps = 40, ping_ms = JFloat 12.5,
        server = Label (JStr ''Provider'') (JStr ''City'')\<rparr>"]
  by (simp add: parse_legacy_example)

text \<open>
  C27 (error). The reason recorded for a failed test: when both tools exit with an error
  it is that both failed; when the first is not installed and the fallback exits with
  an error it is that the tool was not found; when the output of the first tool is not
  JSON it is the decoding error, and the fallback is not tried; an exception of the
  first tool other than its absence is recorded as it is.
\<close>

theorem failure_reasons:
  "(primary_run env = Proc_exit rc out \<and> rc \<noteq> 0 \<and> fallback_runs env 0 = Proc_exit rc' out' \<and> rc' \<noteq> 0 \<longrightarrow>
      speed_row env = failure_row (speed_time env) (PyException both_failed)) \<and>
   (primary_run env = Proc_raises (FileNotFoundError s) \<and> fallback_runs env 0 = Proc_exit rc' out' \<and> rc' \<noteq> 0 \<longrightarrow>
      speed_row env = failure_row (speed_time env) (PyException not_found)) \<and>
   (primary_run env = Proc_exit 0 (Inl msg) \<longrightarrow>
      speed_row env = failure_row (speed_time env) (JSONDecodeError msg)) \<and>
   (primary_run env = Proc_raises (TimeoutExpired s) \<longrightarrow>
      speed_row env = failure_row (speed_time env) (TimeoutExpired s))"
  by (auto simp: speed_row_def speed_outcome_def measure_speed_def use_fallback_def json_loads_def)

theorem failure_reasons_witness:
  "speed_row broken_env = failure_row (speed_time broken_env) (PyException not_found)"
  using failure_reasons [where env = broken_env and rc' = 1 and out' = "Inl []" and s = "''speedtest''"]
  by (simp add: broken_env_def)

text \<open>
  A failed test is written with its four measurement fields empty and the
  status \<^verbatim>\<open>failed:\<close> followed by the text of the exception, and it is logged at
  level ERROR.
\<close>

theorem failed_test_row:
  assumes "\<not> fst (run_speedtest env m)"
  shows "\<exists>e. rows_of (speedtest_log (snd (run_speedtest env m))) =
               rows_of (speedtest_log m) @
                 [[Stamp (speed_time env), Text [], Text [], Text [], Text [], Text (''failed: '' @ exn_str e)]] \<and>
             log_lines (snd (run_speedtest env m)) =
               log_lines m @ [(INFO, Running_speedtest), (ERROR, Speedtest_error (exn_str e))]"
proof -
  from assms obtain e where "speed_outcome env = Inl e"
    by (cases "speed_outcome env") (auto simp: run_speedtest_result)
  then show ?thesis
    by (intro exI [of _ e])
      (simp add: run_speedtest_log_rows run_speedtest_log_lines speed_row_def failure_row_def
        writerow_def)
qed

theorem failed_test_row_witness:
  "\<exists>e. rows_of (speedtest_log (snd (run_speedtest broken_env (default_monitor empty_disk 0)))) =
         rows_of (speedtest_log (default_monitor empty_disk 0)) @
           [[Stamp (speed_time broken_env), Text [], Text [], Text [], Text [], Text (''failed: '' @ exn_str e)]] \<and>
       log_lines (snd (run_speedtest broken_env (default_monitor empty_disk 0))) =
         log_lines (default_monitor empty_disk 0) @ [(INFO, Running_speedtest), (ERROR, Speedtest_error (exn_str e))]"
  by (rule failed_test_row)
    (simp add: run_speedtest_result speed_outcome_def measure_speed_def use_fallback_def broken_env_def)

text \<open>
  C39 (functional). The Ookla schema is read with a default for every member: an output
  that is an empty JSON object is recorded as a successful test of 0 Mbps down, 0 Mbps
  up and 0 ms, on server \<^verbatim>\<open>Unknown\<close>.
\<close>

theorem empty_ookla_output_succeeds:
  assumes "primary_run env = Proc_exit 0 (Inr (JObj []))"
  shows "fst (run_speedtest env m) \<and>
         speed_row env =
           [Stamp (speed_time env), Num 0, Num 0, Num 0, Label (JStr ''Unknown'') (JStr []), Text ''success'']"
proof -
  from assms have "measure_speed env =
      Inr \<lparr>download_mbps = 0, upload_mbps = 0, ping_ms = JInt 0, server = Label (JStr ''Unknown'') (JStr [])\<rparr>"
    by (simp add: measure_primary_ok parse_ookla_empty)
  then have "speed_outcome env =
      Inr (\<lparr>download_mbps = 0, upload_mbps = 0, ping_ms = JInt 0, server = Label (JStr ''Unknown'') (JStr [])\<rparr>, 0)"
    by (rule speed_outcome_Inr) simp
  then show ?thesis
    by (simp add: run_speedtest_result speed_row_def success_row_def)
qed

theorem empty_ookla_output_succeeds_witness:
  "fst (run_speedtest \<lparr>primary_run = Proc_exit 0 (Inr (JObj [])), fallback_runs = (\<lambda>i. Proc_exit 1 (Inl [])),
         speed_time = 1\<rparr> (default_monitor empty_disk 0)) \<and>
   speed_row \<lparr>primary_run = Proc_exit 0 (Inr (JObj [])), fallback_runs = (\<lambda>i. Proc_exit 1 (Inl [])), speed_time = 1\<rparr> =
     [Stamp (speed_time \<lparr>primary_run = Proc_exit 0 (Inr (JObj [])), fallback_runs = (\<lambda>i. Proc_exit 1 (Inl [])),
         speed_time = 1\<rparr>), Num 0, Num 0, Num 0, Label (JStr ''Unknown'') (JStr []), Text ''success'']"
  by (rule empty_ookla_output_succeeds) simp

text \<open>
  C36 (error). The handler for a tool that is not installed also catches the fallback:
  when the first tool exits with an error and the fallback is not installed, the
  fallback is started a second time, and the outcome of that second start decides.
\<close>

theorem fallback_started_twice:
  assumes "primary_run env = Proc_exit rc out" and "rc \<noteq> 0"
    and "fallback_runs env 0 = Proc_raises (FileNotFoundError s)"
  shows "measure_speed env = use_fallback (fallback_runs env 1) not_found"
  using assms by (simp add: measure_speed_def use_fallback_def)

theorem fallback_started_twice_witness:
  "measure_speed \<lparr>primary_run = Proc_exit 1 (Inl []),
       fallback_runs = (\<lambda>i. if i = 0 then Proc_raises (FileNotFoundError ''speedtest-cli'')
                             else Proc_exit 0 (Inr legacy_example)),
       speed_time = 1\<rparr> =
     use_fallback (fallback_runs \<lparr>primary_run = Proc_exit 1 (Inl []),
       fallback_runs = (\<lambda>i. if i = 0 then Proc_raises (FileNotFoundError ''speedtest-cli'')
                             else Proc_exit 0 (Inr legacy_example)),
       speed_time = 1\<rparr> 1) not_found"
  by (rule fallback_started_twice [where rc = 1 and s = "''speedtest-cli''"]) simp_all

text \<open>
  A speed test touches nothing but the speed-test series and the log:
  the connection state, the other two series and the well-formedness of the store are
  preserved.
\<close>

theorem speedtest_preserves_state:
  "connectivity_log (snd (run_speedtest env m)) = connectivity_log m \<and>
   events_log (snd (run_speedtest env m)) = events_log m \<and>
   is_connected (snd (run_speedtest env m)) = is_connected m \<and>
   disconnect_start (snd (run_speedtest env m)) = disconnect_start m \<and>
   last_successful_ping (snd (run_speedtest env m)) = last_successful_ping m \<and>
   conn_inv (snd (run_speedtest env m)) = conn_inv m \<and>
   (store_ok m \<longrightarrow> store_ok (snd (run_speedtest env m)))"
  by (simp add: frame_simps conn_inv_run_speedtest store_ok_run_speedtest)

theorem speedtest_preserves_state_witness:
  "store_ok (snd (run_speedtest broken_env (default_monitor empty_disk 0)))"
  using speedtest_preserves_state [of broken_env "default_monitor empty_disk 0"]
  by (simp add: store_ok_init_empty)

end
