(* ===== verification/Report.thy ===== *)
theory Report
  imports Monitor
begin

text \<open>
  The report generator: \<^verbatim>\<open>generate_report\<close> of \<^verbatim>\<open>src/internet_monitor.py\<close>
  (lines 319 to 386).

  The method reads the three series with \<^verbatim>\<open>csv.DictReader\<close> and writes a text file of
  up to three summaries. Here each summary is a function from the series to the parts
  it writes (\<open>connectivity_section\<close>, \<open>disconnection_section\<close>, \<open>speed_section\<close>), with
  the exception it raises as the other value; \<open>write_sections\<close> is the body of the
  \<^verbatim>\<open>with\<close> statement, which stops at the first exception and leaves in the file what
  was written before it; \<open>generate_report\<close> is the method with its
  \<^verbatim>\<open>try\<close>/\<^verbatim>\<open>except\<close>, its two log lines and its return value. A report file holds
  the numbers of its summaries, not their text: the rounding of \<^verbatim>\<open>:.1f\<close> and the
  minutes of the second line of the disconnection summary (the downtime divided by 60)
  are not modelled.

  The lemmas give each summary on a series that is well formed, the bounds on the
  numbers of a summary, the cases in which a summary is left out, and what the method
  does when a summary raises.
\<close>

section \<open>Comprehensions over the rows\<close>

text \<open>\<^verbatim>\<open>[r for r in data if r[key] == word]\<close>.\<close>

primrec select_rows :: "string \<Rightarrow> string \<Rightarrow> csv_dict list \<Rightarrow> csv_dict list result" where
  "select_rows key word [] = Inr []"
| "select_rows key word (r # rs) =
     rbind (getitem r key) (\<lambda>c.
       rbind (select_rows key word rs) (\<lambda>selected.
         Inr (if cell_is c word then r # selected else selected)))"

text \<open>\<^verbatim>\<open>[float(r[key]) for r in rows]\<close>.\<close>

definition floats_of :: "float_parser \<Rightarrow> string \<Rightarrow> csv_dict list \<Rightarrow> real list result" where
  "floats_of flt key rows = collect (map (\<lambda>r. rbind (getitem r key) (cell_float flt)) rows)"

section \<open>The three summaries\<close>

definition success_rate :: "nat \<Rightarrow> nat \<Rightarrow> real" where
  "success_rate total_tests failed_tests =
     (if total_tests > 0
      then real_of_int (int total_tests - int failed_tests) / real total_tests * 100
      else 0)"

definition connectivity_section :: "csv_file \<Rightarrow> report_part list result" where
  "connectivity_section f =
     (case f of
        None \<Rightarrow> Inr []
      | Some rows \<Rightarrow>
          (let connectivity_data = dict_reader rows;
               total_tests = length connectivity_data
           in rbind (select_rows ''status'' ''disconnected'' connectivity_data) (\<lambda>failed.
                Inr [Connectivity_summary total_tests (length failed)
                       (success_rate total_tests (length failed))])))"

definition disconnection_section :: "float_parser \<Rightarrow> csv_file \<Rightarrow> report_part list result" where
  "disconnection_section flt f =
     (case f of
        None \<Rightarrow> Inr []
      | Some rows \<Rightarrow>
          rbind (select_rows ''event_type'' ''disconnect'' (dict_reader rows)) (\<lambda>disconnects.
            if disconnects = [] then Inr []
            else rbind (floats_of flt ''duration_seconds'' disconnects) (\<lambda>durations.
              let total_downtime = sum_list durations
              in Inr [Disconnection_summary (length disconnects) total_downtime
                        (total_downtime / real (length disconnects))])))"

definition speed_section :: "float_parser \<Rightarrow> csv_file \<Rightarrow> report_part list result" where
  "speed_section flt f =
     (case f of
        None \<Rightarrow> Inr []
      | Some rows \<Rightarrow>
          (let speedtest_data = dict_reader rows
           in rbind (select_rows ''status'' ''success'' speedtest_data) (\<lambda>successful_tests.
                if successful_tests = [] then Inr []
                else rbind (floats_of flt ''download_mbps'' successful_tests) (\<lambda>download_speeds.
                     rbind (floats_of flt ''upload_mbps'' successful_tests) (\<lambda>upload_speeds.
                     rbind (py_min download_speeds) (\<lambda>min_download.
                     rbind (py_max download_speeds) (\<lambda>max_download.
                       Inr [Speed_summary (length speedtest_data) (length successful_tests)
                              (average download_speeds) (average upload_speeds)
                              min_download max_download])))))))"

section \<open>The method\<close>

text \<open>
  The summaries in the order of the file: what is written, and the exception that
  ended the writing, if any.
\<close>

fun write_sections :: "report_part list result list \<Rightarrow> report_part list \<times> exn option" where
  "write_sections [] = ([], None)"
| "write_sections (Inl e # rest) = ([], Some e)"
| "write_sections (Inr parts # rest) = (parts @ fst (write_sections rest), snd (write_sections rest))"

definition sections :: "float_parser \<Rightarrow> 'a disk_scheme \<Rightarrow> report_part list result list" where
  "sections flt d =
     [connectivity_section (connectivity_log d),
      disconnection_section flt (events_log d),
      speed_section flt (speedtest_log d)]"

text \<open>
  \<open>named\<close> is the time read for the name of the file and \<open>generated\<close> the time read for
  its heading. The file is opened with \<^verbatim>\<open>'w'\<close>: a report of the same second is
  replaced.
\<close>

definition generate_report ::
  "float_parser \<Rightarrow> timestamp \<Rightarrow> timestamp \<Rightarrow> 'a monitor_scheme \<Rightarrow> int option \<times> 'a monitor_scheme" where
  "generate_report flt named generated m =
     (let report_file = named div 1000000;
          written = write_sections (sections flt m);
          m1 = m\<lparr>report_files :=
                  AList.update report_file (Heading generated # fst written) (report_files m)\<rparr>
      in case snd written of
           None \<Rightarrow> (Some report_file, log_emit INFO (Report_generated report_file) m1)
         | Some e \<Rightarrow> (None, log_emit ERROR (Report_failed e) m1))"

text \<open>The file a call leaves behind.\<close>

definition report_of :: "float_parser \<Rightarrow> timestamp \<Rightarrow> 'a disk_scheme \<Rightarrow> report_file" where
  "report_of flt generated d = Heading generated # fst (write_sections (sections flt d))"

section \<open>Stores the report can read\<close>

text \<open>
  A row is typed when the fields the report converts with \<^verbatim>\<open>float()\<close> are numbers
  whenever the row has the status the report selects; a store is readable when its
  series are well formed and the rows of the events and speed-test series are typed.
\<close>

fun is_num :: "cell \<Rightarrow> bool" where
  "is_num (Num x) = True"
| "is_num c = False"

definition row_typed :: "nat \<Rightarrow> string \<Rightarrow> nat list \<Rightarrow> row \<Rightarrow> bool" where
  "row_typed status word nums r \<longleftrightarrow> (r ! status = Text word \<longrightarrow> list_all (\<lambda>i. is_num (r ! i)) nums)"

definition readable :: "'a disk_scheme \<Rightarrow> bool" where
  "readable d \<longleftrightarrow>
     store_ok d \<and>
     list_all (row_typed 1 ''disconnect'' [2]) (tl (rows_of (events_log d))) \<and>
     list_all (row_typed 5 ''success'' [1, 2]) (tl (rows_of (speedtest_log d)))"

text \<open>Rows that stand for series of the examples.\<close>

definition probe_rows :: "nat \<Rightarrow> nat \<Rightarrow> row list" where
  "probe_rows up down =
     replicate up [Stamp 0, Text ''connected'', Text ''8.8.8.8'', Num 10, Text ''ping''] @
     replicate down [Stamp 0, Text ''disconnected'', Text ''8.8.8.8'', Absent, Text ''ping'']"

definition two_events :: "row list" where
  "two_events =
     [[Stamp 0, Text ''disconnect'', Num 30, Details 0 30000000],
      [Stamp 60000000, Text ''disconnect'', Num 90, Details 60000000 150000000]]"

definition three_speedtests :: "row list" where
  "three_speedtests =
     [[Stamp 0, Num 80, Num 20, Num 12, Label (JStr ''Provider'') (JStr ''City''), Text ''success''],
      [Stamp 1, Text [], Text [], Text [], Text [], Text ''failed: Both speedtest CLIs failed''],
      [Stamp 2, Num 100, Num 10, Num 11, Label (JStr ''Provider'') (JStr ''City''), Text ''success'']]"

text \<open>A store whose events series holds a row without a duration.\<close>

definition damaged_store :: monitor where
  "damaged_store =
     (default_monitor empty_disk 0)
       \<lparr>connectivity_log := Some (connectivity_header # probe_rows 1 1),
        events_log := Some [events_header, [Stamp 0, Text ''disconnect'', Text [], Text []]],
        speedtest_log := Some (speedtest_header # three_speedtests)\<rparr>"

section \<open>Lemmas: comprehensions\<close>

lemma select_rows_KeyError: "select_rows key word data = Inl e \<Longrightarrow> e = KeyError key"
  by (induction data) (auto simp: rbind_Inl_iff getitem_def split: option.splits)

lemma select_rows_filter:
  "(\<And>r. r \<in> set data \<Longrightarrow> r (Text key) \<noteq> None) \<Longrightarrow>
     select_rows key word data = Inr (filter (\<lambda>r. r (Text key) = Some (Text word)) data)"
  by (induction data) (auto simp: getitem_def cell_is_def split: option.splits)

lemma select_rows_sublist:
  "select_rows key word data = Inr selected \<Longrightarrow> subseq selected data"
  by (induction data arbitrary: selected) (auto simp: rbind_Inr_iff split: if_splits)

lemma select_rows_length:
  "select_rows key word data = Inr selected \<Longrightarrow> length selected \<le> length data"
  using select_rows_sublist [of key word data selected]
  by (auto dest: subseq_same_length simp: list_emb_length)

lemma select_rows_has_word:
  "select_rows key word data = Inr selected \<Longrightarrow> r \<in> set selected \<Longrightarrow> r (Text key) = Some (Text word)"
  by (induction data arbitrary: selected)
    (auto simp: rbind_Inr_iff getitem_def cell_is_def split: if_splits option.splits)

lemma select_rows_missing_key:
  "r \<in> set data \<Longrightarrow> r (Text key) = None \<Longrightarrow> select_rows key word data = Inl (KeyError key)"
proof (induction data)
  case Nil
  then show ?case by simp
next
  case (Cons a data)
  show ?case
  proof (cases "a (Text key)")
    case None
    then show ?thesis by (simp add: getitem_def)
  next
    case (Some c)
    with Cons have "select_rows key word data = Inl (KeyError key)" by auto
    with Some show ?thesis by (simp add: getitem_def)
  qed
qed

lemma floats_of_length: "floats_of flt key rows = Inr xs \<Longrightarrow> length xs = length rows"
  by (auto simp: floats_of_def dest: collect_length)

lemma floats_of_Num:
  "(\<And>r. r \<in> set rows \<Longrightarrow> r (Text key) = Some (Num (g r))) \<Longrightarrow> floats_of flt key rows = Inr (map g rows)"
proof -
  assume num: "\<And>r. r \<in> set rows \<Longrightarrow> r (Text key) = Some (Num (g r))"
  have "rbind (getitem r key) (cell_float flt) = Inr (g r)" if "r \<in> set rows" for r
    using num [OF that] by (simp add: getitem_def)
  then show ?thesis unfolding floats_of_def by (rule collect_map_ok)
qed

lemma floats_of_Nil [simp]: "floats_of flt key [] = Inr []"
  by (simp add: floats_of_def)

section \<open>Lemmas: reading the series of the program\<close>

lemma dict_reader_series:
  assumes "series_ok h (Some (h # rs))" and "h \<noteq> []"
  shows "dict_reader (h # rs) = map (row_dict h) rs"
proof -
  from assms have "\<And>r. r \<in> set rs \<Longrightarrow> r \<noteq> []" by (auto simp: list_all_iff)
  then have "filter (\<lambda>r. r \<noteq> []) rs = rs" by (simp add: filter_id_conv)
  then show ?thesis by simp
qed

lemma connectivity_fields:
  "length r = 5 \<Longrightarrow> row_dict connectivity_header r (Text ''status'') = Some (r ! 1)"
  using row_dict_distinct [of connectivity_header 1 r] by (simp add: connectivity_header_def)

lemma events_fields:
  assumes "length r = 4"
  shows "row_dict events_header r (Text ''event_type'') = Some (r ! 1)"
    and "row_dict events_header r (Text ''duration_seconds'') = Some (r ! 2)"
  using row_dict_distinct [of events_header 1 r] row_dict_distinct [of events_header 2 r] assms
  by (simp_all add: events_header_def)

lemma speedtest_fields:
  assumes "length r = 6"
  shows "row_dict speedtest_header r (Text ''download_mbps'') = Some (r ! 1)"
    and "row_dict speedtest_header r (Text ''upload_mbps'') = Some (r ! 2)"
    and "row_dict speedtest_header r (Text ''status'') = Some (r ! 5)"
  using row_dict_distinct [of speedtest_header 1 r] row_dict_distinct [of speedtest_header 2 r]
    row_dict_distinct [of speedtest_header 5 r] assms
  by (simp_all add: speedtest_header_def)

section \<open>Lemmas: the summaries\<close>

lemma success_rate_zero [simp]: "success_rate 0 f = 0"
  by (simp add: success_rate_def)

lemma success_rate_all: "0 < n \<Longrightarrow> success_rate n 0 = 100"
  by (simp add: success_rate_def)

lemma success_rate_lower: "f \<le> n \<Longrightarrow> 0 \<le> success_rate n f"
  by (simp add: success_rate_def)

lemma success_rate_upper: "success_rate n f \<le> 100"
  by (simp add: success_rate_def divide_le_eq)

lemma success_rate_antimono:
  "f \<le> f' \<Longrightarrow> success_rate n f' \<le> success_rate n f"
  by (simp add: success_rate_def divide_right_mono)

lemma sections_missing [simp]:
  "connectivity_section None = Inr []" "disconnection_section flt None = Inr []"
  "speed_section flt None = Inr []"
  by (simp_all add: connectivity_section_def disconnection_section_def speed_section_def)

lemma connectivity_section_Inr:
  assumes "connectivity_section (Some rows) = Inr parts"
  shows "\<exists>f. f \<le> length (dict_reader rows) \<and>
           parts = [Connectivity_summary (length (dict_reader rows)) f
                      (success_rate (length (dict_reader rows)) f)]"
  using assms
  by (auto simp: connectivity_section_def Let_def rbind_Inr_iff dest: select_rows_length)

lemma connectivity_section_series:
  assumes "series_ok connectivity_header (Some (connectivity_header # rs))"
  shows "connectivity_section (Some (connectivity_header # rs)) =
           Inr [Connectivity_summary (length rs)
                  (length (filter (\<lambda>r. r ! 1 = Text ''disconnected'') rs))
                  (success_rate (length rs) (length (filter (\<lambda>r. r ! 1 = Text ''disconnected'') rs)))]"
proof -
  let ?h = connectivity_header
  have len: "\<And>r. r \<in> set rs \<Longrightarrow> length r = 5"
    using assms by (auto simp: list_all_iff connectivity_header_def)
  have data: "dict_reader (?h # rs) = map (row_dict ?h) rs"
    using assms by (rule dict_reader_series) (simp add: connectivity_header_def)
  have "select_rows ''status'' ''disconnected'' (map (row_dict ?h) rs) =
          Inr (filter (\<lambda>d. d (Text ''status'') = Some (Text ''disconnected'')) (map (row_dict ?h) rs))"
    by (rule select_rows_filter) (auto simp: connectivity_fields len)
  moreover have "length (filter (\<lambda>d. d (Text ''status'') = Some (Text ''disconnected'')) (map (row_dict ?h) rs)) =
      length (filter (\<lambda>r. r ! 1 = Text ''disconnected'') rs)"
    unfolding filter_map length_map o_def
    by (rule arg_cong [where f = length], rule filter_cong) (simp_all add: connectivity_fields len)
  ultimately show ?thesis
    using data by (simp add: connectivity_section_def Let_def del: dict_reader.simps)
qed

lemma disconnection_section_none:
  "select_rows ''event_type'' ''disconnect'' (dict_reader rows) = Inr [] \<Longrightarrow>
     disconnection_section flt (Some rows) = Inr []"
  by (simp add: disconnection_section_def)

lemma speed_section_none:
  "select_rows ''status'' ''success'' (dict_reader rows) = Inr [] \<Longrightarrow>
     speed_section flt (Some rows) = Inr []"
  by (simp add: speed_section_def)

lemma py_min_max_nonempty:
  "xs \<noteq> [] \<Longrightarrow> \<exists>lo hi. py_min xs = Inr lo \<and> py_max xs = Inr hi"
  by (cases xs) simp_all

lemma speed_section_Inr:
  assumes "speed_section flt (Some rows) = Inr [Speed_summary n k avg_down avg_up lo hi]"
  shows "0 < k \<and> k \<le> n \<and> lo \<le> avg_down \<and> avg_down \<le> hi"
proof -
  from assms obtain sel downs where
    sel: "select_rows ''status'' ''success'' (dict_reader rows) = Inr sel" "sel \<noteq> []"
    and downs: "floats_of flt ''download_mbps'' sel = Inr downs"
    and mm: "py_min downs = Inr lo" "py_max downs = Inr hi"
    and eqs: "n = length (dict_reader rows)" "k = length sel" "avg_down = average downs"
    by (auto simp: speed_section_def Let_def rbind_Inr_iff split: if_splits)
  from downs sel(2) have ne: "downs \<noteq> []" by (auto dest: floats_of_length)
  from mm ne have "lo \<le> average downs" "average downs \<le> hi"
    by (auto intro: average_lower average_upper py_min_le py_max_ge)
  with sel eqs show ?thesis by (auto dest: select_rows_length)
qed

section \<open>Lemmas: the method\<close>

lemma write_sections_ok:
  "write_sections (map Inr ps) = (concat ps, None)"
  by (induction ps) simp_all

lemma write_sections_stops:
  "write_sections (map Inr ps @ Inl e # rest) = (concat ps, Some e)"
  by (induction ps) simp_all

lemma write_sections_None:
  "snd (write_sections rs) = None \<longleftrightarrow> (\<forall>r \<in> set rs. \<exists>ps. r = Inr ps)"
  by (induction rs rule: write_sections.induct) auto

lemma generate_report_frame [frame_simps]:
  "connectivity_log (snd (generate_report flt named generated m)) = connectivity_log m"
  "speedtest_log (snd (generate_report flt named generated m)) = speedtest_log m"
  "events_log (snd (generate_report flt named generated m)) = events_log m"
  "config_ini (snd (generate_report flt named generated m)) = config_ini m"
  "is_connected (snd (generate_report flt named generated m)) = is_connected m"
  "disconnect_start (snd (generate_report flt named generated m)) = disconnect_start m"
  "last_successful_ping (snd (generate_report flt named generated m)) = last_successful_ping m"
  by (simp_all add: generate_report_def Let_def split: option.split)

lemma generate_report_file:
  "map_of (report_files (snd (generate_report flt named generated m))) (named div 1000000) =
     Some (report_of flt generated m)"
  by (simp add: generate_report_def report_of_def Let_def update_conv' split: option.split)

lemma generate_report_other_files:
  "k \<noteq> named div 1000000 \<Longrightarrow>
     map_of (report_files (snd (generate_report flt named generated m))) k = map_of (report_files m) k"
  by (simp add: generate_report_def Let_def update_conv' split: option.split)

lemma generate_report_result:
  "fst (generate_report flt named generated m) =
     (if snd (write_sections (sections flt m)) = None then Some (named div 1000000) else None)"
  by (simp add: generate_report_def Let_def split: option.split)

lemma generate_report_log_lines:
  "log_lines (snd (generate_report flt named generated m)) =
     log_lines m @
       [case snd (write_sections (sections flt m)) of
          None \<Rightarrow> (INFO, Report_generated (named div 1000000))
        | Some e \<Rightarrow> (ERROR, Report_failed e)]"
  by (simp add: generate_report_def Let_def log_emit_lines split: option.split)

lemma conn_inv_generate_report [simp]:
  "conn_inv (snd (generate_report flt named generated m)) = conn_inv m"
  by (simp add: conn_inv_def frame_simps)

lemma store_ok_generate_report [simp]:
  "store_ok (snd (generate_report flt named generated m)) = store_ok m"
  by (simp add: store_ok_def frame_simps)

lemma disconnection_section_events:
  "disconnection_section flt
     (Some (events_header # map (\<lambda>(t, d, x). [t, Text ''disconnect'', Num d, x]) ds)) =
   Inr (if ds = [] then []
        else [Disconnection_summary (length ds) (sum_list (map (\<lambda>(t, d, x). d) ds))
                (sum_list (map (\<lambda>(t, d, x). d) ds) / real (length ds))])"
proof -
  let ?row = "\<lambda>(t, d, x). [t, Text ''disconnect'', Num d, x]"
  let ?data = "map (row_dict events_header) (map ?row ds)"
  have data: "dict_reader (events_header # map ?row ds) = ?data"
    by (rule dict_reader_series) (auto simp: list_all_iff events_header_def)
  have fields: "r (Text ''event_type'') = Some (Text ''disconnect'')" if "r \<in> set ?data" for r
    using that by (auto simp: events_fields)
  then have "select_rows ''event_type'' ''disconnect'' ?data =
      Inr (filter (\<lambda>r. r (Text ''event_type'') = Some (Text ''disconnect'')) ?data)"
    by (intro select_rows_filter) (drule fields, simp)
  also have "\<dots> = Inr ?data" using fields by (simp add: filter_id_conv)
  finally have sel: "select_rows ''event_type'' ''disconnect'' ?data = Inr ?data" .
  have "floats_of flt ''duration_seconds'' ?data = collect (map Inr (map (\<lambda>(t, d, x). d) ds))"
    unfolding floats_of_def map_map
    by (rule arg_cong [where f = collect], rule map_cong) (auto simp: getitem_def events_fields)
  then have "floats_of flt ''duration_seconds'' ?data = Inr (map (\<lambda>(t, d, x). d) ds)"
    by (simp add: collect_Inr_iff)
  with sel data show ?thesis
    by (simp add: disconnection_section_def Let_def del: dict_reader.simps)
qed

section \<open>Lemmas: readable stores\<close>

lemma is_num_iff: "is_num c \<longleftrightarrow> (\<exists>x. c = Num x)"
  by (cases c) simp_all

lemma floats_of_typed:
  assumes "\<And>r. r \<in> set rows \<Longrightarrow> \<exists>x. r (Text key) = Some (Num x)"
  shows "\<exists>xs. floats_of flt key rows = Inr xs"
proof -
  let ?g = "\<lambda>r. case r (Text key) of Some (Num x) \<Rightarrow> x | _ \<Rightarrow> 0"
  have "r (Text key) = Some (Num (?g r))" if "r \<in> set rows" for r
    using assms [OF that] by auto
  then have "floats_of flt key rows = Inr (map ?g rows)" by (rule floats_of_Num)
  then show ?thesis ..
qed

lemma connectivity_section_ok:
  "series_ok connectivity_header f \<Longrightarrow> \<exists>parts. connectivity_section f = Inr parts"
  using connectivity_section_series [of "tl (rows_of f)"] series_ok_Some [of connectivity_header f]
  by auto

lemma disconnection_section_ok:
  assumes "series_ok events_header f"
    and "list_all (row_typed 1 ''disconnect'' [2]) (tl (rows_of f))"
  shows "\<exists>parts. disconnection_section flt f = Inr parts"
proof -
  let ?rs = "tl (rows_of f)"
  let ?data = "map (row_dict events_header) ?rs"
  let ?sel = "filter (\<lambda>r. r (Text ''event_type'') = Some (Text ''disconnect'')) ?data"
  from assms(1) have f: "f = Some (events_header # ?rs)" by (rule series_ok_Some)
  have len: "length r = 4" if "r \<in> set ?rs" for r
    using series_ok_tl [OF assms(1)] that by (simp add: list_all_iff events_header_def)
  have data: "dict_reader (events_header # ?rs) = ?data"
    using assms(1) f by (intro dict_reader_series) (simp_all add: events_header_def)
  have sel: "select_rows ''event_type'' ''disconnect'' ?data = Inr ?sel"
    by (rule select_rows_filter) (auto simp: events_fields len)
  have "\<exists>x. r (Text ''duration_seconds'') = Some (Num x)" if "r \<in> set ?sel" for r
    using that assms(2) by (auto simp: events_fields len list_all_iff row_typed_def is_num_iff)
  then obtain ds where "floats_of flt ''duration_seconds'' ?sel = Inr ds"
    using floats_of_typed by blast
  with sel data have "\<exists>parts. disconnection_section flt (Some (events_header # ?rs)) = Inr parts"
    by (simp add: disconnection_section_def Let_def del: dict_reader.simps)
  with f show ?thesis by simp
qed

lemma speed_section_ok:
  assumes "series_ok speedtest_header f"
    and "list_all (row_typed 5 ''success'' [1, 2]) (tl (rows_of f))"
  shows "\<exists>parts. speed_section flt f = Inr parts"
proof -
  let ?rs = "tl (rows_of f)"
  let ?data = "map (row_dict speedtest_header) ?rs"
  let ?sel = "filter (\<lambda>r. r (Text ''status'') = Some (Text ''success'')) ?data"
  from assms(1) have f: "f = Some (speedtest_header # ?rs)" by (rule series_ok_Some)
  have len: "length r = 6" if "r \<in> set ?rs" for r
    using series_ok_tl [OF assms(1)] that by (simp add: list_all_iff speedtest_header_def)
  have data: "dict_reader (speedtest_header # ?rs) = ?data"
    using assms(1) f by (intro dict_reader_series) (simp_all add: speedtest_header_def)
  have sel: "select_rows ''status'' ''success'' ?data = Inr ?sel"
    by (rule select_rows_filter) (auto simp: speedtest_fields len)
  have typed: "(\<exists>x. r (Text ''download_mbps'') = Some (Num x)) \<and> (\<exists>x. r (Text ''upload_mbps'') = Some (Num x))"
    if "r \<in> set ?sel" for r
    using that assms(2) by (auto simp: speedtest_fields len list_all_iff row_typed_def is_num_iff)
  obtain downs where downs: "floats_of flt ''download_mbps'' ?sel = Inr downs"
    using floats_of_typed [of ?sel "''download_mbps''"] typed by blast
  obtain ups where ups: "floats_of flt ''upload_mbps'' ?sel = Inr ups"
    using floats_of_typed [of ?sel "''upload_mbps''"] typed by blast
  have "downs \<noteq> []" if "?sel \<noteq> []"
    using that floats_of_length [OF downs] by (metis length_0_conv)
  then have "\<exists>lo hi. py_min downs = Inr lo \<and> py_max downs = Inr hi" if "?sel \<noteq> []"
    using that by (intro py_min_max_nonempty) simp
  with sel data downs ups
  have "\<exists>parts. speed_section flt (Some (speedtest_header # ?rs)) = Inr parts"
    by (auto simp: speed_section_def Let_def simp del: dict_reader.simps)
  with f show ?thesis by simp
qed

lemma readable_sections:
  "readable d \<Longrightarrow> \<exists>a b c. sections flt d = [Inr a, Inr b, Inr c]"
  using connectivity_section_ok [of "connectivity_log d"]
    disconnection_section_ok [of "events_log d" flt] speed_section_ok [of "speedtest_log d" flt]
  by (auto simp: readable_def store_ok_def sections_def)

lemma readable_generate_report [simp]:
  "readable (snd (generate_report flt named generated m)) = readable m"
  by (simp add: readable_def frame_simps)

lemma generate_report_readable:
  "readable m \<Longrightarrow> fst (generate_report flt named generated m) = Some (named div 1000000)"
  using readable_sections [of m flt] by (auto simp: generate_report_result)

lemma readable_init: "readable (default_monitor empty_disk now)"
  by (simp add: readable_def store_ok_init_empty)

lemma row_typed_append:
  assumes "series_ok h f" and "list_all (row_typed i w ns) (tl (rows_of f))"
    and "list_all (row_typed i w ns) (map writerow rs)"
  shows "list_all (row_typed i w ns) (tl (rows_of (append_rows rs f)))"
  using assms by (auto simp: series_ok_rows)

section \<open>Properties\<close>

text \<open>
  C8 (functional). On a connectivity series that is well formed the report counts every
  row as a test and every row whose status is \<^verbatim>\<open>disconnected\<close> as a failed one, and
  derives the rate from the two: ten rows of which three are failures give 70 per cent.
\<close>

theorem connectivity_summary_counts:
  assumes "series_ok connectivity_header (Some (connectivity_header # rs))"
  shows "connectivity_section (Some (connectivity_header # rs)) =
           Inr [Connectivity_summary (length rs)
                  (length (filter (\<lambda>r. r ! 1 = Text ''disconnected'') rs))
                  (success_rate (length rs) (length (filter (\<lambda>r. r ! 1 = Text ''disconnected'') rs)))]"
  using assms by (rule connectivity_section_series)

theorem connectivity_summary_counts_witness:
  "connectivity_section (Some (connectivity_header # probe_rows 7 3)) = Inr [Connectivity_summary 10 3 70]"
  using connectivity_summary_counts [of "probe_rows 7 3"]
  by (simp add: probe_rows_def connectivity_header_def success_rate_def eval_nat_numeral)

text \<open>
  The success rate is 0 when there is no test, 100 when there are tests
  and none failed, and always between 0 and 100 when the failures are among the
  tests.
\<close>

theorem success_rate_bounds:
  "success_rate 0 f = 0 \<and> (0 < n \<longrightarrow> success_rate n 0 = 100) \<and>
   (f \<le> n \<longrightarrow> 0 \<le> success_rate n f) \<and> success_rate n f \<le> 100"
  by (simp add: success_rate_all success_rate_lower success_rate_upper)

theorem success_rate_bounds_witness:
  "success_rate 10 0 = 100 \<and> 0 \<le> success_rate 10 3 \<and> success_rate 10 3 \<le> 100"
  using success_rate_bounds [of 3 10] success_rate_bounds [of 0 10] by simp

text \<open>
  C26 (functional). On an events series of disconnections the report gives their number,
  the sum of their durations and the sum divided by the number, and leaves the summary
  out when there is none: two disconnections of 30 and 90 seconds give a downtime of
  120 seconds and an average of 60.
\<close>

theorem disconnection_summary_totals:
  "disconnection_section flt
     (Some (events_header # map (\<lambda>(t, d, x). [t, Text ''disconnect'', Num d, x]) ds)) =
   Inr (if ds = [] then []
        else [Disconnection_summary (length ds) (sum_list (map (\<lambda>(t, d, x). d) ds))
                (sum_list (map (\<lambda>(t, d, x). d) ds) / real (length ds))]) \<and>
   disconnection_section flt (Some (events_header # two_events)) = Inr [Disconnection_summary 2 120 60]"
  using disconnection_section_events
    [of flt "[(Stamp 0, 30, Details 0 30000000), (Stamp 60000000, 90, Details 60000000 150000000)]"]
  by (simp add: disconnection_section_events two_events_def)

text \<open>
  C30 (bounds). A speed summary is written only when a test succeeded; it counts no more
  successes than tests, and its average download lies between its minimum and its
  maximum.
\<close>

theorem speed_summary_bounds:
  assumes "speed_section flt (Some rows) = Inr [Speed_summary n k avg_down avg_up lo hi]"
  shows "0 < k \<and> k \<le> n \<and> lo \<le> avg_down \<and> avg_down \<le> hi"
  using assms by (rule speed_section_Inr)

lemma speed_section_three:
  "speed_section flt (Some (speedtest_header # three_speedtests)) = Inr [Speed_summary 3 2 90 15 80 100]"
  by (simp add: speed_section_def three_speedtests_def speedtest_header_def row_dict_def getitem_def
      floats_of_def average_def)

theorem speed_summary_bounds_witness:
  "0 < (2::nat) \<and> (2::nat) \<le> 3 \<and> (80::real) \<le> 90 \<and> (90::real) \<le> 100"
  by (rule speed_summary_bounds [of "\<lambda>s. None" "speedtest_header # three_speedtests"])
    (rule speed_section_three)

text \<open>
  The report of a store that has only its headers is the heading and a
  connectivity summary of no test; a series that is missing, an events series without
  a disconnection and a speed-test series without a success give no summary.
\<close>

theorem summaries_left_out:
  "report_of flt generated (default_monitor empty_disk now) = [Heading generated, Connectivity_summary 0 0 0] \<and>
   connectivity_section None = Inr [] \<and> disconnection_section flt None = Inr [] \<and>
   speed_section flt None = Inr [] \<and>
   (select_rows ''event_type'' ''disconnect'' (dict_reader rows) = Inr [] \<longrightarrow>
      disconnection_section flt (Some rows) = Inr []) \<and>
   (select_rows ''status'' ''success'' (dict_reader rows') = Inr [] \<longrightarrow>
      speed_section flt (Some rows') = Inr [])"
  by (simp add: disconnection_section_none speed_section_none report_of_def sections_def
      connectivity_section_def disconnection_section_def speed_section_def)

theorem summaries_left_out_witness:
  "disconnection_section (\<lambda>s. None) (Some [events_header]) = Inr [] \<and>
   speed_section (\<lambda>s. None) (Some [speedtest_header, three_speedtests ! 1]) = Inr []"
  using summaries_left_out [of "\<lambda>s. None" 0 0 "[events_header]" "[speedtest_header, three_speedtests ! 1]"]
  by (simp add: header_defs three_speedtests_def row_dict_def getitem_def)

text \<open>
  C20 (error). An exception in one summary ends the whole report: when the events series
  cannot be read as the program reads it, the method returns nothing and logs the
  failure at level ERROR, the file keeps only what was written before (the heading and
  the connectivity summary), and the speed summary is not written whatever the
  speed-test series holds.
\<close>

theorem report_fails_as_a_whole:
  assumes "connectivity_section (connectivity_log m) = Inr parts"
    and "disconnection_section flt (events_log m) = Inl e"
  shows "fst (generate_report flt named generated m) = None \<and>
         map_of (report_files (snd (generate_report flt named generated m))) (named div 1000000) =
           Some (Heading generated # parts) \<and>
         log_lines (snd (generate_report flt named generated m)) = log_lines m @ [(ERROR, Report_failed e)]"
  using assms
  by (simp add: generate_report_result generate_report_file generate_report_log_lines report_of_def
      sections_def)

lemma damaged_store_sections:
  "connectivity_section (connectivity_log damaged_store) = Inr [Connectivity_summary 2 1 50]"
  "disconnection_section (\<lambda>s. None) (events_log damaged_store) = Inl (ValueError [])"
  "speed_section (\<lambda>s. None) (speedtest_log damaged_store) = Inr [Speed_summary 3 2 90 15 80 100]"
  by (simp_all add: damaged_store_def speed_section_three,
      simp_all add: connectivity_section_def disconnection_section_def probe_rows_def header_defs
        row_dict_def getitem_def floats_of_def success_rate_def)

theorem report_fails_as_a_whole_witness:
  "fst (generate_report (\<lambda>s. None) 5000000 5000001 damaged_store) = None \<and>
   map_of (report_files (snd (generate_report (\<lambda>s. None) 5000000 5000001 damaged_store))) (5000000 div 1000000) =
     Some [Heading 5000001, Connectivity_summary 2 1 50] \<and>
   log_lines (snd (generate_report (\<lambda>s. None) 5000000 5000001 damaged_store)) =
     log_lines damaged_store @ [(ERROR, Report_failed (ValueError []))]"
  using report_fails_as_a_whole [OF damaged_store_sections(1) damaged_store_sections(2), of 5000000 5000001]
  by simp

text \<open>
  Generating a report reads the three series and never changes them, nor
  the connection state; it writes the file named after the second it was started in,
  leaves the other reports alone, and returns the name of the file exactly when no
  summary raised.
\<close>

theorem report_reads_only:
  "connectivity_log (snd (generate_report flt named generated m)) = connectivity_log m \<and>
   events_log (snd (generate_report flt named generated m)) = events_log m \<and>
   speedtest_log (snd (generate_report flt named generated m)) = speedtest_log m \<and>
   conn_inv (snd (generate_report flt named generated m)) = conn_inv m \<and>
   map_of (report_files (snd (generate_report flt named generated m))) =
     (map_of (report_files m))(named div 1000000 \<mapsto> report_of flt generated m) \<and>
   (fst (generate_report flt named generated m) = Some (named div 1000000) \<longleftrightarrow>
      (\<exists>a b c. sections flt m = [Inr a, Inr b, Inr c]))"
proof -
  have "map_of (report_files (snd (generate_report flt named generated m))) =
      (map_of (report_files m))(named div 1000000 \<mapsto> report_of flt generated m)"
    by (simp add: generate_report_def report_of_def Let_def update_conv' split: option.split)
  moreover have "snd (write_sections (sections flt m)) = None \<longleftrightarrow>
      (\<exists>a b c. sections flt m = [Inr a, Inr b, Inr c])"
    by (auto simp: write_sections_None sections_def)
  ultimately show ?thesis
    by (simp add: frame_simps generate_report_result)
qed

end
