(* ===== verification/Upload.thy ===== *)
theory Upload
  imports Monitor
begin

text \<open>
  The upload to a remote host: \<^verbatim>\<open>upload_logs\<close> (lines 388 to 432).

  The method does nothing unless the configuration enables it. Otherwise it reads the
  host, the user, the key and the remote directory from the configuration, runs
  \<^verbatim>\<open>ssh\<close> once to create the directory and \<^verbatim>\<open>scp\<close> once for each series that
  exists and for the report that was modified last, and stops at the first command
  that fails. What it does to the remote host is the list of the commands it started,
  each the argument vector given to \<^verbatim>\<open>subprocess.run\<close>; here the method returns
  that list with the monitor.

  The commands do not depend on the outcome of one another, so the method is written
  as the steps it goes through (\<open>upload_plan\<close>) and their execution in order until one
  fails (\<open>run_steps\<close>). The environment gives the outcome of a command, the expansion
  of the key's path, the name of a report file and its modification time; the order of
  \<^verbatim>\<open>glob\<close> is the order of the list of reports. The test of line 390 is outside the
  \<^verbatim>\<open>try\<close>: its exception is the one case in which the method raises.
\<close>

section \<open>Environment\<close>

datatype cmd_outcome = Cmd_exit int string | Cmd_raises exn

record upload_env =
  expanduser :: "string \<Rightarrow> string"
  run_command :: "string list \<Rightarrow> cmd_outcome"
  report_name :: "int \<Rightarrow> string"
  mtime :: "int \<Rightarrow> int"

text \<open>
  What ends an upload: \<^verbatim>\<open>CalledProcessError\<close> with the command, its exit status and
  its standard error, or another exception.
\<close>

datatype upload_error = Called_process "string list" int string | Raised exn

section \<open>Commands\<close>

definition ssh_cmd :: "string \<Rightarrow> string \<Rightarrow> string \<Rightarrow> string \<Rightarrow> string list" where
  "ssh_cmd key_file username hostname remote_dir =
     [''ssh'', ''-i'', key_file, username @ ''@'' @ hostname, ''mkdir -p '' @ remote_dir]"

definition scp_cmd :: "string \<Rightarrow> string \<Rightarrow> string \<Rightarrow> string \<Rightarrow> string \<Rightarrow> string list" where
  "scp_cmd key_file local_path username hostname remote_dir =
     [''scp'', ''-i'', key_file, local_path, username @ ''@'' @ hostname @ '':'' @ remote_dir @ ''/'']"

text \<open>\<^verbatim>\<open>self.log_dir / name\<close>.\<close>

definition local_path :: "'a monitor_scheme \<Rightarrow> string \<Rightarrow> string" where
  "local_path m name = log_dir m @ ''/'' @ name"

text \<open>The three series under the names of line 409, with the files they are.\<close>

definition csv_files :: "'a monitor_scheme \<Rightarrow> (string \<times> csv_file) list" where
  "csv_files m =
     [(''connectivity.csv'', connectivity_log m),
      (''speedtest.csv'', speedtest_log m),
      (''events.csv'', events_log m)]"

text \<open>\<^verbatim>\<open>max(report_files, key=lambda x: x.stat().st_mtime)\<close>, when there is a report.\<close>

definition latest_report :: "upload_env \<Rightarrow> int list \<Rightarrow> int option" where
  "latest_report env reports =
     (case reports of [] \<Rightarrow> None | r # rs \<Rightarrow> Some (max_by (mtime env) r rs))"

section \<open>The steps of an upload\<close>

text \<open>
  A step runs a command and logs a line at level DEBUG when it succeeded, or only logs
  a line.
\<close>

datatype upload_step = Run "string list" "log_msg option" | Note log_msg

definition csv_step ::
  "'a monitor_scheme \<Rightarrow> string \<Rightarrow> string \<Rightarrow> string \<Rightarrow> string \<Rightarrow> string \<times> csv_file \<Rightarrow> upload_step" where
  "csv_step m key_file username hostname remote_dir entry =
     (case entry of
        (name, None) \<Rightarrow> Note (Not_found_locally name)
      | (name, Some rows) \<Rightarrow>
          Run (scp_cmd key_file (local_path m name) username hostname remote_dir) (Some (Uploaded name)))"

definition report_steps ::
  "upload_env \<Rightarrow> 'a monitor_scheme \<Rightarrow> string \<Rightarrow> string \<Rightarrow> string \<Rightarrow> string \<Rightarrow> upload_step list" where
  "report_steps env m key_file username hostname remote_dir =
     (case latest_report env (map fst (report_files m)) of
        None \<Rightarrow> []
      | Some r \<Rightarrow>
          [Run (scp_cmd key_file (local_path m (report_name env r)) username hostname remote_dir)
             (Some (Uploaded_report r))])"

definition upload_plan ::
  "upload_env \<Rightarrow> 'a monitor_scheme \<Rightarrow> string \<Rightarrow> string \<Rightarrow> string \<Rightarrow> string \<Rightarrow> upload_step list" where
  "upload_plan env m key_file username hostname remote_dir =
     Run (ssh_cmd key_file username hostname remote_dir) None #
     map (csv_step m key_file username hostname remote_dir) (csv_files m) @
     report_steps env m key_file username hostname remote_dir"

text \<open>
  \<^verbatim>\<open>subprocess.run(cmd, check=True, capture_output=True)\<close> for each step in turn: the
  commands started, what ended the upload (if anything did), and the monitor with the
  lines logged.
\<close>

fun run_steps ::
  "upload_env \<Rightarrow> upload_step list \<Rightarrow> 'a monitor_scheme \<Rightarrow>
     string list list \<times> upload_error option \<times> 'a monitor_scheme" where
  "run_steps env [] m = ([], None, m)"
| "run_steps env (Note msg # steps) m = run_steps env steps (log_emit DEBUG msg m)"
| "run_steps env (Run argv msg # steps) m =
     (case run_command env argv of
        Cmd_raises e \<Rightarrow> ([argv], Some (Raised e), m)
      | Cmd_exit returncode stderr \<Rightarrow>
          if returncode \<noteq> 0 then ([argv], Some (Called_process argv returncode stderr), m)
          else (case run_steps env steps (case msg of None \<Rightarrow> m | Some d \<Rightarrow> log_emit DEBUG d m) of
                  (started, failure, m') \<Rightarrow> (argv # started, failure, m')))"

section \<open>The method\<close>

text \<open>The four values read from the configuration (lines 397 to 400), in order.\<close>

definition vps_settings ::
  "upload_env \<Rightarrow> config \<Rightarrow> (string \<times> string \<times> string \<times> string) result" where
  "vps_settings env cfg =
     rbind (config_get cfg ''VPS'' ''hostname'') (\<lambda>hostname.
     rbind (config_get cfg ''VPS'' ''username'') (\<lambda>username.
     rbind (config_get cfg ''VPS'' ''key_file'') (\<lambda>key_file.
     rbind (config_get cfg ''VPS'' ''remote_directory'') (\<lambda>remote_dir.
       Inr (hostname, username, expanduser env key_file, remote_dir)))))"

text \<open>The line logged at the end of the \<^verbatim>\<open>try\<close> or by one of its handlers.\<close>

fun closing_line :: "upload_error option \<Rightarrow> log_line" where
  "closing_line None = (INFO, Upload_completed)"
| "closing_line (Some (Called_process argv returncode stderr)) =
     (ERROR, if stderr \<noteq> [] then Scp_failed stderr else Scp_failed_status argv returncode)"
| "closing_line (Some (Raised e)) = (ERROR, Upload_failed (exn_str e))"

definition attempt_upload :: "upload_env \<Rightarrow> 'a monitor_scheme \<Rightarrow> string list list \<times> 'a monitor_scheme" where
  "attempt_upload env m =
     (case vps_settings env (config m) of
        Inl e \<Rightarrow> ([], log_emit ERROR (Upload_failed (exn_str e)) m)
      | Inr (hostname, username, key_file, remote_dir) \<Rightarrow>
          (case run_steps env (upload_plan env m key_file username hostname remote_dir)
                  (log_emit INFO (Uploading username hostname remote_dir) m) of
             (started, failure, m') \<Rightarrow>
               (started, log_emit (fst (closing_line failure)) (snd (closing_line failure)) m')))"

definition upload_logs ::
  "upload_env \<Rightarrow> 'a monitor_scheme \<Rightarrow> (string list list \<times> 'a monitor_scheme) result" where
  "upload_logs env m =
     rbind (vps_enabled m) (\<lambda>enabled.
       if \<not> enabled then Inr ([], m) else Inr (attempt_upload env m))"

text \<open>The commands of a plan.\<close>

fun step_cmd :: "upload_step \<Rightarrow> string list list" where
  "step_cmd (Run argv msg) = [argv]"
| "step_cmd (Note msg) = []"

definition plan_cmds :: "upload_step list \<Rightarrow> string list list" where
  "plan_cmds steps = concat (map step_cmd steps)"

text \<open>
  Examples: an environment in which every command succeeds, one in which the copy of
  the speed-test series fails, and a monitor whose configuration enables the upload.
\<close>

definition all_ok :: upload_env where
  "all_ok =
     \<lparr>expanduser = (\<lambda>p. ''/home/user/.ssh/id_rsa''), run_command = (\<lambda>argv. Cmd_exit 0 []),
      report_name = (\<lambda>r. ''report.txt''), mtime = (\<lambda>r. r)\<rparr>"

definition speedtest_copy_fails :: upload_env where
  "speedtest_copy_fails =
     all_ok\<lparr>run_command :=
       (\<lambda>argv. if argv ! 3 = ''internet_logs/speedtest.csv'' then Cmd_exit 1 ''lost connection''
                else Cmd_exit 0 [])\<rparr>"

definition enabled_monitor :: monitor where
  "enabled_monitor =
     (default_monitor empty_disk 0)
       \<lparr>config := AList.update (''VPS'', ''enabled'') ''true'' default_config\<rparr>"

section \<open>Lemmas: running the steps\<close>

lemma debug_case [simp]: "(case msg of None \<Rightarrow> m | Some d \<Rightarrow> log_emit DEBUG d m) = m"
  by (cases msg) simp_all

lemma run_steps_Run:
  "run_steps env (Run argv msg # steps) m =
     (case run_command env argv of
        Cmd_raises e \<Rightarrow> ([argv], Some (Raised e), m)
      | Cmd_exit rc stderr \<Rightarrow>
          if rc \<noteq> 0 then ([argv], Some (Called_process argv rc stderr), m)
          else (argv # fst (run_steps env steps m), snd (run_steps env steps m)))"
  by (simp split: cmd_outcome.split prod.split)

lemma run_steps_Note [simp]: "run_steps env (Note line # steps) m = run_steps env steps m"
  by simp

lemmas run_steps_simps = run_steps.simps(1) run_steps_Note run_steps_Run

declare run_steps.simps(2,3) [simp del]

lemma run_steps_silent [simp]: "snd (snd (run_steps env steps m)) = m"
proof (induction steps)
  case (Cons step steps)
  then show ?case
    by (cases step) (simp_all add: run_steps_Run split: cmd_outcome.split)
qed simp

lemma run_steps_indep:
  "fst (run_steps env steps m) = fst (run_steps env steps m') \<and>
   fst (snd (run_steps env steps m)) = fst (snd (run_steps env steps m'))"
proof (induction steps)
  case (Cons step steps)
  then show ?case
    by (cases step) (simp_all add: run_steps_Run split: cmd_outcome.split)
qed simp

lemma run_steps_prefix: "prefix (fst (run_steps env steps m)) (plan_cmds steps)"
proof (induction steps)
  case (Cons step steps)
  then show ?case
    by (cases step) (simp_all add: run_steps_Run plan_cmds_def split: cmd_outcome.split)
qed (simp add: plan_cmds_def)

lemma run_steps_all_ok:
  "(\<And>argv. argv \<in> set (plan_cmds steps) \<Longrightarrow> \<exists>err. run_command env argv = Cmd_exit 0 err) \<Longrightarrow>
     fst (run_steps env steps m) = plan_cmds steps \<and> fst (snd (run_steps env steps m)) = None"
proof (induction steps)
  case Nil
  show ?case by (simp add: plan_cmds_def)
next
  case (Cons step steps)
  have rest: "\<And>argv. argv \<in> set (plan_cmds steps) \<Longrightarrow> \<exists>err. run_command env argv = Cmd_exit 0 err"
    using Cons.prems by (cases step) (auto simp: plan_cmds_def)
  show ?case
  proof (cases step)
    case (Run argv msg)
    with Cons.prems obtain err where "run_command env argv = Cmd_exit 0 err"
      by (auto simp: plan_cmds_def)
    with Run Cons.IH [OF rest] show ?thesis
      by (simp add: run_steps_Run plan_cmds_def)
  next
    case (Note line)
    with Cons.IH [OF rest] show ?thesis by (simp add: plan_cmds_def)
  qed
qed

text \<open>The command that ended an upload is the last one started, and it did fail.\<close>

definition failed_with :: "upload_env \<Rightarrow> string list \<Rightarrow> upload_error \<Rightarrow> bool" where
  "failed_with env argv err \<longleftrightarrow>
     (case run_command env argv of
        Cmd_exit rc stderr \<Rightarrow> rc \<noteq> 0 \<and> err = Called_process argv rc stderr
      | Cmd_raises e \<Rightarrow> err = Raised e)"

lemma run_steps_failure:
  "fst (snd (run_steps env steps m)) = Some err \<Longrightarrow>
     fst (run_steps env steps m) \<noteq> [] \<and> failed_with env (last (fst (run_steps env steps m))) err"
proof (induction steps)
  case Nil
  then show ?case by simp
next
  case (Cons step steps)
  show ?case
  proof (cases step)
    case (Note line)
    with Cons show ?thesis by simp
  next
    case (Run argv msg)
    show ?thesis
    proof (cases "run_command env argv")
      case (Cmd_raises e)
      with Run Cons.prems show ?thesis by (simp add: run_steps_Run failed_with_def)
    next
      case (Cmd_exit rc stderr)
      with Run Cons show ?thesis
        by (cases "rc = 0") (simp_all add: run_steps_Run failed_with_def)
    qed
  qed
qed

lemma run_steps_earlier_ok:
  "i < length (fst (run_steps env steps m)) - 1 \<Longrightarrow>
     \<exists>err. run_command env (fst (run_steps env steps m) ! i) = Cmd_exit 0 err"
proof (induction steps arbitrary: i)
  case Nil
  then show ?case by simp
next
  case (Cons step steps)
  show ?case
  proof (cases step)
    case (Note line)
    with Cons show ?thesis by simp
  next
    case (Run argv msg)
    show ?thesis
    proof (cases "run_command env argv")
      case (Cmd_raises e)
      with Run Cons.prems show ?thesis by (simp add: run_steps_Run)
    next
      case (Cmd_exit rc stderr)
      show ?thesis
      proof (cases "rc = 0")
        case False
        with Cmd_exit Run Cons.prems show ?thesis by (simp add: run_steps_Run)
      next
        case True
        with Cmd_exit Run Cons.prems Cons.IH [of "i - 1"] show ?thesis
          by (cases i) (simp_all add: run_steps_Run)
      qed
    qed
  qed
qed

section \<open>Lemmas: the plan\<close>

lemma plan_cmds_simps [simp]:
  "plan_cmds [] = []" "plan_cmds (Run argv msg # steps) = argv # plan_cmds steps"
  "plan_cmds (Note line # steps) = plan_cmds steps"
  "plan_cmds (xs @ ys) = plan_cmds xs @ plan_cmds ys"
  by (simp_all add: plan_cmds_def)

lemma plan_cmds_csv:
  "plan_cmds (map (csv_step m k u h d) files) =
     map (\<lambda>(name, f). scp_cmd k (local_path m name) u h d) (filter (\<lambda>(name, f). f \<noteq> None) files)"
  by (induction files) (auto simp: csv_step_def split: option.split)

lemma upload_plan_cmds:
  "plan_cmds (upload_plan env m k u h d) =
     ssh_cmd k u h d #
     map (\<lambda>(name, f). scp_cmd k (local_path m name) u h d) (filter (\<lambda>(name, f). f \<noteq> None) (csv_files m)) @
     (case latest_report env (map fst (report_files m)) of
        None \<Rightarrow> []
      | Some r \<Rightarrow> [scp_cmd k (local_path m (report_name env r)) u h d])"
  by (simp add: upload_plan_def plan_cmds_csv report_steps_def split: option.split)

lemma latest_report_None [simp]: "latest_report env rs = None \<longleftrightarrow> rs = []"
  by (simp add: latest_report_def split: list.split)

lemma latest_report_mem: "latest_report env rs = Some r \<Longrightarrow> r \<in> set rs"
  using max_by_mem [of "mtime env"] by (auto simp: latest_report_def split: list.splits)

lemma latest_report_newest:
  "latest_report env rs = Some r \<Longrightarrow> x \<in> set rs \<Longrightarrow> mtime env x \<le> mtime env r"
  using max_by_ge [of x _ _ "mtime env"] by (auto simp: latest_report_def split: list.splits)

section \<open>Lemmas: the method\<close>

lemma run_steps_eq:
  "run_steps env steps m = (fst (run_steps env steps m'), fst (snd (run_steps env steps m')), m)"
  using run_steps_indep [of env steps m m'] by (simp add: prod_eq_iff)

lemma upload_plan_log_emit [simp]:
  "upload_plan env (log_emit lvl line m) k u h d = upload_plan env m k u h d"
  by (simp add: upload_plan_def csv_files_def local_path_def report_steps_def csv_step_def [abs_def]
      log_emit_def split: option.split)

text \<open>The method without the threading of the monitor through the steps.\<close>

definition upload_outcome :: "upload_env \<Rightarrow> 'a monitor_scheme \<Rightarrow> string list list \<times> log_line list" where
  "upload_outcome env m =
     (case vps_settings env (config m) of
        Inl e \<Rightarrow> ([], [(ERROR, Upload_failed (exn_str e))])
      | Inr (h, u, k, d) \<Rightarrow>
          (fst (run_steps env (upload_plan env m k u h d) m),
           [(INFO, Uploading u h d), closing_line (fst (snd (run_steps env (upload_plan env m k u h d) m)))]))"

lemma closing_line_level: "fst (closing_line f) = INFO \<or> fst (closing_line f) = ERROR"
  by (cases f rule: closing_line.cases) simp_all

lemma log_emit_closing:
  "log_emit (fst (closing_line f)) (snd (closing_line f)) m = m\<lparr>log_lines := log_lines m @ [closing_line f]\<rparr>"
  by (cases f rule: closing_line.cases) (simp_all add: log_emit_def)

lemma attempt_upload_eq:
  "attempt_upload env m =
     (fst (upload_outcome env m), m\<lparr>log_lines := log_lines m @ snd (upload_outcome env m)\<rparr>)"
proof (cases "vps_settings env (config m)")
  case (Inl e)
  then show ?thesis by (simp add: attempt_upload_def upload_outcome_def log_emit_def)
next
  case (Inr settings)
  obtain h u k d where settings: "settings = (h, u, k, d)" by (cases settings)
  let ?m1 = "log_emit INFO (Uploading u h d) m"
  have "run_steps env (upload_plan env m k u h d) ?m1 =
      (fst (run_steps env (upload_plan env m k u h d) m),
       fst (snd (run_steps env (upload_plan env m k u h d) m)), ?m1)"
    by (rule run_steps_eq)
  with Inr settings show ?thesis
    by (simp add: attempt_upload_def upload_outcome_def log_emit_closing)
qed

lemma attempt_upload_frame [frame_simps]:
  "connectivity_log (snd (attempt_upload env m)) = connectivity_log m"
  "speedtest_log (snd (attempt_upload env m)) = speedtest_log m"
  "events_log (snd (attempt_upload env m)) = events_log m"
  "report_files (snd (attempt_upload env m)) = report_files m"
  "config_ini (snd (attempt_upload env m)) = config_ini m"
  "config (snd (attempt_upload env m)) = config m"
  "is_connected (snd (attempt_upload env m)) = is_connected m"
  "disconnect_start (snd (attempt_upload env m)) = disconnect_start m"
  "last_successful_ping (snd (attempt_upload env m)) = last_successful_ping m"
  by (simp_all add: attempt_upload_eq)

lemma upload_logs_disabled: "vps_enabled m = Inr False \<Longrightarrow> upload_logs env m = Inr ([], m)"
  by (simp add: upload_logs_def)

lemma upload_logs_enabled: "vps_enabled m = Inr True \<Longrightarrow> upload_logs env m = Inr (attempt_upload env m)"
  by (simp add: upload_logs_def)

lemma upload_logs_raises:
  "upload_logs env m = Inl e \<longleftrightarrow> vps_enabled m = Inl e"
  by (cases "vps_enabled m") (simp_all add: upload_logs_def)

lemma run_steps_complete:
  "fst (snd (run_steps env steps m)) = None \<Longrightarrow> fst (run_steps env steps m) = plan_cmds steps"
proof (induction steps)
  case (Cons step steps)
  then show ?case
    by (cases step) (auto simp: run_steps_Run split: cmd_outcome.splits if_splits)
qed simp

lemma upload_logs_eq:
  "vps_enabled m = Inr True \<Longrightarrow>
     upload_logs env m =
       Inr (fst (upload_outcome env m), m\<lparr>log_lines := log_lines m @ snd (upload_outcome env m)\<rparr>)"
  by (simp add: upload_logs_enabled attempt_upload_eq)

lemma upload_outcome_settings:
  "vps_settings env (config m) = Inr (h, u, k, d) \<Longrightarrow>
     upload_outcome env m =
       (fst (run_steps env (upload_plan env m k u h d) m),
        [(INFO, Uploading u h d), closing_line (fst (snd (run_steps env (upload_plan env m k u h d) m)))])"
  by (simp add: upload_outcome_def)

lemma enabled_monitor_settings:
  "vps_enabled enabled_monitor = Inr True"
  "vps_settings all_ok (config enabled_monitor) =
     Inr (''your-vps-hostname.com'', ''your-username'', ''/home/user/.ssh/id_rsa'', ''/opt/internet-monitor'')"
  "vps_settings speedtest_copy_fails (config enabled_monitor) =
     Inr (''your-vps-hostname.com'', ''your-username'', ''/home/user/.ssh/id_rsa'', ''/opt/internet-monitor'')"
  by (simp_all add: enabled_monitor_def vps_enabled_def getboolean_def vps_settings_def config_get_def
      default_config_def all_ok_def speedtest_copy_fails_def)

lemma enabled_monitor_steps:
  "upload_plan env enabled_monitor k u h d =
     [Run (ssh_cmd k u h d) None,
      Run (scp_cmd k ''internet_logs/connectivity.csv'' u h d) (Some (Uploaded ''connectivity.csv'')),
      Run (scp_cmd k ''internet_logs/speedtest.csv'' u h d) (Some (Uploaded ''speedtest.csv'')),
      Run (scp_cmd k ''internet_logs/events.csv'' u h d) (Some (Uploaded ''events.csv''))]"
  by (simp add: upload_plan_def csv_files_def csv_step_def report_steps_def latest_report_def
      local_path_def enabled_monitor_def default_monitor_def init_monitor_def empty_disk_def Let_def
      init_csv_files_def)

lemma copy_fails_upload:
  "upload_logs speedtest_copy_fails enabled_monitor =
     Inr ([ssh_cmd ''/home/user/.ssh/id_rsa'' ''your-username'' ''your-vps-hostname.com'' ''/opt/internet-monitor'',
           scp_cmd ''/home/user/.ssh/id_rsa'' ''internet_logs/connectivity.csv'' ''your-username''
             ''your-vps-hostname.com'' ''/opt/internet-monitor'',
           scp_cmd ''/home/user/.ssh/id_rsa'' ''internet_logs/speedtest.csv'' ''your-username''
             ''your-vps-hostname.com'' ''/opt/internet-monitor''],
          enabled_monitor\<lparr>log_lines := log_lines enabled_monitor @
            [(INFO, Uploading ''your-username'' ''your-vps-hostname.com'' ''/opt/internet-monitor''),
             (ERROR, Scp_failed ''lost connection'')]\<rparr>)"
  by (simp add: upload_logs_eq enabled_monitor_settings upload_outcome_settings [OF enabled_monitor_settings(3)]
      enabled_monitor_steps run_steps_Run)
    (simp add: speedtest_copy_fails_def all_ok_def scp_cmd_def ssh_cmd_def run_steps_Run)

lemma enabled_monitor_plan:
  "plan_cmds (upload_plan env enabled_monitor k u h d) =
     [ssh_cmd k u h d,
      scp_cmd k ''internet_logs/connectivity.csv'' u h d,
      scp_cmd k ''internet_logs/speedtest.csv'' u h d,
      scp_cmd k ''internet_logs/events.csv'' u h d]"
  by (simp add: upload_plan_cmds csv_files_def local_path_def enabled_monitor_def default_monitor_def
      init_monitor_def empty_disk_def Let_def init_csv_files_def latest_report_def)

text \<open>What an upload adds to the log.\<close>

definition upload_lines :: "upload_env \<Rightarrow> 'a monitor_scheme \<Rightarrow> log_line list" where
  "upload_lines env m = (case vps_enabled m of Inr True \<Rightarrow> snd (upload_outcome env m) | _ \<Rightarrow> [])"

lemma upload_logs_monitor:
  "(case upload_logs env m of Inl e \<Rightarrow> m | Inr (started, m') \<Rightarrow> m') =
     m\<lparr>log_lines := log_lines m @ upload_lines env m\<rparr>"
proof (cases "vps_enabled m")
  case (Inl e)
  then show ?thesis by (simp add: upload_logs_def upload_lines_def)
next
  case (Inr enabled)
  then show ?thesis
    by (cases enabled) (simp_all add: upload_logs_def upload_lines_def attempt_upload_eq)
qed

section \<open>Properties\<close>

text \<open>
  C17 (functional). Nothing is uploaded unless the configuration enables it: with
  \<^verbatim>\<open>enabled\<close> false or missing, and so with the configuration the constructor writes,
  the method starts no command, logs nothing and leaves the monitor as it was. It raises
  exactly when the value of \<^verbatim>\<open>enabled\<close> is not a boolean word.
\<close>

theorem upload_only_when_enabled:
  "(vps_enabled m = Inr False \<longrightarrow> upload_logs env m = Inr ([], m)) \<and>
   (map_of (config m) (''VPS'', ''enabled'') = None \<longrightarrow> upload_logs env m = Inr ([], m)) \<and>
   upload_logs env (default_monitor empty_disk now) = Inr ([], default_monitor empty_disk now) \<and>
   (upload_logs env m = Inl e \<longleftrightarrow>
      (\<exists>v. map_of (config m) (''VPS'', ''enabled'') = Some v \<and> boolean_state v = None \<and>
           e = ValueError (''Not a boolean: '' @ v)))"
proof -
  have "upload_logs env (default_monitor empty_disk now) = Inr ([], default_monitor empty_disk now)"
    by (simp add: upload_logs_disabled)
  moreover have "upload_logs env m = Inr ([], m)" if "map_of (config m) (''VPS'', ''enabled'') = None"
    using that by (simp add: upload_logs_disabled vps_enabled_def getboolean_missing)
  ultimately show ?thesis
    by (simp add: upload_logs_disabled upload_logs_raises vps_enabled_def getboolean_Inl)
qed

theorem upload_only_when_enabled_witness:
  "upload_logs all_ok ((default_monitor empty_disk 0)\<lparr>config := []\<rparr>) =
     Inr ([], (default_monitor empty_disk 0)\<lparr>config := []\<rparr>)"
  using upload_only_when_enabled [of "(default_monitor empty_disk 0)\<lparr>config := []\<rparr>" all_ok]
  by simp

text \<open>
  C18 (functional). When the upload is enabled and every command succeeds, the commands
  started are, in this order, the \<^verbatim>\<open>ssh\<close> that creates the remote directory, one
  \<^verbatim>\<open>scp\<close> for each of the three series that exists, and one for the report modified
  last when there is a report; the log receives the line of the start and the line of
  the completion.
\<close>

theorem upload_command_sequence:
  assumes "vps_enabled m = Inr True" and "vps_settings env (config m) = Inr (h, u, k, d)"
    and "\<And>argv. argv \<in> set (plan_cmds (upload_plan env m k u h d)) \<Longrightarrow> \<exists>err. run_command env argv = Cmd_exit 0 err"
  shows "upload_logs env m =
           Inr (ssh_cmd k u h d #
                map (\<lambda>(name, f). scp_cmd k (local_path m name) u h d)
                  (filter (\<lambda>(name, f). f \<noteq> None) (csv_files m)) @
                (case latest_report env (map fst (report_files m)) of
                   None \<Rightarrow> []
                 | Some r \<Rightarrow> [scp_cmd k (local_path m (report_name env r)) u h d]),
                m\<lparr>log_lines := log_lines m @ [(INFO, Uploading u h d), (INFO, Upload_completed)]\<rparr>)"
  using run_steps_all_ok [of "upload_plan env m k u h d" env m, OF assms(3)] assms(1,2)
  by (simp add: upload_logs_eq upload_outcome_settings upload_plan_cmds)

theorem upload_command_sequence_witness:
  "upload_logs all_ok enabled_monitor =
     Inr ([[''ssh'', ''-i'', ''/home/user/.ssh/id_rsa'', ''your-username@your-vps-hostname.com'',
            ''mkdir -p /opt/internet-monitor''],
           [''scp'', ''-i'', ''/home/user/.ssh/id_rsa'', ''internet_logs/connectivity.csv'',
            ''your-username@your-vps-hostname.com:/opt/internet-monitor/''],
           [''scp'', ''-i'', ''/home/user/.ssh/id_rsa'', ''internet_logs/speedtest.csv'',
            ''your-username@your-vps-hostname.com:/opt/internet-monitor/''],
           [''scp'', ''-i'', ''/home/user/.ssh/id_rsa'', ''internet_logs/events.csv'',
            ''your-username@your-vps-hostname.com:/opt/internet-monitor/'']],
          enabled_monitor\<lparr>log_lines := log_lines enabled_monitor @
            [(INFO, Uploading ''your-username'' ''your-vps-hostname.com'' ''/opt/internet-monitor''),
             (INFO, Upload_completed)]\<rparr>)"
  using upload_command_sequence [OF enabled_monitor_settings(1,2)]
  by (simp add: all_ok_def csv_files_def local_path_def enabled_monitor_def ssh_cmd_def scp_cmd_def
      latest_report_def)

text \<open>
  C19 (error). An upload stops at the first command that fails and never raises for it:
  the commands started are a prefix of the planned ones, each of them but the last
  succeeded, and when not all were started the last one failed and the log ends with
  the error line of that failure.
\<close>

theorem upload_stops_at_failure:
  assumes "vps_enabled m = Inr True" and "vps_settings env (config m) = Inr (h, u, k, d)"
    and "upload_logs env m = Inr (started, m')"
  shows "prefix started (plan_cmds (upload_plan env m k u h d)) \<and>
         (\<forall>i < length started - 1. \<exists>err. run_command env (started ! i) = Cmd_exit 0 err) \<and>
         (started \<noteq> plan_cmds (upload_plan env m k u h d) \<longrightarrow>
            (\<exists>err. failed_with env (last started) err \<and>
               log_lines m' = log_lines m @ [(INFO, Uploading u h d), closing_line (Some err)]))"
proof -
  let ?run = "run_steps env (upload_plan env m k u h d) m"
  from assms have started: "started = fst ?run"
    and m': "m' = m\<lparr>log_lines := log_lines m @ [(INFO, Uploading u h d), closing_line (fst (snd ?run))]\<rparr>"
    by (simp_all add: upload_logs_eq upload_outcome_settings)
  from m' have lines:
    "log_lines m' = log_lines m @ [(INFO, Uploading u h d), closing_line (fst (snd ?run))]"
    by simp
  have "\<exists>err. failed_with env (last started) err \<and>
           log_lines m' = log_lines m @ [(INFO, Uploading u h d), closing_line (Some err)]"
    if "started \<noteq> plan_cmds (upload_plan env m k u h d)"
  proof -
    from that started obtain err where err: "fst (snd ?run) = Some err"
      using run_steps_complete [of env _ m] by (cases "fst (snd ?run)") auto
    from run_steps_failure [OF err] started have "failed_with env (last started) err" by simp
    with lines err show ?thesis by auto
  qed
  with started show ?thesis
    by (simp add: run_steps_prefix run_steps_earlier_ok)
qed

theorem upload_stops_at_failure_witness:
  "\<exists>err. failed_with speedtest_copy_fails
       (scp_cmd ''/home/user/.ssh/id_rsa'' ''internet_logs/speedtest.csv'' ''your-username''
          ''your-vps-hostname.com'' ''/opt/internet-monitor'') err \<and>
     log_lines enabled_monitor @
       [(INFO, Uploading ''your-username'' ''your-vps-hostname.com'' ''/opt/internet-monitor''),
        (ERROR, Scp_failed ''lost connection'')] =
     log_lines enabled_monitor @
       [(INFO, Uploading ''your-username'' ''your-vps-hostname.com'' ''/opt/internet-monitor''),
        closing_line (Some err)]"
  using upload_stops_at_failure [OF enabled_monitor_settings(1,3) copy_fails_upload]
  by (simp add: enabled_monitor_plan)

text \<open>
  An upload reads the log directory and never changes it: the three
  series, the reports, the configuration and the connection state are as before, and
  the log only grows.
\<close>

theorem upload_leaves_store:
  assumes "upload_logs env m = Inr (started, m')"
  shows "connectivity_log m' = connectivity_log m \<and> speedtest_log m' = speedtest_log m \<and>
         events_log m' = events_log m \<and> report_files m' = report_files m \<and>
         config m' = config m \<and> is_connected m' = is_connected m \<and>
         disconnect_start m' = disconnect_start m \<and> prefix (log_lines m) (log_lines m')"
proof (cases "vps_enabled m")
  case (Inl e)
  with assms show ?thesis by (simp add: upload_logs_def)
next
  case (Inr enabled)
  with assms show ?thesis
    by (cases enabled) (auto simp: upload_logs_def attempt_upload_eq)
qed

theorem upload_leaves_store_witness:
  "connectivity_log (snd (projr (upload_logs all_ok enabled_monitor))) = connectivity_log enabled_monitor \<and>
   prefix (log_lines enabled_monitor) (log_lines (snd (projr (upload_logs all_ok enabled_monitor))))"
  using upload_leaves_store [of all_ok enabled_monitor
      "fst (projr (upload_logs all_ok enabled_monitor))" "snd (projr (upload_logs all_ok enabled_monitor))"]
  by (simp add: upload_logs_enabled enabled_monitor_settings)

text \<open>
  The option \<^verbatim>\<open>port\<close> that the constructor writes into the section
  \<^verbatim>\<open>VPS\<close> of the configuration is never read: whatever its value, the commands are
  the same.
\<close>

theorem port_setting_ignored:
  assumes "has_section (config m) ''VPS''"
  shows "rbind (upload_logs env (m\<lparr>config := AList.update (''VPS'', ''port'') p (config m)\<rparr>)) (\<lambda>r. Inr (fst r)) =
         rbind (upload_logs env m) (\<lambda>r. Inr (fst r))"
proof -
  let ?m = "m\<lparr>config := AList.update (''VPS'', ''port'') p (config m)\<rparr>"
  have enabled: "vps_enabled ?m = vps_enabled m"
    by (simp add: vps_enabled_def getboolean_def update_conv')
  have "vps_settings env (config ?m) = vps_settings env (config m)"
    using assms by (simp add: vps_settings_def config_get_other)
  moreover have "upload_plan env ?m k u h d = upload_plan env m k u h d" for k u h d
    by (simp add: upload_plan_def csv_files_def local_path_def report_steps_def csv_step_def [abs_def]
        split: option.split)
  ultimately have "fst (upload_outcome env ?m) = fst (upload_outcome env m)"
    using run_steps_indep [of env _ ?m m] by (simp add: upload_outcome_def split: sum.split)
  with enabled show ?thesis
    by (cases "vps_enabled m") (simp_all add: upload_logs_def attempt_upload_eq)
qed

theorem port_setting_ignored_witness:
  "rbind (upload_logs all_ok (enabled_monitor\<lparr>config := AList.update (''VPS'', ''port'') ''2222'' (config enabled_monitor)\<rparr>))
     (\<lambda>r. Inr (fst r)) =
   rbind (upload_logs all_ok enabled_monitor) (\<lambda>r. Inr (fst r))"
  by (rule port_setting_ignored)
    (simp add: has_section_def enabled_monitor_def default_config_def)

end
