(* ===== verification/Operations.thy ===== *)
theory Operations
  imports Connectivity SpeedTest Report Upload
begin

text \<open>
  The operations of the monitor as one datatype, for the theories that put them in
  sequence: \<open>action\<close> names a connectivity check, a speed test, a report and an upload
  with what the outside world decides in each, \<open>perform\<close> is the method each one calls,
  and \<open>run_actions\<close> a sequence of them. \<open>verdicts\<close> is the sequence of verdicts a run
  hands to the state machine, \<open>reachable\<close> the monitors a run can end in when it starts
  on an empty log directory, and \<open>run_inv\<close> the invariant of all of them. A line that
  a method logs outside these operations is an action of its own.
\<close>

section \<open>The operations of a run\<close>

datatype action =
    Run_check check_env
  | Run_speedtest speed_env
  | Make_report timestamp timestamp
  | Upload_logs upload_env
  | Log_line log_level log_msg

fun perform :: "float_parser \<Rightarrow> action \<Rightarrow> monitor \<Rightarrow> monitor" where
  "perform flt (Run_check env) m = snd (test_connectivity flt env m)"
| "perform flt (Run_speedtest env) m = snd (run_speedtest env m)"
| "perform flt (Make_report named generated) m = snd (generate_report flt named generated m)"
| "perform flt (Upload_logs env) m = (case upload_logs env m of Inl e \<Rightarrow> m | Inr (started, m') \<Rightarrow> m')"
| "perform flt (Log_line lvl line) m = log_emit lvl line m"

fun verdict_of :: "float_parser \<Rightarrow> action \<Rightarrow> monitor \<Rightarrow> (bool \<times> timestamp) list" where
  "verdict_of flt (Run_check env) m = [(fst (test_connectivity flt env m), check_time env)]"
| "verdict_of flt a m = []"

fun run_actions :: "float_parser \<Rightarrow> action list \<Rightarrow> monitor \<Rightarrow> monitor" where
  "run_actions flt [] m = m"
| "run_actions flt (a # as) m = run_actions flt as (perform flt a m)"

fun verdicts :: "float_parser \<Rightarrow> action list \<Rightarrow> monitor \<Rightarrow> (bool \<times> timestamp) list" where
  "verdicts flt [] m = []"
| "verdicts flt (a # as) m = verdict_of flt a m @ verdicts flt as (perform flt a m)"

text \<open>The checks among the operations of a run, and whether an operation is a report.\<close>

fun checks_of :: "action list \<Rightarrow> check_env list" where
  "checks_of [] = []"
| "checks_of (Run_check env # as) = env # checks_of as"
| "checks_of (a # as) = checks_of as"

fun is_report :: "action \<Rightarrow> bool" where
  "is_report (Make_report named generated) = True"
| "is_report a = False"

text \<open>A log directory that holds at most a configuration file.\<close>

definition fresh_disk :: "config option \<Rightarrow> disk" where
  "fresh_disk cfg = empty_disk\<lparr>config_ini := cfg\<rparr>"

inductive reachable :: "float_parser \<Rightarrow> monitor \<Rightarrow> bool" for flt :: float_parser where
  start: "reachable flt (init_monitor dir p s u cfile (fresh_disk cfg) now)"
| step: "reachable flt m \<Longrightarrow> reachable flt (perform flt a m)"

text \<open>What the constructor sets and no operation changes.\<close>

definition settings :: "monitor \<Rightarrow> config \<times> (int \<times> int \<times> int) \<times> string \<times> string list \<times> string list" where
  "settings m =
     (config m, (ping_interval m, speedtest_interval m, upload_interval m), log_dir m,
      ping_targets m, http_targets m)"

text \<open>The invariant of a run.\<close>

definition run_inv :: "monitor \<Rightarrow> bool" where
  "run_inv m \<longleftrightarrow> conn_inv m \<and> store_ok m \<and> readable m"

text \<open>The disconnection summary of a list of outages.\<close>

definition outage_summary :: "outage list \<Rightarrow> report_part list" where
  "outage_summary outs =
     (if outs = [] then []
      else [Disconnection_summary (length outs) (downtime outs) (downtime outs / real (length outs))])"

text \<open>A run in which the connection is lost and restored: one outage of 4 seconds.\<close>

definition outage_run :: "action list" where
  "outage_run =
     [Run_check pings_down, Run_speedtest broken_env,
      Run_check all_up, Make_report 8000000 8000001]"

section \<open>Lemmas: one operation\<close>

lemma perform_upload [simp]:
  "perform flt (Upload_logs env) m = m\<lparr>log_lines := log_lines m @ upload_lines env m\<rparr>"
  by (simp add: upload_logs_monitor)

declare perform.simps(4) [simp del]

lemma fresh_disk_simps [simp]:
  "config_ini (fresh_disk cfg) = cfg" "connectivity_log (fresh_disk cfg) = None"
  "speedtest_log (fresh_disk cfg) = None" "events_log (fresh_disk cfg) = None"
  "report_files (fresh_disk cfg) = []" "log_lines (fresh_disk cfg) = []"
  "fresh_disk None = empty_disk"
  by (simp_all add: fresh_disk_def empty_disk_def)

lemma store_ok_log_lines [simp]:
  "store_ok (m\<lparr>log_lines := l\<rparr>) = store_ok m" "store_ok (log_emit lvl line m) = store_ok m"
  by (simp_all add: store_ok_def)

lemma readable_log_lines [simp]:
  "readable (m\<lparr>log_lines := l\<rparr>) = readable m" "readable (log_emit lvl line m) = readable m"
  by (simp_all add: readable_def)

lemma abs_conn_log_emit [simp]: "abs_conn (log_emit lvl line m) = abs_conn m"
  by (simp add: abs_conn_def)

lemma abs_conn_disk_update [simp]:
  "abs_conn (m\<lparr>connectivity_log := c\<rparr>) = abs_conn m"
  "abs_conn (m\<lparr>report_files := r\<rparr>) = abs_conn m"
  "abs_conn (m\<lparr>log_lines := l\<rparr>) = abs_conn m"
  by (simp_all add: abs_conn_def)

lemma perform_conn_inv: "conn_inv m \<Longrightarrow> conn_inv (perform flt a m)"
  by (cases a) (simp_all add: test_connectivity_conn_inv conn_inv_run_speedtest)

lemma perform_store_ok: "store_ok m \<Longrightarrow> store_ok (perform flt a m)"
  by (cases a) (simp_all add: store_ok_test_connectivity store_ok_run_speedtest)

lemma perform_abs_conn:
  "conn_inv m \<Longrightarrow> abs_conn (perform flt a m) = final_conn (abs_conn m) (verdict_of flt a m)"
proof (cases a)
  case (Run_check env)
  assume "conn_inv m"
  with Run_check show ?thesis
    by (simp add: test_connectivity_eq abs_conn_handle final_conn_def)
qed (simp_all add: abs_conn_def frame_simps final_conn_def)

lemma perform_events_rows:
  "conn_inv m \<Longrightarrow>
     rows_of (events_log (perform flt a m)) =
       rows_of (events_log m) @
         map (\<lambda>(start, stop). event_row start stop) (outages (abs_conn m) (verdict_of flt a m))"
  by (cases a) (simp_all add: test_connectivity_eq handle_events_rows frame_simps)

lemma row_typed_event_row [simp]: "row_typed (Suc 0) ''disconnect'' [2] (event_row start stop)"
  by (simp add: row_typed_def event_row_def)

lemma row_typed_speed_row [simp]: "row_typed 5 ''success'' [Suc 0, 2] (writerow (speed_row env))"
  by (simp add: row_typed_def speed_row_def success_row_def failure_row_def writerow_def
      split: sum.split)

lemma events_typed_perform:
  assumes "conn_inv m" and "store_ok m"
    and "list_all (row_typed 1 ''disconnect'' [2]) (tl (rows_of (events_log m)))"
  shows "list_all (row_typed 1 ''disconnect'' [2]) (tl (rows_of (events_log (perform flt a m))))"
proof -
  from assms(2) have "rows_of (events_log m) \<noteq> []"
    by (auto simp: store_ok_def series_ok_rows)
  with assms(1,3) show ?thesis
    by (auto simp: perform_events_rows list_all_iff split_def)
qed

lemma speed_typed_perform:
  assumes "store_ok m"
    and "list_all (row_typed 5 ''success'' [1, 2]) (tl (rows_of (speedtest_log m)))"
  shows "list_all (row_typed 5 ''success'' [1, 2]) (tl (rows_of (speedtest_log (perform flt a m))))"
proof -
  from assms(1) have "rows_of (speedtest_log m) \<noteq> []"
    by (auto simp: store_ok_def series_ok_rows)
  with assms(2) show ?thesis
    by (cases a) (simp_all add: frame_simps run_speedtest_log_rows)
qed

lemma perform_settings [simp]: "settings (perform flt a m) = settings m"
  by (cases a)
    (simp_all add: settings_def test_connectivity_eq handle_connection_state_def run_speedtest_def
      generate_report_def log_emit_def Let_def split: option.split sum.split)

lemma settings_fields:
  "settings m' = settings m \<Longrightarrow>
     config m' = config m \<and> ping_interval m' = ping_interval m \<and>
     speedtest_interval m' = speedtest_interval m \<and> upload_interval m' = upload_interval m \<and>
     log_dir m' = log_dir m \<and> ping_targets m' = ping_targets m \<and> http_targets m' = http_targets m \<and>
     vps_enabled m' = vps_enabled m"
  by (simp add: settings_def vps_enabled_def)

lemma settings_operations [simp]:
  "settings (snd (test_connectivity flt cenv m)) = settings m"
  "settings (snd (run_speedtest senv m)) = settings m"
  "settings (snd (generate_report flt named generated m)) = settings m"
  using perform_settings [of flt "Run_check cenv" m] perform_settings [of flt "Run_speedtest senv" m]
    perform_settings [of flt "Make_report named generated" m]
  by simp_all

lemma vps_enabled_settings: "vps_enabled m = getboolean (fst (settings m)) ''VPS'' ''enabled'' False"
  by (simp add: vps_enabled_def settings_def)

lemma settings_log_emit [simp]: "settings (log_emit lvl line m) = settings m"
  by (simp add: settings_def log_emit_def)

lemma run_actions_settings [simp]: "settings (run_actions flt as m) = settings m"
  by (induction as arbitrary: m) simp_all

lemma perform_connectivity_rows:
  "length (rows_of (connectivity_log (perform flt a m))) =
     length (rows_of (connectivity_log m)) +
       (case a of Run_check env \<Rightarrow> length (ping_targets m) + length (http_targets m) | _ \<Rightarrow> 0)"
  by (cases a) (simp_all add: test_connectivity_connectivity_rows frame_simps)

lemma perform_speedtest_rows:
  "length (rows_of (speedtest_log (perform flt a m))) =
     length (rows_of (speedtest_log m)) + (case a of Run_speedtest env \<Rightarrow> 1 | _ \<Rightarrow> 0)"
  by (cases a) (simp_all add: run_speedtest_log_rows frame_simps)

lemma perform_report_files: "\<not> is_report a \<Longrightarrow> report_files (perform flt a m) = report_files m"
  by (cases a) (simp_all add: frame_simps)

lemma checks_of_append [simp]: "checks_of (as @ bs) = checks_of as @ checks_of bs"
  by (induction as rule: checks_of.induct) simp_all

lemma run_inv_perform: "run_inv m \<Longrightarrow> run_inv (perform flt a m)"
  using events_typed_perform [of m flt a] speed_typed_perform [of m flt a]
  by (simp add: run_inv_def readable_def perform_conn_inv perform_store_ok)

lemma run_inv_start: "run_inv (init_monitor dir p s u cfile (fresh_disk cfg) now)"
  by (simp add: run_inv_def conn_inv_init readable_def store_ok_def)

lemma reachable_default: "reachable flt (default_monitor empty_disk now)"
  using reachable.start [of flt "''internet_logs''" 30 3600 300 "''monitor_config.ini''" None now]
  by (simp add: default_monitor_def)

lemma run_inv_default: "run_inv (default_monitor empty_disk now)"
  using run_inv_start [of "''internet_logs''" 30 3600 300 "''monitor_config.ini''" None now]
  by (simp add: default_monitor_def)

section \<open>Lemmas: runs\<close>

lemma run_actions_append:
  "run_actions flt (as @ bs) m = run_actions flt bs (run_actions flt as m)"
  by (induction as arbitrary: m) simp_all

lemma verdicts_append:
  "verdicts flt (as @ bs) m = verdicts flt as m @ verdicts flt bs (run_actions flt as m)"
  by (induction as arbitrary: m) simp_all

lemma run_inv_run: "run_inv m \<Longrightarrow> run_inv (run_actions flt as m)"
  by (induction as arbitrary: m) (simp_all add: run_inv_perform)

lemma reachable_run_inv: "reachable flt m \<Longrightarrow> run_inv m"
  by (induction rule: reachable.induct) (simp_all add: run_inv_start run_inv_perform)

lemma reachable_report:
  "reachable flt m \<Longrightarrow> fst (generate_report flt named generated m) = Some (named div 1000000)"
  using reachable_run_inv [of flt m] by (simp add: generate_report_readable run_inv_def)

lemma reachable_run: "reachable flt m \<Longrightarrow> reachable flt (run_actions flt as m)"
  by (induction as arbitrary: m) (simp_all add: reachable.step)

lemma reachable_iff:
  "reachable flt m \<longleftrightarrow>
     (\<exists>dir p s u cfile cfg now as. m = run_actions flt as (init_monitor dir p s u cfile (fresh_disk cfg) now))"
proof
  show "reachable flt m \<Longrightarrow>
      \<exists>dir p s u cfile cfg now as. m = run_actions flt as (init_monitor dir p s u cfile (fresh_disk cfg) now)"
  proof (induction rule: reachable.induct)
    case (start dir p s u cfile cfg now)
    have "init_monitor dir p s u cfile (fresh_disk cfg) now =
        run_actions flt [] (init_monitor dir p s u cfile (fresh_disk cfg) now)" by simp
    then show ?case by blast
  next
    case (step m a)
    then obtain dir p s u cfile cfg now as
      where "m = run_actions flt as (init_monitor dir p s u cfile (fresh_disk cfg) now)" by blast
    then have "perform flt a m = run_actions flt (as @ [a]) (init_monitor dir p s u cfile (fresh_disk cfg) now)"
      by (simp add: run_actions_append)
    then show ?case by blast
  qed
qed (auto intro: reachable_run reachable.start)

lemma run_events_of_verdicts:
  "conn_inv m \<Longrightarrow>
     rows_of (events_log (run_actions flt as m)) =
       rows_of (events_log m) @
         map (\<lambda>(start, stop). event_row start stop) (outages (abs_conn m) (verdicts flt as m))"
proof (induction as arbitrary: m)
  case Nil
  show ?case by simp
next
  case (Cons a as)
  from Cons.prems have "conn_inv (perform flt a m)" by (rule perform_conn_inv)
  from Cons.IH [OF this] Cons.prems show ?case
    by (simp add: perform_events_rows perform_abs_conn outages_append)
qed

lemma disconnection_section_outages:
  "disconnection_section flt
     (Some (events_header # map (\<lambda>(start, stop). event_row start stop) outs)) = Inr (outage_summary outs)"
proof -
  let ?ds = "map (\<lambda>(start, stop). (Stamp start, total_seconds (stop - start), Details start stop)) outs"
  have rows: "map (\<lambda>(start, stop). event_row start stop) outs =
      map (\<lambda>(t, d, x). [t, Text ''disconnect'', Num d, x]) ?ds"
    by (simp add: event_row_def split_def)
  have "sum_list (map (\<lambda>(t, d, x). d) ?ds) = downtime outs"
    by (simp add: downtime_def split_def o_def)
  with disconnection_section_events [of flt ?ds] show ?thesis
    unfolding rows [symmetric] by (simp add: outage_summary_def)
qed

lemma run_events_log:
  "events_log (run_actions flt as (default_monitor empty_disk now)) =
     Some (events_header #
       map (\<lambda>(start, stop). event_row start stop)
         (outages CONNECTED (verdicts flt as (default_monitor empty_disk now))))"
proof -
  let ?m = "run_actions flt as (default_monitor empty_disk now)"
  have "run_inv ?m" by (intro run_inv_run run_inv_default)
  then have "events_log ?m = Some (rows_of (events_log ?m))"
    by (intro csv_file_rows) (auto simp: run_inv_def store_ok_def series_ok_rows)
  then show ?thesis
    by (simp add: run_events_of_verdicts conn_inv_default abs_conn_def)
qed

lemma run_report_parts:
  "\<exists>c s. report_of flt generated (run_actions flt as (default_monitor empty_disk now)) =
     Heading generated # c @
       outage_summary (outages CONNECTED (verdicts flt as (default_monitor empty_disk now))) @ s"
proof -
  let ?m = "run_actions flt as (default_monitor empty_disk now)"
  have "readable ?m" using run_inv_run [OF run_inv_default] by (simp add: run_inv_def)
  then obtain a b c where parts: "sections flt ?m = [Inr a, Inr b, Inr c]"
    using readable_sections by blast
  then have "disconnection_section flt (events_log ?m) = Inr b" by (simp add: sections_def)
  then have "b = outage_summary (outages CONNECTED (verdicts flt as (default_monitor empty_disk now)))"
    by (simp only: run_events_log disconnection_section_outages sum.inject)
  with parts show ?thesis by (intro exI [of _ a] exI [of _ c]) (simp add: report_of_def)
qed

lemma fixture_times [simp]: "check_time pings_down = 3000000" "check_time all_up = 7000000"
  by (simp_all add: pings_down_def all_up_def)

lemma outage_run_verdicts:
  "verdicts flt outage_run (default_monitor empty_disk now) = [(False, 3000000), (True, 7000000)]"
  by (simp add: outage_run_def pings_down_verdict all_up_verdict frame_simps)

end
