(* ===== verification/Schedule.thy ===== *)
theory Schedule
  imports Prelude "HOL-Library.Multiset"
begin

text \<open>
  The part of the \<^verbatim>\<open>schedule\<close> library that \<^verbatim>\<open>run_monitor\<close> uses (lines 443, 446 and
  457), after the documented behaviour of the library: a job is a record with its
  interval and the time of its next run; \<open>every\<close> is
  \<^verbatim>\<open>schedule.every(n).seconds.do(job)\<close>; a job is due when its next run is not after
  now; \<^verbatim>\<open>run_pending\<close> runs the due jobs in the order of their next run, and after
  its run a job is scheduled again at the time then plus its interval.

  Two choices of the model are to be kept in mind. A job is identified by its kind, and
  \<open>reschedule\<close> sets the next run of every job of the kind that ran: this is the
  library's update of the one job that ran as long as the kinds of the jobs are
  distinct, which holds for the jobs \<^verbatim>\<open>run_monitor\<close> registers (one speed test and at
  most one upload). And \<open>every\<close> accepts any integer interval and plans the first run
  that interval from now, also for an interval that is zero or negative, for which
  the job is due at every round; the command line gives the intervals no range, and
  what the library itself does with such an interval is outside the model.

  The specification describes the scheduler differently: every periodic action keeps
  its interval and the time of its last run, and is due when the time elapsed since then
  is at least the interval. \<open>timer\<close> and \<open>timer_tick\<close> are that scheduler, \<open>timer_of\<close> is
  the timer that a job stands for, and the lemmas show that the jobs of the library
  implement the timers of the specification.
\<close>

section \<open>The jobs of the schedule library\<close>

datatype job_kind = Speedtest_job | Upload_job

record job =
  job_kind :: job_kind
  job_interval :: int
  next_run :: timestamp

text \<open>\<^verbatim>\<open>timedelta(seconds=n)\<close> in microseconds.\<close>

definition seconds :: "int \<Rightarrow> int" where
  "seconds n = n * 1000000"

definition every :: "int \<Rightarrow> job_kind \<Rightarrow> timestamp \<Rightarrow> job list \<Rightarrow> job list" where
  "every n kind now jobs = jobs @ [\<lparr>job_kind = kind, job_interval = n, next_run = now + seconds n\<rparr>]"

definition due :: "timestamp \<Rightarrow> job \<Rightarrow> bool" where
  "due now j \<longleftrightarrow> next_run j \<le> now"

text \<open>\<^verbatim>\<open>sorted(job for job in self.jobs if job.should_run)\<close>.\<close>

definition runnable :: "timestamp \<Rightarrow> job list \<Rightarrow> job list" where
  "runnable now jobs = sort_key next_run (filter (due now) jobs)"

text \<open>After its run a job is scheduled again, from the time then.\<close>

definition reschedule :: "job_kind \<Rightarrow> timestamp \<Rightarrow> job list \<Rightarrow> job list" where
  "reschedule kind now jobs =
     map (\<lambda>j. if job_kind j = kind then j\<lparr>next_run := now + seconds (job_interval j)\<rparr> else j) jobs"

text \<open>What of a job its runs leave as it was registered.\<close>

definition shape :: "job list \<Rightarrow> (job_kind \<times> int) list" where
  "shape js = map (\<lambda>j. (job_kind j, job_interval j)) js"

text \<open>The jobs after those of \<open>js\<close> have run, each finished at the time \<open>finished\<close> gives.\<close>

definition ran :: "(job_kind \<Rightarrow> timestamp) \<Rightarrow> job list \<Rightarrow> job list \<Rightarrow> job list" where
  "ran finished js jobs = fold (\<lambda>j. reschedule (job_kind j) (finished (job_kind j))) js jobs"

section \<open>The scheduler of the specification\<close>

record timer =
  timer_kind :: job_kind
  period :: int
  last_run :: timestamp

definition elapsed :: "timestamp \<Rightarrow> timer \<Rightarrow> bool" where
  "elapsed now t \<longleftrightarrow> seconds (period t) \<le> now - last_run t"

text \<open>The actions to run in a tick, and the timers after it.\<close>

definition due_kinds :: "timestamp \<Rightarrow> timer list \<Rightarrow> job_kind list" where
  "due_kinds now ts = map timer_kind (filter (elapsed now) ts)"

definition timer_tick :: "(job_kind \<Rightarrow> timestamp) \<Rightarrow> timestamp \<Rightarrow> timer list \<Rightarrow> timer list" where
  "timer_tick finished now ts =
     map (\<lambda>t. if elapsed now t then t\<lparr>last_run := finished (timer_kind t)\<rparr> else t) ts"

text \<open>The timer that a job stands for.\<close>

definition timer_of :: "job \<Rightarrow> timer" where
  "timer_of j =
     \<lparr>timer_kind = job_kind j, period = job_interval j,
      last_run = next_run j - seconds (job_interval j)\<rparr>"

section \<open>Lemmas: jobs\<close>

lemma runnable_set [simp]: "set (runnable now js) = {j \<in> set js. due now j}"
  by (auto simp: runnable_def)

lemma runnable_sorted: "sorted (map next_run (runnable now js))"
  by (simp add: runnable_def)

lemma runnable_none [simp]: "(\<And>j. j \<in> set js \<Longrightarrow> now < next_run j) \<Longrightarrow> runnable now js = []"
  by (simp add: runnable_def due_def filter_empty_conv not_le)

lemma runnable_single [simp]: "runnable now [j] = (if next_run j \<le> now then [j] else [])"
  by (simp add: runnable_def due_def)

lemma shape_reschedule [simp]: "shape (reschedule kind now js) = shape js"
  by (simp add: shape_def reschedule_def)

lemma shape_every [simp]: "shape (every n kind now js) = shape js @ [(kind, n)]"
  by (simp add: shape_def every_def)

lemma shape_Nil [simp]: "shape [] = []"
  by (simp add: shape_def)

lemma kinds_shape: "job_kind ` set js = fst ` set (shape js)"
  by (force simp: shape_def)

lemma mset_runnable [simp]: "mset (runnable now js) = mset (filter (due now) js)"
  by (simp add: runnable_def)

lemma ran_simps [simp]:
  "ran finished [] jobs = jobs"
  "ran finished (j # js) jobs = ran finished js (reschedule (job_kind j) (finished (job_kind j)) jobs)"
  by (simp_all add: ran_def)

lemma ran_map:
  "ran finished js jobs =
     map (\<lambda>j. if job_kind j \<in> job_kind ` set js
               then j\<lparr>next_run := finished (job_kind j) + seconds (job_interval j)\<rparr> else j) jobs"
  by (induction js arbitrary: jobs) (auto simp: reschedule_def)

lemma shape_ran [simp]: "shape (ran finished js jobs) = shape jobs"
  by (induction js arbitrary: jobs) simp_all

section \<open>Lemmas: the jobs implement the timers\<close>

lemma timer_of_simps [simp]:
  "timer_kind (timer_of j) = job_kind j" "period (timer_of j) = job_interval j"
  "last_run (timer_of j) = next_run j - seconds (job_interval j)"
  by (simp_all add: timer_of_def)

lemma due_elapsed: "due now j \<longleftrightarrow> elapsed now (timer_of j)"
  by (auto simp: due_def elapsed_def)

lemma timer_of_every:
  "map timer_of (every n kind now js) =
     map timer_of js @ [\<lparr>timer_kind = kind, period = n, last_run = now\<rparr>]"
  by (simp add: every_def timer_of_def)

lemma timer_of_reschedule:
  "map timer_of (reschedule kind now js) =
     map (\<lambda>t. if timer_kind t = kind then t\<lparr>last_run := now\<rparr> else t) (map timer_of js)"
  by (simp add: reschedule_def timer_of_def)

lemma due_kinds_runnable:
  "mset (map job_kind (runnable now js)) = mset (due_kinds now (map timer_of js))"
  by (simp add: due_kinds_def filter_map o_def due_elapsed [abs_def])

lemma runnable_kind_iff:
  assumes "distinct (map job_kind js)" and "j \<in> set js"
  shows "job_kind j \<in> job_kind ` set (runnable now js) \<longleftrightarrow> due now j"
  using assms by (auto simp: distinct_map dest: inj_onD)

lemma timer_of_update [simp]:
  "timer_of (j\<lparr>next_run := t\<rparr>) = (timer_of j)\<lparr>last_run := t - seconds (job_interval j)\<rparr>"
  by (simp add: timer_of_def)

lemma timer_of_ran:
  assumes "distinct (map job_kind js)"
  shows "map timer_of (ran finished (runnable now js) js) = timer_tick finished now (map timer_of js)"
proof -
  have "timer_of (if job_kind j \<in> job_kind ` set (runnable now js)
                  then j\<lparr>next_run := finished (job_kind j) + seconds (job_interval j)\<rparr> else j) =
        (if elapsed now (timer_of j) then (timer_of j)\<lparr>last_run := finished (timer_kind (timer_of j))\<rparr>
         else timer_of j)" if "j \<in> set js" for j
    unfolding runnable_kind_iff [OF assms that] due_elapsed by simp
  then show ?thesis by (simp add: ran_map timer_tick_def del: runnable_set)
qed

lemma distinct_kinds_shape: "distinct (map job_kind js) \<longleftrightarrow> distinct (map fst (shape js))"
  by (simp add: shape_def o_def)

end
