(* ===== verification/Scheduler.thy ===== *)
theory Scheduler
  imports Operations Schedule
begin

text \<open>
  The main loop: \<^verbatim>\<open>run_monitor\<close> (lines 434 to 464), with the part of the
  \<^verbatim>\<open>schedule\<close> library it uses.

  The method logs its settings, registers the speed test (and the upload, when the
  configuration enables it) as periodic jobs, runs one speed test, and then repeats:
  a connectivity check, the jobs that are due, a sleep of \<^verbatim>\<open>ping_interval\<close> seconds.
  It ends when the user interrupts it, with a last report, or when an exception
  reaches it.

  A run is given by a \<open>monitor_env\<close>: the readings of the clock, the environment of the
  first speed test, and one \<open>tick_env\<close> for each round of the loop. The loop has no
  exit of its own, so the list of rounds is the part of the run before the interrupt,
  which arrives during the sleep of the last round (or before the first round, when
  the list is empty); an interrupt during the first speed test is the other case the
  model has (\<open>initial_speed = None\<close>), and an interrupt inside any other operation is
  not modelled.

  The method is three parts in sequence: the statements before the \<^verbatim>\<open>try\<close>
  (\<open>enter_loop\<close>, lines 436 to 449), the loop, and the end of the \<^verbatim>\<open>try\<close> statement
  (\<open>leave_loop\<close>: the handler of \<^verbatim>\<open>KeyboardInterrupt\<close> with the report, or the exception
  that no handler catches). It is given twice. \<open>run_forever\<close> is the method as the
  program writes it, with the loop \<open>monitor_loop\<close> over an unbounded sequence of rounds,
  a partial function whose value \<open>None\<close> is a loop that never returns. \<open>run_monitor\<close>
  is the method on the list of the rounds before the interrupt, with the structural
  recursion \<open>run_ticks\<close> for the loop. \<open>run_forever\<close> returns exactly when an
  interrupt arrives or a round raises, and then returns what \<open>run_monitor\<close> returns
  on the rounds before that point.

  The jobs of the \<^verbatim>\<open>schedule\<close> library are those of theory \<open>Schedule\<close>. A job is
  identified there by its kind, and the method registers at most one job of each kind
  (\<open>distinct_registered\<close>), so the job that ran is the only one rescheduled. The
  readings of the clock during one call of \<open>run_pending\<close> that decide which jobs are
  due are taken as one.
\<close>

section \<open>The state of a run\<close>

text \<open>
  The monitor, the jobs of the scheduler, and the uploads made so far, each the list of
  the commands it started.
\<close>

record run_state =
  mon :: monitor
  jobs :: "job list"
  uploads :: "string list list list"

text \<open>An exception that reached the loop, with the state it left.\<close>

type_synonym outcome = "exn \<times> run_state + run_state"

definition obind :: "outcome \<Rightarrow> (run_state \<Rightarrow> outcome) \<Rightarrow> outcome" where
  "obind r f = (case r of Inl failure \<Rightarrow> Inl failure | Inr st \<Rightarrow> f st)"

record tick_env =
  check :: check_env
  pending_time :: timestamp
  speed :: speed_env
  speed_done :: timestamp
  upload :: upload_env
  upload_done :: timestamp

section \<open>One round of the loop\<close>

text \<open>One job: the method it was registered with, then its next run.\<close>

definition run_job :: "tick_env \<Rightarrow> job \<Rightarrow> run_state \<Rightarrow> outcome" where
  "run_job env j st =
     (case job_kind j of
        Speedtest_job \<Rightarrow>
          Inr (st\<lparr>mon := snd (run_speedtest (speed env) (mon st)),
                  jobs := reschedule Speedtest_job (speed_done env) (jobs st)\<rparr>)
      | Upload_job \<Rightarrow>
          (case upload_logs (upload env) (mon st) of
             Inl e \<Rightarrow> Inl (e, st)
           | Inr (started, m') \<Rightarrow>
               Inr (st\<lparr>mon := m', uploads := uploads st @ [started],
                       jobs := reschedule Upload_job (upload_done env) (jobs st)\<rparr>)))"

fun run_jobs :: "tick_env \<Rightarrow> job list \<Rightarrow> run_state \<Rightarrow> outcome" where
  "run_jobs env [] st = Inr st"
| "run_jobs env (j # js) st = obind (run_job env j st) (run_jobs env js)"

definition run_pending :: "tick_env \<Rightarrow> run_state \<Rightarrow> outcome" where
  "run_pending env st = run_jobs env (runnable (pending_time env) (jobs st)) st"

text \<open>\<^verbatim>\<open>time.sleep(self.ping_interval)\<close>: a negative length is an error.\<close>

definition sleep :: "run_state \<Rightarrow> outcome" where
  "sleep st =
     (if ping_interval (mon st) < 0 then Inl (ValueError ''sleep length must be non-negative'', st)
      else Inr st)"

text \<open>The body of the \<^verbatim>\<open>while\<close> loop (lines 453 to 460).\<close>

definition tick :: "float_parser \<Rightarrow> tick_env \<Rightarrow> run_state \<Rightarrow> outcome" where
  "tick flt env st =
     obind (run_pending env (st\<lparr>mon := snd (test_connectivity flt (check env) (mon st))\<rparr>)) sleep"

fun run_ticks :: "float_parser \<Rightarrow> tick_env list \<Rightarrow> run_state \<Rightarrow> outcome" where
  "run_ticks flt [] st = Inr st"
| "run_ticks flt (env # envs) st = obind (tick flt env st) (run_ticks flt envs)"

section \<open>The loop as the program writes it\<close>

text \<open>
  \<^verbatim>\<open>while True\<close> (lines 452 to 460) over the rounds of an unbounded run: \<open>rounds n\<close> is
  what the outside world decides in round \<open>n\<close>, or \<open>None\<close> when the interrupt arrives in
  the sleep before it. The loop returns nothing when no interrupt arrives and no
  exception is raised.
\<close>

partial_function (option) monitor_loop ::
  "float_parser \<Rightarrow> (nat \<Rightarrow> tick_env option) \<Rightarrow> nat \<Rightarrow> run_state \<Rightarrow> outcome option" where
  "monitor_loop flt rounds n st =
     (case rounds n of
        None \<Rightarrow> Some (Inr st)
      | Some env \<Rightarrow>
          (case tick flt env st of
             Inl failure \<Rightarrow> Some (Inl failure)
           | Inr st' \<Rightarrow> monitor_loop flt rounds (Suc n) st'))"

text \<open>The rounds before round \<open>k\<close>.\<close>

definition rounds_before :: "(nat \<Rightarrow> tick_env option) \<Rightarrow> nat \<Rightarrow> nat \<Rightarrow> tick_env list" where
  "rounds_before rounds n k = map (\<lambda>i. the (rounds i)) [n..<n + k]"

section \<open>The method\<close>

record monitor_env =
  speedtest_scheduled :: timestamp
  upload_scheduled :: timestamp
  initial_speed :: "speed_env option"
  ticks :: "tick_env list"
  report_named :: timestamp
  report_generated :: timestamp

datatype run_end = Stopped "int option" | Crashed exn | Interrupted

text \<open>The lines logged at the start (lines 436 to 440); the fourth needs the configuration.\<close>

definition announce :: "monitor \<Rightarrow> exn \<times> monitor + monitor" where
  "announce m =
     (let m3 = log_emit INFO (Speedtest_interval_is (speedtest_interval m))
                 (log_emit INFO (Ping_interval_is (ping_interval m))
                   (log_emit INFO Starting_monitor m))
      in case vps_enabled m3 of
           Inl e \<Rightarrow> Inl (e, m3)
         | Inr enabled \<Rightarrow>
             Inr (log_emit INFO (Logs_directory_is (log_dir m3))
                   (log_emit INFO (Upload_interval_is (upload_interval m3) enabled) m3)))"

text \<open>The jobs registered (lines 443 to 446).\<close>

definition register_jobs :: "monitor_env \<Rightarrow> monitor \<Rightarrow> exn + job list" where
  "register_jobs env m =
     (let js = every (speedtest_interval m) Speedtest_job (speedtest_scheduled env) []
      in case vps_enabled m of
           Inl e \<Rightarrow> Inl e
         | Inr enabled \<Rightarrow>
             Inr (if enabled then every (upload_interval m) Upload_job (upload_scheduled env) js else js))"

text \<open>The handler of \<^verbatim>\<open>KeyboardInterrupt\<close> (lines 462 to 464).\<close>

definition stop :: "float_parser \<Rightarrow> monitor_env \<Rightarrow> run_state \<Rightarrow> run_end \<times> run_state" where
  "stop flt env st =
     (case generate_report flt (report_named env) (report_generated env)
             (log_emit INFO Stopped_by_user (mon st)) of
        (r, m') \<Rightarrow> (Stopped r, st\<lparr>mon := m'\<rparr>))"

text \<open>
  What comes before the loop (lines 436 to 449): the run has ended there, by an
  exception of \<^verbatim>\<open>getboolean\<close> or by an interrupt during the first speed test, or the
  loop is entered.
\<close>

definition enter_loop :: "monitor_env \<Rightarrow> monitor \<Rightarrow> run_end \<times> run_state + run_state" where
  "enter_loop env m =
     (case announce m of
        Inl (e, m') \<Rightarrow> Inl (Crashed e, \<lparr>mon = m', jobs = [], uploads = []\<rparr>)
      | Inr m1 \<Rightarrow>
          (case register_jobs env m1 of
             Inl e \<Rightarrow> Inl (Crashed e, \<lparr>mon = m1, jobs = [], uploads = []\<rparr>)
           | Inr js \<Rightarrow>
               (case initial_speed env of
                  None \<Rightarrow>
                    Inl (Interrupted,
                         \<lparr>mon = log_emit INFO Running_speedtest m1, jobs = js, uploads = []\<rparr>)
                | Some senv \<Rightarrow>
                    Inr \<lparr>mon = snd (run_speedtest senv m1), jobs = js, uploads = []\<rparr>)))"

text \<open>
  What comes after the loop (lines 451 and 462 to 464): an exception that left the loop
  ends the run, the interrupt is handled.
\<close>

definition leave_loop :: "float_parser \<Rightarrow> monitor_env \<Rightarrow> outcome \<Rightarrow> run_end \<times> run_state" where
  "leave_loop flt env r = (case r of Inl (e, st) \<Rightarrow> (Crashed e, st) | Inr st \<Rightarrow> stop flt env st)"

text \<open>
  The method as the program runs it, over the unbounded sequence of rounds: it returns
  nothing when the loop does not return.
\<close>

definition run_forever ::
  "float_parser \<Rightarrow> monitor_env \<Rightarrow> (nat \<Rightarrow> tick_env option) \<Rightarrow> monitor \<Rightarrow> (run_end \<times> run_state) option" where
  "run_forever flt env rounds m =
     (case enter_loop env m of
        Inl ended \<Rightarrow> Some ended
      | Inr st \<Rightarrow> map_option (leave_loop flt env) (monitor_loop flt rounds 0 st))"

text \<open>The method on the rounds before the interrupt, \<open>ticks env\<close>.\<close>

definition run_monitor :: "float_parser \<Rightarrow> monitor_env \<Rightarrow> monitor \<Rightarrow> run_end \<times> run_state" where
  "run_monitor flt env m =
     (case enter_loop env m of
        Inl ended \<Rightarrow> ended
      | Inr st \<Rightarrow> leave_loop flt env (run_ticks flt (ticks env) st))"

section \<open>What a run performs\<close>

text \<open>The state in which a round, or a run, ends, whether by an exception or not.\<close>

definition final :: "outcome \<Rightarrow> run_state" where
  "final r = (case r of Inl (e, st) \<Rightarrow> st | Inr st \<Rightarrow> st)"

text \<open>The operation of theory \<open>Operations\<close> that a job, a round and a run perform.\<close>

definition job_action :: "tick_env \<Rightarrow> job \<Rightarrow> action" where
  "job_action env j =
     (case job_kind j of
        Speedtest_job \<Rightarrow> Run_speedtest (speed env)
      | Upload_job \<Rightarrow> Upload_logs (upload env))"

text \<open>The time at which the job of a kind finished in a round.\<close>

definition done_time :: "tick_env \<Rightarrow> job_kind \<Rightarrow> timestamp" where
  "done_time env kind = (case kind of Speedtest_job \<Rightarrow> speed_done env | Upload_job \<Rightarrow> upload_done env)"

definition tick_actions :: "tick_env \<Rightarrow> run_state \<Rightarrow> action list" where
  "tick_actions env st =
     Run_check (check env) # map (job_action env) (runnable (pending_time env) (jobs st))"

fun run_trace :: "float_parser \<Rightarrow> tick_env list \<Rightarrow> run_state \<Rightarrow> action list" where
  "run_trace flt [] st = []"
| "run_trace flt (env # envs) st =
     tick_actions env st @ run_trace flt envs (final (tick flt env st))"

definition announce_lines :: "monitor \<Rightarrow> bool \<Rightarrow> action list" where
  "announce_lines m enabled =
     [Log_line INFO Starting_monitor,
      Log_line INFO (Ping_interval_is (ping_interval m)),
      Log_line INFO (Speedtest_interval_is (speedtest_interval m)),
      Log_line INFO (Upload_interval_is (upload_interval m) enabled),
      Log_line INFO (Logs_directory_is (log_dir m))]"

text \<open>The jobs registered, and the state in which the loop is entered.\<close>

definition registered :: "monitor_env \<Rightarrow> monitor \<Rightarrow> bool \<Rightarrow> job list" where
  "registered env m enabled =
     (let js = every (speedtest_interval m) Speedtest_job (speedtest_scheduled env) []
      in if enabled then every (upload_interval m) Upload_job (upload_scheduled env) js else js)"

definition loop_entry ::
  "float_parser \<Rightarrow> monitor_env \<Rightarrow> speed_env \<Rightarrow> monitor \<Rightarrow> bool \<Rightarrow> run_state" where
  "loop_entry flt env senv m enabled =
     \<lparr>mon = run_actions flt (announce_lines m enabled @ [Run_speedtest senv]) m,
      jobs = registered env m enabled, uploads = []\<rparr>"

definition monitor_trace :: "float_parser \<Rightarrow> monitor_env \<Rightarrow> speed_env \<Rightarrow> monitor \<Rightarrow> bool \<Rightarrow> action list" where
  "monitor_trace flt env senv m enabled =
     announce_lines m enabled @ [Run_speedtest senv] @
     run_trace flt (ticks env) (loop_entry flt env senv m enabled) @
     [Log_line INFO Stopped_by_user, Make_report (report_named env) (report_generated env)]"

text \<open>
  The settings with which no exception reaches the loop: a value of \<^verbatim>\<open>enabled\<close> that
  \<^verbatim>\<open>getboolean\<close> accepts, and a length that \<^verbatim>\<open>time.sleep\<close> accepts.
\<close>

definition steady :: "monitor \<Rightarrow> bool" where
  "steady m \<longleftrightarrow> \<not> isl (vps_enabled m) \<and> 0 \<le> ping_interval m"

section \<open>Example runs\<close>

text \<open>
  A round at second 7 in which every probe succeeds, the speed test tools are missing
  and the uploads succeed; a run of one such round, interrupted at second 8; a speed
  test job that became due at second 5; a monitor whose configuration file says
  \<^verbatim>\<open>enabled = maybe\<close>, and one started with \<^verbatim>\<open>--ping-interval -5\<close>.
\<close>

definition quiet_round :: tick_env where
  "quiet_round =
     \<lparr>check = all_up, pending_time = 7000000, speed = broken_env, speed_done = 7000001,
      upload = all_ok, upload_done = 7000002\<rparr>"

definition short_run :: monitor_env where
  "short_run =
     \<lparr>speedtest_scheduled = 1000000, upload_scheduled = 1000001, initial_speed = Some broken_env,
      ticks = [quiet_round], report_named = 8000000, report_generated = 8000001\<rparr>"

definition hourly :: job where
  "hourly = \<lparr>job_kind = Speedtest_job, job_interval = 3600, next_run = 5000000\<rparr>"

definition waiting :: run_state where
  "waiting = \<lparr>mon = default_monitor empty_disk 0, jobs = [hourly], uploads = []\<rparr>"

definition undecided_monitor :: monitor where
  "undecided_monitor =
     init_monitor ''internet_logs'' 30 3600 300 ''monitor_config.ini''
       (fresh_disk (Some [((''VPS'', ''enabled''), ''maybe'')])) 0"

definition hasty_monitor :: monitor where
  "hasty_monitor =
     init_monitor ''internet_logs'' (- 5) 3600 300 ''monitor_config.ini'' empty_disk 0"

section \<open>Lemmas: jobs\<close>

lemma obind_simps [simp]: "obind (Inl failure) f = Inl failure" "obind (Inr st) f = f st"
  by (simp_all add: obind_def)

lemma final_simps [simp]: "final (Inl (e, st)) = st" "final (Inr st) = st"
  by (simp_all add: final_def)

lemma final_obind: "final (obind r f) = (case r of Inl failure \<Rightarrow> snd failure | Inr st \<Rightarrow> final (f st))"
  by (cases r) (simp_all add: split_def final_def)

section \<open>Lemmas: one job, the jobs of a round\<close>

lemma run_job_mon: "mon (final (run_job env j st)) = perform flt (job_action env j) (mon st)"
proof (cases "job_kind j")
  case Speedtest_job
  then show ?thesis by (simp add: run_job_def job_action_def)
next
  case Upload_job
  have "mon (final (run_job env j st)) =
      (case upload_logs (upload env) (mon st) of Inl e \<Rightarrow> mon st | Inr (started, m') \<Rightarrow> m')"
    using Upload_job by (simp add: run_job_def split: sum.split)
  with Upload_job show ?thesis
    by (simp add: job_action_def upload_logs_monitor)
qed

lemma job_action_no_report [simp]: "\<not> is_report (job_action env j)"
  by (simp add: job_action_def split: job_kind.split)

lemma run_job_shape [simp]: "shape (jobs (final (run_job env j st))) = shape (jobs st)"
  by (simp add: run_job_def split: job_kind.split sum.split)

lemma run_job_Inr:
  "\<not> isl (vps_enabled (mon st)) \<Longrightarrow> \<exists>st'. run_job env j st = Inr st'"
  by (cases "vps_enabled (mon st)")
    (auto simp: run_job_def upload_logs_def split_def split: job_kind.split sum.split)

lemma run_job_uploads:
  "uploads (final (run_job env j st)) =
     uploads st @
       (case (job_kind j, upload_logs (upload env) (mon st)) of
          (Upload_job, Inr (started, m')) \<Rightarrow> [started]
        | _ \<Rightarrow> [])"
  by (simp add: run_job_def split: job_kind.split sum.split)

lemma run_job_jobs:
  "run_job env j st = Inr st' \<Longrightarrow>
     jobs st' = reschedule (job_kind j) (done_time env (job_kind j)) (jobs st)"
  by (auto simp: run_job_def done_time_def split: job_kind.splits sum.splits)

lemma run_jobs_jobs: "run_jobs env js st = Inr st' \<Longrightarrow> jobs st' = ran (done_time env) js (jobs st)"
proof (induction js arbitrary: st)
  case (Cons j js)
  then obtain st1 where st1: "run_job env j st = Inr st1" and rest: "run_jobs env js st1 = Inr st'"
    by (cases "run_job env j st") auto
  from Cons.IH [OF rest] run_job_jobs [OF st1] show ?case by simp
qed simp

lemma run_jobs_closed:
  assumes "\<And>a m. \<not> is_report a \<Longrightarrow> P m \<Longrightarrow> P (perform flt a m)" and "P (mon st)"
  shows "P (mon (final (run_jobs env js st)))"
  using assms(2)
proof (induction js arbitrary: st)
  case Nil
  then show ?case by simp
next
  case (Cons j js)
  from Cons.prems have step: "P (mon (final (run_job env j st)))"
    unfolding run_job_mon [of env j st flt] by (intro assms(1)) simp_all
  show ?case
  proof (cases "run_job env j st")
    case (Inl failure)
    with step show ?thesis by (cases failure) simp
  next
    case (Inr st')
    with step Cons.IH [of st'] show ?thesis by simp
  qed
qed

lemma run_jobs_mon:
  "run_jobs env js st = Inr st' \<Longrightarrow> mon st' = run_actions flt (map (job_action env) js) (mon st)"
proof (induction js arbitrary: st)
  case Nil
  then show ?case by simp
next
  case (Cons j js)
  then obtain st1 where st1: "run_job env j st = Inr st1" and rest: "run_jobs env js st1 = Inr st'"
    by (cases "run_job env j st") auto
  from run_job_mon [of env j st flt] st1 have "mon st1 = perform flt (job_action env j) (mon st)"
    by simp
  with Cons.IH [OF rest] show ?case by simp
qed

lemma run_jobs_shape [simp]: "shape (jobs (final (run_jobs env js st))) = shape (jobs st)"
proof (induction js arbitrary: st)
  case (Cons j js)
  show ?case
  proof (cases "run_job env j st")
    case (Inl failure)
    from run_job_shape [of env j st] Inl show ?thesis by (cases failure) simp
  next
    case (Inr st')
    from run_job_shape [of env j st] Inr Cons.IH [of st'] show ?thesis by simp
  qed
qed simp

lemma steady_settings:
  "steady m \<longleftrightarrow>
     \<not> isl (getboolean (fst (settings m)) ''VPS'' ''enabled'' False) \<and> 0 \<le> fst (fst (snd (settings m)))"
  by (simp add: steady_def settings_def vps_enabled_def)

lemma steady_perform [simp]: "steady (perform flt a m) = steady m"
  by (simp add: steady_settings)

lemma steady_run_actions [simp]: "steady (run_actions flt as m) = steady m"
  by (simp add: steady_settings)

lemma steady_fields:
  "steady m \<Longrightarrow> settings m' = settings m \<Longrightarrow> \<not> isl (vps_enabled m') \<and> 0 \<le> ping_interval m'"
  by (simp add: steady_def settings_def vps_enabled_def)

lemma run_jobs_Inr:
  "\<not> isl (vps_enabled (mon st)) \<Longrightarrow> \<exists>st'. run_jobs env js st = Inr st'"
proof (induction js arbitrary: st)
  case (Cons j js)
  from run_job_Inr [OF Cons.prems] obtain st1 where st1: "run_job env j st = Inr st1" by blast
  from run_job_mon [of env j st "\<lambda>s. None"] st1 Cons.prems
  have "\<not> isl (vps_enabled (mon st1))" by (simp add: vps_enabled_settings)
  from Cons.IH [OF this] st1 show ?case by simp
qed simp

section \<open>Lemmas: rounds\<close>

lemma final_sleep [simp]: "final (obind r sleep) = final r"
  by (cases r) (simp_all add: sleep_def final_def)

lemma sleep_Inr [simp]: "0 \<le> ping_interval (mon st) \<Longrightarrow> sleep st = Inr st"
  by (simp add: sleep_def)

lemma final_tick:
  "final (tick flt env st) =
     final (run_jobs env (runnable (pending_time env) (jobs st))
              (st\<lparr>mon := perform flt (Run_check (check env)) (mon st)\<rparr>))"
  by (simp add: tick_def run_pending_def)

lemma tick_closed:
  assumes "\<And>a m. \<not> is_report a \<Longrightarrow> P m \<Longrightarrow> P (perform flt a m)" and "P (mon st)"
  shows "P (mon (final (tick flt env st)))"
proof -
  have "P (perform flt (Run_check (check env)) (mon st))" by (rule assms(1) [OF _ assms(2)]) simp
  then have "P (mon (st\<lparr>mon := perform flt (Run_check (check env)) (mon st)\<rparr>))" by simp
  with assms(1) show ?thesis
    unfolding final_tick by (rule run_jobs_closed [where P = P and flt = flt])
qed

lemma tick_shape [simp]: "shape (jobs (final (tick flt env st))) = shape (jobs st)"
  by (simp add: final_tick)

lemma tick_Inr:
  assumes "steady (mon st)"
  shows "\<exists>st'. tick flt env st = Inr st'"
proof -
  let ?st = "st\<lparr>mon := perform flt (Run_check (check env)) (mon st)\<rparr>"
  have "settings (mon ?st) = settings (mon st)" by simp
  from steady_fields [OF assms this] have "\<not> isl (vps_enabled (mon ?st))" by blast
  from run_jobs_Inr [OF this] obtain st1
    where st1: "run_jobs env (runnable (pending_time env) (jobs st)) ?st = Inr st1" by blast
  from run_jobs_mon [OF st1, of flt] have "settings (mon st1) = settings (mon st)" by simp
  from steady_fields [OF assms this] have "0 \<le> ping_interval (mon st1)" by blast
  with st1 show ?thesis by (simp add: tick_def run_pending_def)
qed

lemma tick_mon:
  assumes "tick flt env st = Inr st'"
  shows "mon st' = run_actions flt (tick_actions env st) (mon st)"
proof -
  let ?st = "st\<lparr>mon := perform flt (Run_check (check env)) (mon st)\<rparr>"
  from assms obtain st1
    where st1: "run_jobs env (runnable (pending_time env) (jobs st)) ?st = Inr st1"
      and "sleep st1 = Inr st'"
    by (cases "run_jobs env (runnable (pending_time env) (jobs st)) ?st")
      (auto simp: tick_def run_pending_def)
  then have "st' = st1" by (simp add: sleep_def split: if_splits)
  with run_jobs_mon [OF st1, of flt] show ?thesis by (simp add: tick_actions_def)
qed

lemma tick_jobs:
  assumes "tick flt env st = Inr st'"
  shows "jobs st' = ran (done_time env) (runnable (pending_time env) (jobs st)) (jobs st)"
proof -
  let ?st = "st\<lparr>mon := perform flt (Run_check (check env)) (mon st)\<rparr>"
  from assms obtain st1
    where st1: "run_jobs env (runnable (pending_time env) (jobs st)) ?st = Inr st1"
      and "sleep st1 = Inr st'"
    by (cases "run_jobs env (runnable (pending_time env) (jobs st)) ?st")
      (auto simp: tick_def run_pending_def)
  then have "st' = st1" by (simp add: sleep_def split: if_splits)
  with run_jobs_jobs [OF st1] show ?thesis by simp
qed

lemma run_ticks_closed:
  assumes "\<And>a m. \<not> is_report a \<Longrightarrow> P m \<Longrightarrow> P (perform flt a m)" and "P (mon st)"
  shows "P (mon (final (run_ticks flt envs st)))"
  using assms(2)
proof (induction envs arbitrary: st)
  case Nil
  then show ?case by simp
next
  case (Cons env envs)
  from assms(1) Cons.prems have step: "P (mon (final (tick flt env st)))"
    by (rule tick_closed [where P = P and flt = flt])
  show ?case
  proof (cases "tick flt env st")
    case (Inl failure)
    with step show ?thesis by (cases failure) simp
  next
    case (Inr st')
    with step Cons.IH [of st'] show ?thesis by simp
  qed
qed

lemma run_ticks_shape [simp]: "shape (jobs (final (run_ticks flt envs st))) = shape (jobs st)"
proof (induction envs arbitrary: st)
  case (Cons env envs)
  show ?case
  proof (cases "tick flt env st")
    case (Inl failure)
    from tick_shape [of flt env st] Inl show ?thesis by (cases failure) simp
  next
    case (Inr st')
    from tick_shape [of flt env st] Inr Cons.IH [of st'] show ?thesis by simp
  qed
qed simp

lemma run_ticks_steady:
  assumes "steady (mon st)"
  shows "\<exists>st'. run_ticks flt envs st = Inr st' \<and>
           mon st' = run_actions flt (run_trace flt envs st) (mon st)"
  using assms
proof (induction envs arbitrary: st)
  case Nil
  then show ?case by simp
next
  case (Cons env envs)
  from tick_Inr [OF Cons.prems] obtain st1 where st1: "tick flt env st = Inr st1" by blast
  note mon1 = tick_mon [OF st1]
  then have "settings (mon st1) = settings (mon st)" by simp
  with Cons.prems have "steady (mon st1)" by (simp add: steady_settings)
  from Cons.IH [OF this] obtain st'
    where "run_ticks flt envs st1 = Inr st'"
      and "mon st' = run_actions flt (run_trace flt envs st1) (mon st1)" by blast
  with st1 mon1 show ?case by (simp add: run_actions_append)
qed

lemma run_ticks_append:
  "run_ticks flt (envs @ envs') st = obind (run_ticks flt envs st) (run_ticks flt envs')"
proof (induction envs arbitrary: st)
  case (Cons env envs)
  then show ?case by (cases "tick flt env st") simp_all
qed simp

lemma run_ticks_timers:
  assumes "steady (mon st)" and "distinct (map job_kind (jobs st))"
  shows "\<exists>st'. run_ticks flt envs st = Inr st' \<and>
           map timer_of (jobs st') =
             fold (\<lambda>env. timer_tick (done_time env) (pending_time env)) envs (map timer_of (jobs st))"
  using assms
proof (induction envs arbitrary: st)
  case Nil
  then show ?case by simp
next
  case (Cons env envs)
  from tick_Inr [OF Cons.prems(1)] obtain st1 where st1: "tick flt env st = Inr st1" by blast
  from tick_mon [OF st1] have "settings (mon st1) = settings (mon st)" by simp
  with Cons.prems(1) have steady: "steady (mon st1)" by (simp add: steady_settings)
  from tick_jobs [OF st1] Cons.prems(2) have timers: "map timer_of (jobs st1) =
      timer_tick (done_time env) (pending_time env) (map timer_of (jobs st))"
    by (simp add: timer_of_ran)
  from tick_shape [of flt env st] st1 Cons.prems(2) have "distinct (map job_kind (jobs st1))"
    by (simp add: distinct_kinds_shape)
  from Cons.IH [OF steady this] st1 timers show ?case by simp
qed

section \<open>Lemmas: the loop\<close>

lemma rounds_before_simps [simp]:
  "rounds_before rounds n 0 = []"
  "rounds_before rounds n (Suc k) = the (rounds n) # rounds_before rounds (Suc n) k"
  by (simp_all add: rounds_before_def upt_conv_Cons del: upt_Suc)

lemma monitor_loop_interrupt:
  assumes "rounds (n + k) = None" and "\<And>i. i < k \<Longrightarrow> rounds (n + i) \<noteq> None"
  shows "monitor_loop flt rounds n st = Some (run_ticks flt (rounds_before rounds n k) st)"
  using assms
proof (induction k arbitrary: n st)
  case 0
  then show ?case by (subst monitor_loop.simps) simp
next
  case (Suc k)
  from Suc.prems(2) [of 0] obtain env where env: "rounds n = Some env" by auto
  have later: "monitor_loop flt rounds (Suc n) st' =
      Some (run_ticks flt (rounds_before rounds (Suc n) k) st')" for st'
    using Suc.prems(1) Suc.prems(2) [of "Suc i" for i] by (intro Suc.IH) simp_all
  show ?case
    by (subst monitor_loop.simps) (simp add: env later obind_def split: sum.split)
qed

lemma monitor_loop_returns:
  assumes "monitor_loop flt rounds n st = Some r" and "steady (mon st)"
  shows "\<exists>k. rounds (n + k) = None"
proof -
  have "steady (mon st) \<longrightarrow> (\<exists>k. rounds (n + k) = None)"
  proof (rule monitor_loop.raw_induct
      [where P = "\<lambda>flt rounds n st r. steady (mon st) \<longrightarrow> (\<exists>k. rounds (n + k) = None)",
        OF _ assms(1)])
    fix loop :: "float_parser \<Rightarrow> (nat \<Rightarrow> tick_env option) \<Rightarrow> nat \<Rightarrow> run_state \<Rightarrow> outcome option"
    fix flt rounds n st r
    assume IH: "\<And>f rs n st r. loop f rs n st = Some r \<Longrightarrow>
        steady (mon st) \<longrightarrow> (\<exists>k. rs (n + k) = None)"
    assume body: "(case rounds n of None \<Rightarrow> Some (Inr st)
        | Some env \<Rightarrow>
            (case tick flt env st of Inl failure \<Rightarrow> Some (Inl failure)
             | Inr st' \<Rightarrow> loop flt rounds (Suc n) st')) = Some r"
    show "steady (mon st) \<longrightarrow> (\<exists>k. rounds (n + k) = None)"
    proof (cases "rounds n")
      case None
      then have "rounds (n + 0) = None" by simp
      then show ?thesis by blast
    next
      case (Some env)
      show ?thesis
      proof
        assume steady: "steady (mon st)"
        from tick_Inr [OF this] obtain st1 where st1: "tick flt env st = Inr st1" by blast
        from tick_mon [OF st1] have "settings (mon st1) = settings (mon st)" by simp
        with steady have "steady (mon st1)" by (simp add: steady_settings)
        moreover from body Some st1 have "loop flt rounds (Suc n) st1 = Some r" by simp
        ultimately obtain k where "rounds (Suc n + k) = None" using IH by blast
        then have "rounds (n + Suc k) = None" by simp
        then show "\<exists>k. rounds (n + k) = None" by blast
      qed
    qed
  qed
  with assms(2) show ?thesis by simp
qed

section \<open>Lemmas: the method\<close>

lemma announce_Inr:
  "vps_enabled m = Inr enabled \<Longrightarrow> announce m = Inr (run_actions flt (announce_lines m enabled) m)"
  by (simp add: announce_def announce_lines_def Let_def)

lemma announce_Inl:
  "vps_enabled m = Inl e \<Longrightarrow>
     announce m = Inl (e, run_actions flt (take 3 (announce_lines m False)) m)"
  by (simp add: announce_def announce_lines_def Let_def)

lemma register_jobs_Inr:
  "vps_enabled m = Inr enabled \<Longrightarrow>
     register_jobs env m = Inr (registered env m enabled)"
  by (simp add: register_jobs_def registered_def Let_def)

lemma stop_simps [simp]:
  "fst (stop flt env st) =
     Stopped (fst (generate_report flt (report_named env) (report_generated env)
                     (log_emit INFO Stopped_by_user (mon st))))"
  "mon (snd (stop flt env st)) =
     run_actions flt [Log_line INFO Stopped_by_user,
       Make_report (report_named env) (report_generated env)] (mon st)"
  "jobs (snd (stop flt env st)) = jobs st" "uploads (snd (stop flt env st)) = uploads st"
  by (simp_all add: stop_def split_def)

lemma run_actions_closed:
  assumes "\<And>a m. P m \<Longrightarrow> P (perform flt a m)" and "P m"
  shows "P (run_actions flt as m)"
  using assms(2) by (induction as arbitrary: m) (simp_all add: assms(1) del: perform.simps)

lemma registered_settings:
  "settings m' = settings m \<Longrightarrow> registered env m' enabled = registered env m enabled"
  by (simp add: registered_def settings_def cong: if_cong)

lemma shape_registered [simp]:
  "shape (registered env m enabled) =
     (Speedtest_job, speedtest_interval m) # (if enabled then [(Upload_job, upload_interval m)] else [])"
  by (simp add: registered_def Let_def)

lemma timer_of_registered:
  "map timer_of (registered env m enabled) =
     \<lparr>timer_kind = Speedtest_job, period = speedtest_interval m, last_run = speedtest_scheduled env\<rparr> #
     (if enabled
      then [\<lparr>timer_kind = Upload_job, period = upload_interval m, last_run = upload_scheduled env\<rparr>]
      else [])"
  by (simp add: registered_def Let_def timer_of_every)

lemma distinct_registered [simp]: "distinct (map job_kind (registered env m enabled))"
  by (simp add: distinct_kinds_shape)

lemma loop_entry_simps [simp]:
  "mon (loop_entry flt env senv m enabled) =
     run_actions flt (announce_lines m enabled @ [Run_speedtest senv]) m"
  "uploads (loop_entry flt env senv m enabled) = []"
  "jobs (loop_entry flt env senv m enabled) = registered env m enabled"
  by (simp_all add: loop_entry_def)

lemma run_monitor_entry_state:
  assumes "vps_enabled m = Inr enabled" and "initial_speed env = Some senv"
  shows "enter_loop env m = Inr (loop_entry flt env senv m enabled)"
proof -
  let ?m1 = "run_actions flt (announce_lines m enabled) m"
  have same: "settings ?m1 = settings m" by simp
  with assms(1) have "vps_enabled ?m1 = Inr enabled" by (simp add: vps_enabled_settings)
  from register_jobs_Inr [OF this, of env]
  have "register_jobs env ?m1 = Inr (registered env m enabled)"
    by (simp add: registered_settings [OF same])
  moreover have "\<lparr>mon = snd (run_speedtest senv ?m1), jobs = registered env m enabled,
      uploads = []\<rparr> = loop_entry flt env senv m enabled"
    by (simp add: loop_entry_def run_actions_append)
  ultimately show ?thesis
    using assms by (simp add: enter_loop_def announce_Inr [OF assms(1), of flt])
qed

lemma run_monitor_entry:
  assumes "vps_enabled m = Inr enabled" and "initial_speed env = Some senv"
  shows "run_monitor flt env m =
     (case run_ticks flt (ticks env) (loop_entry flt env senv m enabled) of
        Inl (e, st) \<Rightarrow> (Crashed e, st)
      | Inr st \<Rightarrow> stop flt env st)"
  by (simp add: run_monitor_def leave_loop_def run_monitor_entry_state [OF assms, of flt])

lemma run_monitor_steady:
  assumes "vps_enabled m = Inr enabled" and "0 \<le> ping_interval m" and "initial_speed env = Some senv"
  shows "\<exists>st. run_monitor flt env m = stop flt env st \<and>
           mon st = run_actions flt
             (announce_lines m enabled @ [Run_speedtest senv] @
              run_trace flt (ticks env) (loop_entry flt env senv m enabled)) m \<and>
           uploads st = uploads (final (run_ticks flt (ticks env) (loop_entry flt env senv m enabled))) \<and>
           jobs st = jobs (final (run_ticks flt (ticks env) (loop_entry flt env senv m enabled)))"
proof -
  let ?st0 = "loop_entry flt env senv m enabled"
  from assms(1,2) have "steady m" by (simp add: steady_def)
  then have "steady (mon ?st0)" by (simp add: steady_settings)
  from run_ticks_steady [OF this, of flt "ticks env"] obtain st
    where "run_ticks flt (ticks env) ?st0 = Inr st"
      and "mon st = run_actions flt (run_trace flt (ticks env) ?st0) (mon ?st0)" by blast
  then show ?thesis
    by (intro exI [of _ st]) (simp add: run_monitor_entry [OF assms(1,3)] run_actions_append)
qed

lemma run_monitor_closed:
  assumes closed: "\<And>a m. P m \<Longrightarrow> P (perform flt a m)" and "P m"
  shows "P (mon (snd (run_monitor flt env m)))"
proof (cases "vps_enabled m")
  case (Inl e)
  from closed assms(2) have "P (run_actions flt (take 3 (announce_lines m False)) m)"
    by (rule run_actions_closed [where P = P and flt = flt])
  with Inl show ?thesis by (simp add: run_monitor_def enter_loop_def leave_loop_def announce_Inl [OF Inl, of flt])
next
  case (Inr enabled)
  let ?m1 = "run_actions flt (announce_lines m enabled) m"
  from closed assms(2) have m1: "P ?m1" by (rule run_actions_closed [where P = P and flt = flt])
  show ?thesis
  proof (cases "initial_speed env")
    case None
    from closed [OF m1, of "Log_line INFO Running_speedtest"] m1 None Inr show ?thesis
      by (simp add: run_monitor_def enter_loop_def leave_loop_def announce_Inr [OF Inr, of flt] split: sum.split)
  next
    case (Some senv)
    let ?r = "run_ticks flt (ticks env) (loop_entry flt env senv m enabled)"
    from closed assms(2) have "P (mon (loop_entry flt env senv m enabled))"
      unfolding loop_entry_simps by (rule run_actions_closed [where P = P and flt = flt])
    then have last: "P (mon (final ?r))"
      by (rule run_ticks_closed [where P = P and flt = flt, rotated]) (rule closed)
    show ?thesis
    proof (cases ?r)
      case (Inl failure)
      with last show ?thesis
        by (cases failure) (simp add: run_monitor_entry [OF Inr Some])
    next
      case (Inr st)
      from closed last have
        "P (run_actions flt [Log_line INFO Stopped_by_user,
              Make_report (report_named env) (report_generated env)] (mon (final ?r)))"
        by (rule run_actions_closed [where P = P and flt = flt])
      with Inr show ?thesis
        by (simp add: run_monitor_entry [OF \<open>vps_enabled m = Inr enabled\<close> Some])
    qed
  qed
qed

section \<open>Lemmas: uploads\<close>

lemma run_jobs_no_upload:
  "Upload_job \<notin> job_kind ` set js \<Longrightarrow> uploads (final (run_jobs env js st)) = uploads st"
proof (induction js arbitrary: st)
  case (Cons j js)
  then have "job_kind j = Speedtest_job" by (cases "job_kind j") auto
  with Cons show ?case by (simp add: run_job_def)
qed simp

lemma tick_no_upload:
  assumes "Upload_job \<notin> fst ` set (shape (jobs st))"
  shows "uploads (final (tick flt env st)) = uploads st"
proof -
  from assms have "Upload_job \<notin> job_kind ` set (runnable (pending_time env) (jobs st))"
    by (auto simp: kinds_shape [symmetric])
  then show ?thesis by (simp add: final_tick run_jobs_no_upload)
qed

lemma run_ticks_no_upload:
  assumes "Upload_job \<notin> fst ` set (shape (jobs st))"
  shows "uploads (final (run_ticks flt envs st)) = uploads st"
  using assms
proof (induction envs arbitrary: st)
  case (Cons env envs)
  note one = tick_no_upload [OF Cons.prems, of flt env] tick_shape [of flt env st]
  show ?case
  proof (cases "tick flt env st")
    case (Inl failure)
    with one show ?thesis by (cases failure) simp
  next
    case (Inr st')
    with one Cons.prems Cons.IH [of st'] show ?thesis by simp
  qed
qed simp

section \<open>Lemmas: what a run leaves\<close>

lemma checks_of_jobs [simp]: "checks_of (map (job_action env) js) = []"
  by (induction js) (simp_all add: job_action_def split: job_kind.split)

lemma checks_of_run_trace [simp]: "checks_of (run_trace flt envs st) = map check envs"
  by (induction envs arbitrary: st) (simp_all add: tick_actions_def)

lemma run_monitor_final:
  assumes "vps_enabled m = Inr enabled" and "initial_speed env = Some senv"
  shows "uploads (snd (run_monitor flt env m)) =
           uploads (final (run_ticks flt (ticks env) (loop_entry flt env senv m enabled)))"
    and "jobs (snd (run_monitor flt env m)) =
           jobs (final (run_ticks flt (ticks env) (loop_entry flt env senv m enabled)))"
  by (simp_all add: run_monitor_entry [OF assms] final_def split_def split: sum.split)

lemma run_monitor_interrupted:
  assumes "vps_enabled m = Inr enabled" and "initial_speed env = None"
  shows "run_monitor flt env m =
     (Interrupted,
      \<lparr>mon = run_actions flt (announce_lines m enabled @ [Log_line INFO Running_speedtest]) m,
       jobs = registered env m enabled, uploads = []\<rparr>)"
proof -
  let ?m1 = "run_actions flt (announce_lines m enabled) m"
  have same: "settings ?m1 = settings m" by simp
  with assms(1) have "vps_enabled ?m1 = Inr enabled" by (simp add: vps_enabled_settings)
  from register_jobs_Inr [OF this, of env]
  have "register_jobs env ?m1 = Inr (registered env m enabled)"
    by (simp add: registered_settings [OF same])
  with assms show ?thesis
    by (simp add: run_monitor_def enter_loop_def leave_loop_def announce_Inr [OF assms(1), of flt] run_actions_append)
qed

lemma tick_negative:
  assumes "\<not> isl (vps_enabled (mon st))" and "ping_interval (mon st) < 0"
  shows "\<exists>st1. tick flt env st = Inl (ValueError ''sleep length must be non-negative'', st1)"
proof -
  let ?st = "st\<lparr>mon := perform flt (Run_check (check env)) (mon st)\<rparr>"
  from assms(1) have "\<not> isl (vps_enabled (mon ?st))" by (simp add: vps_enabled_settings)
  from run_jobs_Inr [OF this] obtain st1
    where st1: "run_jobs env (runnable (pending_time env) (jobs st)) ?st = Inr st1" by blast
  from run_jobs_mon [OF st1, of flt] have "settings (mon st1) = settings (mon st)" by simp
  with assms(2) have "ping_interval (mon st1) < 0" by (simp add: settings_def)
  with st1 show ?thesis by (simp add: tick_def run_pending_def sleep_def)
qed

lemma no_report_run_actions:
  "list_all (\<lambda>a. \<not> is_report a) as \<Longrightarrow> report_files (run_actions flt as m) = report_files m"
  by (induction as arbitrary: m) (simp_all add: perform_report_files del: perform.simps)

lemma loop_entry_report_files [simp]:
  "report_files (mon (loop_entry flt env senv m enabled)) = report_files m"
  unfolding loop_entry_simps by (rule no_report_run_actions) (simp add: announce_lines_def)

lemma run_ticks_report_files [simp]:
  "report_files (mon (final (run_ticks flt envs st))) = report_files (mon st)"
  by (rule run_ticks_closed [where P = "\<lambda>m. report_files m = report_files (mon st)" and flt = flt])
    (simp_all add: perform_report_files)

lemma register_jobs_ticks [simp]: "register_jobs (env\<lparr>ticks := ts\<rparr>) m = register_jobs env m"
  by (simp add: register_jobs_def cong: sum.case_cong if_cong)

lemma stop_ticks [simp]: "stop flt (env\<lparr>ticks := ts\<rparr>) st = stop flt env st"
  by (simp add: stop_def)

lemma enter_loop_ticks [simp]: "enter_loop (env\<lparr>ticks := ts\<rparr>) m = enter_loop env m"
  by (simp add: enter_loop_def cong: sum.case_cong)

lemma leave_loop_ticks [simp]: "leave_loop flt (env\<lparr>ticks := ts\<rparr>) r = leave_loop flt env r"
  by (simp add: leave_loop_def cong: sum.case_cong)

lemma run_forever_interrupt:
  assumes "rounds k = None" and "\<And>i. i < k \<Longrightarrow> rounds i \<noteq> None"
  shows "run_forever flt env rounds m =
           Some (run_monitor flt (env\<lparr>ticks := rounds_before rounds 0 k\<rparr>) m)"
proof -
  have "monitor_loop flt rounds 0 st = Some (run_ticks flt (rounds_before rounds 0 k) st)" for st
    using assms by (intro monitor_loop_interrupt) simp_all
  then show ?thesis
    by (simp add: run_forever_def run_monitor_def split: sum.split)
qed

lemma run_forever_None:
  assumes "steady m" and "initial_speed env = Some senv" and "\<And>k. rounds k \<noteq> None"
  shows "run_forever flt env rounds m = None"
proof -
  from assms(1) obtain enabled where enabled: "vps_enabled m = Inr enabled"
    by (cases "vps_enabled m") (auto simp: steady_def)
  let ?st = "loop_entry flt env senv m enabled"
  from assms(1) have "steady (mon ?st)" by (simp add: steady_settings)
  with monitor_loop_returns [of flt rounds 0 ?st] assms(3)
  have "monitor_loop flt rounds 0 ?st = None" by (cases "monitor_loop flt rounds 0 ?st") auto
  moreover have "enter_loop env m = Inr ?st"
    using run_monitor_entry_state [OF enabled assms(2), of flt] .
  ultimately show ?thesis by (simp add: run_forever_def)
qed

lemma run_monitor_report:
  assumes "reachable flt m" and "steady m" and "initial_speed env = Some senv"
  shows "fst (run_monitor flt env m) = Stopped (Some (report_named env div 1000000))"
proof -
  from assms(2) obtain enabled where "vps_enabled m = Inr enabled" and "0 \<le> ping_interval m"
    by (cases "vps_enabled m") (auto simp: steady_def)
  from run_monitor_steady [OF this assms(3), of flt] obtain st as
    where run: "run_monitor flt env m = stop flt env st" and "mon st = run_actions flt as m"
    by blast
  with assms(1) have "reachable flt (perform flt (Log_line INFO Stopped_by_user) (mon st))"
    by (simp add: reachable_run reachable.step del: perform.simps)
  then have "fst (generate_report flt (report_named env) (report_generated env)
      (log_emit INFO Stopped_by_user (mon st))) = Some (report_named env div 1000000)"
    by (simp add: reachable_report)
  with run show ?thesis by simp
qed

lemma steady_default [simp]: "steady (default_monitor empty_disk now)"
  by (simp add: steady_def)

lemma waiting_simps [simp]:
  "mon waiting = default_monitor empty_disk 0" "jobs waiting = [hourly]"
  "job_kind hourly = Speedtest_job"
  by (simp_all add: waiting_def hourly_def)

lemma short_run_simps [simp]:
  "initial_speed short_run = Some broken_env" "ticks short_run = [quiet_round]"
  "report_named short_run = 8000000" "report_generated short_run = 8000001"
  by (simp_all add: short_run_def)

section \<open>Properties\<close>

text \<open>
  C12 (liveness). The interrupt always ends in a report. When the settings are ones that
  the loop can run with (\<^verbatim>\<open>enabled\<close> is a boolean word or missing, the ping interval
  is not negative) and the monitor started on a log directory that only the program
  has written, and the first speed test, which runs before the \<^verbatim>\<open>try\<close> statement, was
  not interrupted (\<open>initial_speed env = Some senv\<close>), then whatever the probes, the speed
  tests and the uploads of the rounds did, the run ends in \<^verbatim>\<open>Stopped\<close> with the name of
  the report, and the file of that name is in the log directory with the heading of the
  time of the interrupt.
\<close>

theorem interrupt_gives_report:
  assumes "reachable flt m" and "steady m" and "initial_speed env = Some senv"
  shows "fst (run_monitor flt env m) = Stopped (Some (report_named env div 1000000)) \<and>
         (\<exists>parts. map_of (report_files (mon (snd (run_monitor flt env m))))
                     (report_named env div 1000000) =
                   Some (Heading (report_generated env) # parts))"
proof -
  from assms(2) obtain enabled where enabled: "vps_enabled m = Inr enabled" and "0 \<le> ping_interval m"
    by (cases "vps_enabled m") (auto simp: steady_def)
  from run_monitor_steady [OF this assms(3), of flt] obtain st as
    where run: "run_monitor flt env m = stop flt env st" and "mon st = run_actions flt as m"
    by blast
  with assms(1) have "reachable flt (perform flt (Log_line INFO Stopped_by_user) (mon st))"
    by (simp add: reachable_run reachable.step del: perform.simps)
  then have "fst (generate_report flt (report_named env) (report_generated env)
      (log_emit INFO Stopped_by_user (mon st))) = Some (report_named env div 1000000)"
    by (simp add: reachable_report)
  with run show ?thesis
    by (simp add: generate_report_file report_of_def)
qed

theorem interrupt_gives_report_witness:
  "fst (run_monitor (\<lambda>s. None) short_run (default_monitor empty_disk 0)) = Stopped (Some 8) \<and>
   (\<exists>parts. map_of (report_files (mon (snd (run_monitor (\<lambda>s. None) short_run
                (default_monitor empty_disk 0))))) 8 =
             Some (Heading 8000001 # parts))"
  using interrupt_gives_report [OF reachable_default, of 0 short_run broken_env "\<lambda>s. None"]
  by simp

text \<open>
  C14 (refinement). A run is a sequence of the monitor's operations. With settings the
  loop can run with and a first speed test that was not interrupted
  (\<open>initial_speed env = Some senv\<close>), the monitor at the end of \<^verbatim>\<open>run_monitor\<close> is the one that the
  operations of \<open>monitor_trace\<close> produce in their order: the five lines of the start,
  the first speed test, for every round its connectivity check followed by the jobs
  that were due, the line of the interrupt and the report. The connectivity checks
  among them are those of the rounds, one for each round, in the order of the rounds.
\<close>

theorem run_is_operation_sequence:
  assumes "vps_enabled m = Inr enabled" and "0 \<le> ping_interval m"
    and "initial_speed env = Some senv"
  shows "mon (snd (run_monitor flt env m)) =
           run_actions flt (monitor_trace flt env senv m enabled) m \<and>
         checks_of (monitor_trace flt env senv m enabled) = map check (ticks env)"
proof -
  from run_monitor_steady [OF assms, of flt] obtain st
    where "run_monitor flt env m = stop flt env st"
      and "mon st = run_actions flt
             (announce_lines m enabled @ [Run_speedtest senv] @
              run_trace flt (ticks env) (loop_entry flt env senv m enabled)) m"
    by blast
  then have "mon (snd (run_monitor flt env m)) =
      run_actions flt (monitor_trace flt env senv m enabled) m"
    by (simp add: monitor_trace_def run_actions_append)
  then show ?thesis by (simp add: monitor_trace_def announce_lines_def)
qed

theorem run_is_operation_sequence_witness:
  "mon (snd (run_monitor (\<lambda>s. None) short_run (default_monitor empty_disk 0))) =
     run_actions (\<lambda>s. None)
       (monitor_trace (\<lambda>s. None) short_run broken_env (default_monitor empty_disk 0) False)
       (default_monitor empty_disk 0) \<and>
   checks_of (monitor_trace (\<lambda>s. None) short_run broken_env (default_monitor empty_disk 0) False) =
     map check (ticks short_run)"
  by (rule run_is_operation_sequence) simp_all

text \<open>
  C21 (type). However a run on a fresh log directory ends, by the interrupt, by an
  exception that reaches the loop or by an interrupt during the first speed test, the
  files it leaves are well typed: each of the three series has its header and rows of
  the header's length, the fields that the report converts to numbers hold numbers, and
  a disconnection start is recorded exactly while the monitor is disconnected.
\<close>

theorem run_ends_well_typed:
  "conn_inv (mon (snd (run_monitor flt env (init_monitor dir p s u cfile (fresh_disk cfg) now)))) \<and>
   store_ok (mon (snd (run_monitor flt env (init_monitor dir p s u cfile (fresh_disk cfg) now)))) \<and>
   readable (mon (snd (run_monitor flt env (init_monitor dir p s u cfile (fresh_disk cfg) now))))"
proof -
  have "reachable flt (mon (snd (run_monitor flt env (init_monitor dir p s u cfile (fresh_disk cfg) now))))"
    by (rule run_monitor_closed [where P = "reachable flt"]) (erule reachable.step, rule reachable.start)
  from reachable_run_inv [OF this] show ?thesis by (simp add: run_inv_def)
qed

theorem run_ends_well_typed_witness:
  "conn_inv (mon (snd (run_monitor (\<lambda>s. None) short_run undecided_monitor))) \<and>
   store_ok (mon (snd (run_monitor (\<lambda>s. None) short_run undecided_monitor))) \<and>
   readable (mon (snd (run_monitor (\<lambda>s. None) short_run undecided_monitor)))"
  unfolding undecided_monitor_def by (rule run_ends_well_typed)

text \<open>
  C15 (termination). The program ends when it is interrupted, and with its report. On a
  store that only the program has written and with settings the loop can run with, when
  the interrupt arrives before round \<open>k\<close> and not earlier, \<^verbatim>\<open>run_monitor\<close> with its
  \<^verbatim>\<open>while True\<close> returns: no round before the interrupt raises, the handler writes the
  report and the method ends with the name of the report file, in the state that the
  \<open>k\<close> rounds and the handler leave.
\<close>

theorem monitor_returns_at_interrupt:
  assumes "reachable flt m" and "steady m" and "initial_speed env = Some senv"
    and "rounds k = None" and "\<forall>i<k. rounds i \<noteq> None"
  shows "run_forever flt env rounds m =
           Some (Stopped (Some (report_named env div 1000000)),
                 snd (run_monitor flt (env\<lparr>ticks := rounds_before rounds 0 k\<rparr>) m))"
proof -
  let ?env = "env\<lparr>ticks := rounds_before rounds 0 k\<rparr>"
  from assms(4,5) have "run_forever flt env rounds m = Some (run_monitor flt ?env m)"
    by (intro run_forever_interrupt) simp_all
  moreover from assms(1-3)
  have "fst (run_monitor flt ?env m) = Stopped (Some (report_named ?env div 1000000))"
    by (intro run_monitor_report [where senv = senv]) simp_all
  ultimately show ?thesis by (simp add: prod_eq_iff)
qed

theorem monitor_returns_at_interrupt_witness:
  "run_forever (\<lambda>s. None) short_run (\<lambda>n. if n < 2 then Some quiet_round else None)
       (default_monitor empty_disk 0) =
     Some (Stopped (Some (report_named short_run div 1000000)),
           snd (run_monitor (\<lambda>s. None)
                  (short_run\<lparr>ticks := rounds_before (\<lambda>n. if n < 2 then Some quiet_round else None) 0 2\<rparr>)
                  (default_monitor empty_disk 0)))"
  by (rule monitor_returns_at_interrupt [where senv = broken_env])
    (simp_all add: reachable_default)

text \<open>
  C29 (liveness). Nothing but the interrupt ends the monitoring. With settings the loop
  can run with, the loop returns if and only if an interrupt arrives: no result of a
  probe, of a speed test or of an upload ends it, and while no interrupt arrives it
  goes on checking.
\<close>

theorem loop_runs_until_interrupt:
  assumes "steady (mon st)"
  shows "(\<exists>r. monitor_loop flt rounds 0 st = Some r) \<longleftrightarrow> (\<exists>k. rounds k = None)"
proof
  assume "\<exists>r. monitor_loop flt rounds 0 st = Some r"
  then obtain r where "monitor_loop flt rounds 0 st = Some r" by blast
  from monitor_loop_returns [OF this assms] show "\<exists>k. rounds k = None" by simp
next
  assume "\<exists>k. rounds k = None"
  then obtain k where "rounds k = None" and "\<forall>i<k. rounds i \<noteq> None"
    using exists_least_iff [of "\<lambda>k. rounds k = None"] by blast
  then have "monitor_loop flt rounds 0 st = Some (run_ticks flt (rounds_before rounds 0 k) st)"
    by (intro monitor_loop_interrupt) simp_all
  then show "\<exists>r. monitor_loop flt rounds 0 st = Some r" by blast
qed

theorem loop_runs_until_interrupt_witness:
  "monitor_loop (\<lambda>s. None) (\<lambda>n. Some quiet_round) 0 waiting = None"
  using loop_runs_until_interrupt [of waiting "\<lambda>s. None" "\<lambda>n. Some quiet_round"] by simp

text \<open>
  C16 (refinement). The loop implements the scheduler of the specification, in which
  every periodic action keeps its interval and the time of its last run and is due when
  the time elapsed since then is at least the interval. With settings the loop can run
  with and one job of each kind at most, a round performs the connectivity check and
  then the jobs whose timers are due, each once; after the round the timers of the jobs
  that ran hold the time at which each finished, and the others are as they were.
\<close>

theorem tick_implements_timers:
  assumes "steady (mon st)" and "distinct (map job_kind (jobs st))"
  shows "\<exists>st'. tick flt env st = Inr st' \<and>
           map timer_of (jobs st') =
             timer_tick (done_time env) (pending_time env) (map timer_of (jobs st)) \<and>
           mon st' =
             run_actions flt
               (Run_check (check env) # map (job_action env) (runnable (pending_time env) (jobs st)))
               (mon st) \<and>
           mset (map job_kind (runnable (pending_time env) (jobs st))) =
             mset (due_kinds (pending_time env) (map timer_of (jobs st)))"
proof -
  from tick_Inr [OF assms(1)] obtain st' where st': "tick flt env st = Inr st'" by blast
  from tick_jobs [OF st'] assms(2) have "map timer_of (jobs st') =
      timer_tick (done_time env) (pending_time env) (map timer_of (jobs st))"
    by (simp add: timer_of_ran)
  with st' tick_mon [OF st'] due_kinds_runnable [of "pending_time env" "jobs st"] show ?thesis
    by (simp add: tick_actions_def del: run_actions.simps)
qed

theorem tick_implements_timers_witness:
  "\<exists>st'. tick (\<lambda>s. None) quiet_round waiting = Inr st' \<and>
         map timer_of (jobs st') =
           timer_tick (done_time quiet_round) (pending_time quiet_round) (map timer_of (jobs waiting)) \<and>
         mon st' =
           run_actions (\<lambda>s. None)
             (Run_check (check quiet_round) #
              map (job_action quiet_round) (runnable (pending_time quiet_round) (jobs waiting)))
             (mon waiting) \<and>
         mset (map job_kind (runnable (pending_time quiet_round) (jobs waiting))) =
           mset (due_kinds (pending_time quiet_round) (map timer_of (jobs waiting)))"
  by (rule tick_implements_timers) simp_all

text \<open>
  C22 (functional). The speed test keeps its interval. In a round whose only job is the
  speed test, the test runs, after the connectivity check, exactly when the time of
  its next run has come, and its next run is then set to the time at which it
  finished plus the interval; otherwise the round is the connectivity check alone and
  the job is left as it was.
\<close>

theorem speedtest_runs_when_due:
  assumes "steady (mon st)" and "jobs st = [j]" and "job_kind j = Speedtest_job"
  shows "tick flt env st =
     Inr (if next_run j \<le> pending_time env
          then st\<lparr>mon := snd (run_speedtest (speed env)
                           (snd (test_connectivity flt (check env) (mon st)))),
                  jobs := [j\<lparr>next_run := speed_done env + seconds (job_interval j)\<rparr>]\<rparr>
          else st\<lparr>mon := snd (test_connectivity flt (check env) (mon st))\<rparr>)"
proof -
  let ?m1 = "perform flt (Run_check (check env)) (mon st)"
  have "settings (perform flt (Run_speedtest (speed env)) ?m1) = settings (mon st)"
    and "settings ?m1 = settings (mon st)"
    by (simp_all del: perform.simps)
  from this [THEN steady_fields [OF assms(1)]]
  have "0 \<le> ping_interval (perform flt (Run_speedtest (speed env)) ?m1)"
    and "0 \<le> ping_interval ?m1" by simp_all
  with assms(2,3) show ?thesis
    by (simp add: tick_def run_pending_def run_job_def reschedule_def)
qed

theorem speedtest_runs_when_due_witness:
  "tick (\<lambda>s. None) quiet_round waiting =
     Inr (if next_run hourly \<le> pending_time quiet_round
          then waiting\<lparr>mon := snd (run_speedtest (speed quiet_round)
                       (snd (test_connectivity (\<lambda>s. None) (check quiet_round) (mon waiting)))),
                  jobs := [hourly\<lparr>next_run := speed_done quiet_round + seconds (job_interval hourly)\<rparr>]\<rparr>
          else waiting\<lparr>mon := snd (test_connectivity (\<lambda>s. None) (check quiet_round) (mon waiting))\<rparr>)"
  by (rule speedtest_runs_when_due) simp_all

text \<open>
  C23 (safety). No upload without the setting. When the configuration does not enable
  uploads, the upload job is not registered and no round of the run, however long it
  is and however it ends, calls \<^verbatim>\<open>upload_logs\<close>.
\<close>

theorem no_upload_when_disabled:
  assumes "vps_enabled m = Inr False"
  shows "uploads (snd (run_monitor flt env m)) = [] \<and>
         Upload_job \<notin> fst ` set (shape (jobs (snd (run_monitor flt env m))))"
proof (cases "initial_speed env")
  case None
  from run_monitor_interrupted [OF assms None, of flt] show ?thesis by simp
next
  case (Some senv)
  have "Upload_job \<notin> fst ` set (shape (jobs (loop_entry flt env senv m False)))" by simp
  from run_ticks_no_upload [OF this, of flt "ticks env"] show ?thesis
    by (simp add: run_monitor_final [OF assms Some])
qed

theorem no_upload_when_disabled_witness:
  "uploads (snd (run_monitor (\<lambda>s. None) short_run (default_monitor empty_disk 0))) = [] \<and>
   Upload_job \<notin> fst ` set (shape (jobs (snd (run_monitor (\<lambda>s. None) short_run
       (default_monitor empty_disk 0)))))"
  by (rule no_upload_when_disabled) simp

text \<open>
  C33 (error). A value of \<^verbatim>\<open>enabled\<close> that is no boolean word stops the monitor before
  it has checked anything. The \<^verbatim>\<open>ValueError\<close> of \<^verbatim>\<open>getboolean\<close> is raised while the
  fourth line of the start is formatted (line 439), outside every handler: the run
  ends with that exception after three lines of the log, with no job registered, no
  probe made and no report written.
\<close>

theorem malformed_enabled_stops_monitor:
  assumes "vps_enabled m = Inl e"
  shows "run_monitor flt env m =
     (Crashed e,
      \<lparr>mon = m\<lparr>log_lines := log_lines m @
                [(INFO, Starting_monitor), (INFO, Ping_interval_is (ping_interval m)),
                 (INFO, Speedtest_interval_is (speedtest_interval m))]\<rparr>,
       jobs = [], uploads = []\<rparr>)"
  by (simp add: run_monitor_def enter_loop_def leave_loop_def announce_Inl [OF assms, of flt] announce_lines_def log_emit_def)

theorem malformed_enabled_stops_monitor_witness:
  "run_monitor (\<lambda>s. None) short_run undecided_monitor =
     (Crashed (ValueError ''Not a boolean: maybe''),
      \<lparr>mon = undecided_monitor\<lparr>log_lines := log_lines undecided_monitor @
                [(INFO, Starting_monitor), (INFO, Ping_interval_is (ping_interval undecided_monitor)),
                 (INFO, Speedtest_interval_is (speedtest_interval undecided_monitor))]\<rparr>,
       jobs = [], uploads = []\<rparr>)"
  by (rule malformed_enabled_stops_monitor)
    (simp add: undecided_monitor_def vps_enabled_def init_monitor_config getboolean_def
      boolean_state_def py_lower_def lower_char_def)

text \<open>
  C35 (error). A negative ping interval stops the monitor in its first round. The
  constructor and the command line accept any integer; \<^verbatim>\<open>time.sleep\<close> raises
  \<^verbatim>\<open>ValueError\<close> on a negative one (line 460), which no handler of the loop catches:
  the run ends with that exception after the first round, and without a report.
\<close>

theorem negative_interval_stops_monitor:
  assumes "vps_enabled m = Inr enabled" and "ping_interval m < 0"
    and "initial_speed env = Some senv" and "ticks env = tenv # tenvs"
  shows "fst (run_monitor flt env m) = Crashed (ValueError ''sleep length must be non-negative'') \<and>
         report_files (mon (snd (run_monitor flt env m))) = report_files m"
proof -
  let ?st0 = "loop_entry flt env senv m enabled"
  have "settings (mon ?st0) = settings m" by simp
  with assms(1,2) have "\<not> isl (vps_enabled (mon ?st0))" and "ping_interval (mon ?st0) < 0"
    by (simp_all add: vps_enabled_settings settings_def)
  from tick_negative [OF this, of flt tenv] obtain st1
    where "tick flt tenv ?st0 = Inl (ValueError ''sleep length must be non-negative'', st1)"
    by blast
  with assms(4) have run: "run_ticks flt (ticks env) ?st0 =
      Inl (ValueError ''sleep length must be non-negative'', st1)" by simp
  from run_ticks_report_files [of flt "ticks env" ?st0] run
    loop_entry_report_files [of flt env senv m enabled]
  have "report_files (mon st1) = report_files m" by simp
  with run show ?thesis by (simp add: run_monitor_entry [OF assms(1,3)])
qed

theorem negative_interval_stops_monitor_witness:
  "fst (run_monitor (\<lambda>s. None) short_run hasty_monitor) =
     Crashed (ValueError ''sleep length must be non-negative'') \<and>
   report_files (mon (snd (run_monitor (\<lambda>s. None) short_run hasty_monitor))) =
     report_files hasty_monitor"
  by (rule negative_interval_stops_monitor [where enabled = False and senv = broken_env
        and tenv = quiet_round and tenvs = "[]"])
    (simp_all add: hasty_monitor_def vps_enabled_def init_monitor_config getboolean_def
      empty_disk_def default_config_def boolean_state_def py_lower_def lower_char_def)

text \<open>
  C34 (error). An interrupt during the first speed test ends the program without a
  report. The first speed test is started before the \<^verbatim>\<open>try\<close> of the loop (line 449),
  so the handler of the interrupt does not apply: the program ends with the line that
  announces the speed test as its last, no row of the speed test and no report.
\<close>

theorem interrupt_before_loop_no_report:
  assumes "vps_enabled m = Inr enabled" and "initial_speed env = None"
  shows "fst (run_monitor flt env m) = Interrupted \<and>
         report_files (mon (snd (run_monitor flt env m))) = report_files m \<and>
         speedtest_log (mon (snd (run_monitor flt env m))) = speedtest_log m \<and>
         last (log_lines (mon (snd (run_monitor flt env m)))) = (INFO, Running_speedtest)"
  by (simp add: run_monitor_interrupted [OF assms] announce_lines_def)

theorem interrupt_before_loop_no_report_witness:
  "fst (run_monitor (\<lambda>s. None) (short_run\<lparr>initial_speed := None\<rparr>) (default_monitor empty_disk 0)) =
     Interrupted \<and>
   report_files (mon (snd (run_monitor (\<lambda>s. None) (short_run\<lparr>initial_speed := None\<rparr>)
     (default_monitor empty_disk 0)))) = report_files (default_monitor empty_disk 0) \<and>
   speedtest_log (mon (snd (run_monitor (\<lambda>s. None) (short_run\<lparr>initial_speed := None\<rparr>)
     (default_monitor empty_disk 0)))) = speedtest_log (default_monitor empty_disk 0) \<and>
   last (log_lines (mon (snd (run_monitor (\<lambda>s. None) (short_run\<lparr>initial_speed := None\<rparr>)
     (default_monitor empty_disk 0))))) = (INFO, Running_speedtest)"
  by (rule interrupt_before_loop_no_report [where enabled = False]) simp_all

end
