(* ===== verification/Cli.thy ===== *)
theory Cli
  imports Scheduler
begin

text \<open>
  The command line: \<^verbatim>\<open>main\<close> (lines 466 to 507). The arguments are the record that
  \<^verbatim>\<open>argparse\<close> returns, with the defaults of the parser; \<open>main\<close> constructs the monitor
  from them and then does one of three things: with \<^verbatim>\<open>--setup-vps\<close> it sets
  \<^verbatim>\<open>enabled\<close> in the configuration, writes the configuration file and prints a line;
  with \<^verbatim>\<open>--report\<close> it generates a report; otherwise it runs the monitor. The lemmas
  show what each mode leaves in the log directory, and that the setting written by the
  first mode is the one the next start reads.
\<close>

section \<open>Arguments\<close>

record args =
  arg_ping_interval :: int
  arg_speedtest_interval :: int
  arg_upload_interval :: int
  arg_log_dir :: string
  arg_config :: string
  arg_report :: bool
  arg_setup_vps :: bool

definition default_args :: args where
  "default_args =
     \<lparr>arg_ping_interval = 30, arg_speedtest_interval = 3600, arg_upload_interval = 300,
      arg_log_dir = ''internet_logs'', arg_config = ''monitor_config.ini'',
      arg_report = False, arg_setup_vps = False\<rparr>"

text \<open>
  What the outside world decides in an invocation: the time of the construction, and
  the run, whose two last readings of the clock are also those of the report mode.
\<close>

record main_env =
  constructed :: timestamp
  run :: monitor_env

text \<open>How an invocation ends; \<open>Setup_done\<close> holds the line printed.\<close>

datatype main_end =
    Setup_done string
  | Setup_failed exn
  | Report_done "int option"
  | Monitor_ended run_end

section \<open>The three modes\<close>

text \<open>The call of the constructor (lines 485 to 491).\<close>

definition construct :: "main_env \<Rightarrow> args \<Rightarrow> disk \<Rightarrow> monitor" where
  "construct env a d =
     init_monitor (arg_log_dir a) (arg_ping_interval a) (arg_speedtest_interval a)
       (arg_upload_interval a) (arg_config a) d (constructed env)"

text \<open>
  \<^verbatim>\<open>--setup-vps\<close> (lines 493 to 499): \<^verbatim>\<open>config.set\<close> raises when the configuration has no
  section \<^verbatim>\<open>VPS\<close>; otherwise the configuration file is written again.
\<close>

definition setup_vps :: "args \<Rightarrow> monitor \<Rightarrow> main_end \<times> monitor" where
  "setup_vps a m =
     (case config_set (config m) ''VPS'' ''enabled'' ''true'' of
        Inl e \<Rightarrow> (Setup_failed e, m)
      | Inr cfg \<Rightarrow>
          (Setup_done (''VPS uploads enabled. Edit '' @ arg_config a @ '' with your server details.''),
           m\<lparr>config := cfg, config_ini := Some cfg\<rparr>))"

definition main :: "float_parser \<Rightarrow> main_env \<Rightarrow> args \<Rightarrow> disk \<Rightarrow> main_end \<times> monitor" where
  "main flt env a d =
     (let m = construct env a d
      in if arg_setup_vps a then setup_vps a m
         else if arg_report a then
           (case generate_report flt (report_named (run env)) (report_generated (run env)) m of
              (r, m') \<Rightarrow> (Report_done r, m'))
         else
           (case run_monitor flt (run env) m of
              (ended, st) \<Rightarrow> (Monitor_ended ended, mon st)))"

text \<open>The log directory that an invocation leaves to the next one.\<close>

definition left_behind :: "main_end \<times> monitor \<Rightarrow> disk" where
  "left_behind r = disk.truncate (snd r)"

section \<open>Example invocations\<close>

definition setup_args :: args where
  "setup_args = default_args\<lparr>arg_setup_vps := True\<rparr>"

definition report_args :: args where
  "report_args = default_args\<lparr>arg_report := True\<rparr>"

definition first_start :: main_env where
  "first_start = \<lparr>constructed = 0, run = short_run\<rparr>"

text \<open>A configuration file that someone has cut down to the section of the monitor.\<close>

definition trimmed_config :: config where
  "trimmed_config = [((''MONITOR'', ''location_name''), ''Home Network'')]"

section \<open>Lemmas\<close>

lemma truncate_fields [simp]:
  "config_ini (disk.truncate m) = config_ini m"
  "connectivity_log (disk.truncate m) = connectivity_log m"
  "speedtest_log (disk.truncate m) = speedtest_log m"
  "events_log (disk.truncate m) = events_log m"
  "report_files (disk.truncate m) = report_files m"
  "log_lines (disk.truncate m) = log_lines m"
  by (simp_all add: disk.defs)

lemma construct_config:
  "config (construct env a d) = (case config_ini d of Some cfg \<Rightarrow> cfg | None \<Rightarrow> default_config)"
  "config_ini (construct env a d) = Some (config (construct env a d))"
  by (simp_all add: construct_def init_monitor_config)

lemma construct_default: "construct env default_args d = default_monitor d (constructed env)"
  by (simp add: construct_def default_args_def default_monitor_def)

lemma has_section_default [simp]: "has_section default_config ''VPS''"
  by (simp add: has_section_def default_config_def)

lemma setup_vps_Inr:
  assumes "has_section (config m) ''VPS''"
  shows "setup_vps a m =
     (Setup_done (''VPS uploads enabled. Edit '' @ arg_config a @ '' with your server details.''),
      m\<lparr>config := AList.update (''VPS'', ''enabled'') ''true'' (config m),
        config_ini := Some (AList.update (''VPS'', ''enabled'') ''true'' (config m))\<rparr>)"
  using assms by (simp add: setup_vps_def config_set_def)

lemma setup_vps_Inl:
  "\<not> has_section (config m) ''VPS'' \<Longrightarrow> setup_vps a m = (Setup_failed (NoSectionError ''VPS''), m)"
  by (simp add: setup_vps_def config_set_def)

lemma getboolean_update:
  "getboolean (AList.update (section, option) ''true'' cfg) section option fb = Inr True"
  by (simp add: getboolean_def update_conv')

lemma main_modes:
  "arg_setup_vps a \<Longrightarrow> main flt env a d = setup_vps a (construct env a d)"
  "\<not> arg_setup_vps a \<Longrightarrow> arg_report a \<Longrightarrow>
     main flt env a d =
       (Report_done (fst (generate_report flt (report_named (run env)) (report_generated (run env))
                           (construct env a d))),
        snd (generate_report flt (report_named (run env)) (report_generated (run env))
              (construct env a d)))"
  "\<not> arg_setup_vps a \<Longrightarrow> \<not> arg_report a \<Longrightarrow>
     main flt env a d =
       (Monitor_ended (fst (run_monitor flt (run env) (construct env a d))),
        mon (snd (run_monitor flt (run env) (construct env a d))))"
  by (simp_all add: main_def Let_def split_def)

lemma setup_args_simps [simp]:
  "arg_setup_vps setup_args" "arg_config setup_args = ''monitor_config.ini''"
  "\<not> arg_setup_vps report_args" "arg_report report_args"
  "\<not> arg_setup_vps default_args" "\<not> arg_report default_args"
  by (simp_all add: setup_args_def report_args_def default_args_def)

section \<open>Properties\<close>

text \<open>
  C24 (roundtrip). What \<^verbatim>\<open>--setup-vps\<close> writes is what the next start reads. When the
  configuration has a section \<^verbatim>\<open>VPS\<close>, as the one written by the constructor has, the
  invocation prints its line and leaves a configuration file from which a later
  constructor, whatever its arguments, reads \<^verbatim>\<open>enabled\<close> as true and every other
  option as it was; the connectivity series is the one the constructor found or created.
\<close>

theorem setup_then_start_uploads:
  assumes "arg_setup_vps a" and "has_section (config (construct env a d)) ''VPS''"
  shows "fst (main flt env a d) =
           Setup_done (''VPS uploads enabled. Edit '' @ arg_config a @ '' with your server details.'') \<and>
         vps_enabled (construct env' a' (left_behind (main flt env a d))) = Inr True \<and>
         (\<forall>k. k \<noteq> (''VPS'', ''enabled'') \<longrightarrow>
            map_of (config (construct env' a' (left_behind (main flt env a d)))) k =
            map_of (config (construct env a d)) k) \<and>
         connectivity_log (left_behind (main flt env a d)) =
           init_file connectivity_header (connectivity_log d)"
  using assms
  by (simp add: main_modes setup_vps_Inr left_behind_def construct_config vps_enabled_def
      getboolean_update update_conv') (simp add: construct_def)

theorem setup_then_start_uploads_witness:
  "fst (main (\<lambda>s. None) first_start setup_args empty_disk) =
     Setup_done ''VPS uploads enabled. Edit monitor_config.ini with your server details.'' \<and>
   vps_enabled (construct first_start default_args
      (left_behind (main (\<lambda>s. None) first_start setup_args empty_disk))) = Inr True \<and>
   map_of (config (construct first_start default_args
      (left_behind (main (\<lambda>s. None) first_start setup_args empty_disk)))) (''VPS'', ''username'') =
     Some ''your-username''"
proof -
  have "has_section (config (construct first_start setup_args empty_disk)) ''VPS''"
    by (simp add: construct_config empty_disk_def)
  from setup_then_start_uploads [OF _ this, of "\<lambda>s. None" first_start default_args]
  show ?thesis by (simp add: construct_config empty_disk_def default_config_def)
qed

text \<open>
  The report mode makes no measurement. With \<^verbatim>\<open>--report\<close> the program
  makes no probe and no speed test and never enters the loop: the three series are
  those the constructor found, or their headers when it had to create them, the
  report of the constructed monitor is written under the name of its second, and
  every other report file is left as it was.
\<close>

theorem report_mode_only_reports:
  assumes "arg_report a" and "\<not> arg_setup_vps a"
  shows "connectivity_log (snd (main flt env a d)) = init_file connectivity_header (connectivity_log d) \<and>
         speedtest_log (snd (main flt env a d)) = init_file speedtest_header (speedtest_log d) \<and>
         events_log (snd (main flt env a d)) = init_file events_header (events_log d) \<and>
         map_of (report_files (snd (main flt env a d))) (report_named (run env) div 1000000) =
           Some (report_of flt (report_generated (run env)) (construct env a d)) \<and>
         (\<forall>k. k \<noteq> report_named (run env) div 1000000 \<longrightarrow>
            map_of (report_files (snd (main flt env a d))) k = map_of (report_files d) k)"
  using assms
  by (simp add: main_modes frame_simps generate_report_file generate_report_other_files)
    (simp add: construct_def)

theorem report_mode_only_reports_witness:
  "connectivity_log (snd (main (\<lambda>s. None) first_start report_args empty_disk)) =
     init_file connectivity_header (connectivity_log empty_disk) \<and>
   map_of (report_files (snd (main (\<lambda>s. None) first_start report_args empty_disk))) 8 =
     Some (report_of (\<lambda>s. None) 8000001 (construct first_start report_args empty_disk)) \<and>
   map_of (report_files (snd (main (\<lambda>s. None) first_start report_args empty_disk))) 7 = None"
  using report_mode_only_reports [of report_args "\<lambda>s. None" first_start empty_disk]
  by (simp add: first_start_def) (simp add: empty_disk_def)

text \<open>
  C37 (error). \<^verbatim>\<open>--setup-vps\<close> fails on a configuration file without the section. When
  the file exists and has no section \<^verbatim>\<open>VPS\<close>, \<^verbatim>\<open>config.set\<close> raises
  \<^verbatim>\<open>NoSectionError\<close> (line 495), which nothing catches: the program ends with it, the
  file is left as it was and nothing is printed.
\<close>

theorem setup_needs_section:
  assumes "arg_setup_vps a" and "config_ini d = Some cfg" and "\<not> has_section cfg ''VPS''"
  shows "main flt env a d = (Setup_failed (NoSectionError ''VPS''), construct env a d) \<and>
         config_ini (left_behind (main flt env a d)) = Some cfg"
  using assms by (simp add: main_modes setup_vps_Inl construct_config left_behind_def)

theorem setup_needs_section_witness:
  "main (\<lambda>s. None) first_start setup_args (fresh_disk (Some trimmed_config)) =
     (Setup_failed (NoSectionError ''VPS''),
      construct first_start setup_args (fresh_disk (Some trimmed_config))) \<and>
   config_ini (left_behind (main (\<lambda>s. None) first_start setup_args (fresh_disk (Some trimmed_config)))) =
     Some trimmed_config"
  by (rule setup_needs_section) (simp_all add: has_section_def trimmed_config_def)

end
