(* ===== verification/Spec2Isabelle.thy ===== *)
theory Spec2Isabelle
  imports Cli
begin

text \<open>
  A verification development for \<^verbatim>\<open>src/internet_monitor.py\<close>, the Internet connection
  monitor: a single class \<^verbatim>\<open>InternetMonitor\<close> that probes a fixed list of targets,
  decides by majority whether the host is connected, tracks the connected/disconnected
  state with the duration of every outage, runs a speed test through an external tool,
  appends everything to three CSV series, writes a summary report and, when it is
  configured to, copies its files to a remote host. \<^verbatim>\<open>run_monitor\<close> is the loop that
  calls these methods, and \<^verbatim>\<open>main\<close> the command line that starts it.

  \<^bold>\<open>Theories and what they model.\<close>
  \<^item> \<open>Prelude\<close>: the lemma collections, timestamps (microseconds, as \<^verbatim>\<open>datetime\<close>
    has them), exceptions as a datatype with results of type \<open>exn + 'a\<close>, JSON values
    with the dictionary operations the program applies to them, and the Python string
    and list operations the program uses (\<^verbatim>\<open>in\<close>, \<^verbatim>\<open>str.split\<close>, \<^verbatim>\<open>str.lower\<close>,
    indexing, comprehensions, \<^verbatim>\<open>min\<close>, \<^verbatim>\<open>max\<close> with a key, the average), with their
    lemmas.
  \<^item> \<open>Logging\<close>: the logger configured by \<^verbatim>\<open>__init__\<close>; levels with their order,
    one message constructor for each \<^verbatim>\<open>self.logger\<close> call, and \<open>emit\<close>, which
    drops what is below \<^verbatim>\<open>INFO\<close>.
  \<^item> \<open>Records\<close>: the record store. CSV files as lists of rows of cells,
    \<^verbatim>\<open>_init_csv_files\<close> (\<open>init_csv_files\<close>), appending rows (\<open>append_rows\<close>), reading
    with \<^verbatim>\<open>csv.DictReader\<close> (\<open>dict_reader\<close>, \<open>getitem\<close>), and the record \<open>disk\<close>
    of everything kept in the log directory.
  \<^item> \<open>Monitor\<close>: the object. The record \<open>monitor\<close> extends \<open>disk\<close> with the fields
    of \<^verbatim>\<open>InternetMonitor\<close>; \<open>init_monitor\<close> is \<^verbatim>\<open>__init__\<close>; \<open>conn_inv\<close> and
    \<open>store_ok\<close> are the well-formedness predicates; \<open>config_get\<close>, \<open>getboolean\<close> and
    \<open>config_set\<close> are the calls of \<^verbatim>\<open>configparser\<close> that the program makes.
  \<^item> \<open>StateMachine\<close>: \<^verbatim>\<open>_handle_connection_state\<close> as \<open>handle_connection_state\<close>,
    sequences of checks as \<open>run_verdicts\<close>, the specification's two-state machine as the
    inductive relation \<open>conn_step\<close> with its functional form (\<open>conn_next\<close>,
    \<open>conn_out\<close>, \<open>outages\<close>), the refinement between the two, and what the handler
    has written and still holds after a sequence of checks (\<open>written_events\<close>,
    \<open>duration_cell\<close>, \<open>open_downtime\<close>).
  \<^item> \<open>Probes\<close>: \<^verbatim>\<open>ping_test\<close> and \<^verbatim>\<open>http_test\<close> as functions of the outcome of
    the process or the request (\<open>ping_outcome\<close>, \<open>http_outcome\<close>), with the extraction
    of the round-trip time from the output of \<^verbatim>\<open>ping\<close> (\<open>parse_ping_time\<close>).
  \<^item> \<open>Connectivity\<close>: \<^verbatim>\<open>test_connectivity\<close> with its two loops (\<open>probe_loop\<close>), the
    verdict (\<open>majority\<close>), the rows of the connectivity series and the call of the
    handler; and the same check written as comprehensions (\<open>all_results\<close>,
    \<open>all_records\<close>), proved equal to the loops.
  \<^item> \<open>SpeedTest\<close>: \<^verbatim>\<open>run_speedtest\<close> as a function of the outcomes of the external
    processes (\<open>proc_outcome\<close>): the fallback chain with its two handlers
    (\<open>measure_speed\<close>, \<open>use_fallback\<close>), the two output schemas (\<open>parse_ookla\<close>,
    \<open>parse_legacy\<close>), and the row and log lines of success and failure.
  \<^item> \<open>Report\<close>: \<^verbatim>\<open>generate_report\<close>: the three summaries as functions of the series
    (\<open>connectivity_section\<close>, \<open>disconnection_section\<close>, \<open>speed_section\<close>), the writing
    that stops at the first exception (\<open>write_sections\<close>), and the stores on which no
    summary can raise (\<open>readable\<close>).
  \<^item> \<open>Upload\<close>: \<^verbatim>\<open>upload_logs\<close>: the test of the setting, the values read from the
    configuration (\<open>vps_settings\<close>), the \<^verbatim>\<open>ssh\<close> and \<^verbatim>\<open>scp\<close> command lines in their
    order (\<open>upload_plan\<close>), their execution up to the first failure (\<open>run_steps\<close>) and
    the line that closes the upload (\<open>closing_line\<close>).
  \<^item> \<open>Operations\<close>: the interface between the methods and the theories that put them
    in sequence: the operations of a run as a datatype (\<open>action\<close>) with the method each
    one calls (\<open>perform\<close>), sequences of them (\<open>run_actions\<close>), the monitors a run can
    reach (\<open>reachable\<close>) and their invariant (\<open>run_inv\<close>).
  \<^item> \<open>Schedule\<close>: the jobs of the \<^verbatim>\<open>schedule\<close> library (\<open>every\<close>, \<open>due\<close>, \<open>runnable\<close>,
    \<open>reschedule\<close>), and the scheduler that the specification describes, with an
    interval and the time of the last run for every periodic action (\<open>timer\<close>,
    \<open>timer_tick\<close>), which the jobs implement (\<open>timer_of\<close>).
  \<^item> \<open>Scheduler\<close>: \<^verbatim>\<open>run_monitor\<close>: the statements before the loop (\<open>enter_loop\<close>), one
    round of the loop (\<open>tick\<close>, \<open>run_pending\<close>), the loop as the program writes it
    (\<open>monitor_loop\<close>) and as a recursion over the rounds before the interrupt
    (\<open>run_ticks\<close>), the end of the \<^verbatim>\<open>try\<close> statement (\<open>leave_loop\<close>, with the handler
    of the interrupt \<open>stop\<close>), the method on either loop (\<open>run_forever\<close> on
    \<open>monitor_loop\<close>, \<open>run_monitor\<close> on \<open>run_ticks\<close>), and the sequence of operations
    that a run performs (\<open>monitor_trace\<close>).
  \<^item> \<open>Cli\<close>: \<^verbatim>\<open>main\<close>: the parsed arguments (\<open>args\<close>), the construction of the monitor
    from them (\<open>construct\<close>) and the three modes (\<open>setup_vps\<close>, the report, the monitor).
  \<^item> This theory: the properties that span the components.

  \<^bold>\<open>How state and effects are modelled.\<close> Every method takes the monitor and returns the
  monitor after the call (and its result, when it has one). What the outside world
  decides is an argument: the time of each \<^verbatim>\<open>datetime.now()\<close>, the outcome of each
  external process or request (the records \<open>check_env\<close>, \<open>speed_env\<close> and
  \<open>upload_env\<close>; \<open>tick_env\<close> for one round of the loop, \<open>monitor_env\<close> for a run and
  \<open>main_env\<close> for an invocation), the interpreter's \<^verbatim>\<open>float()\<close> on a string
  (\<open>float_parser\<close>). Exceptions are values of
  \<open>exn\<close>; a handler of the source is a case distinction on them, and a method whose
  handler catches everything returns a plain value. The output of an external tool is
  the JSON value it parses to, or none when \<^verbatim>\<open>json.loads\<close> rejects it. A run of
  \<^verbatim>\<open>run_monitor\<close> ends in a value of \<open>run_end\<close>: stopped by the interrupt with the
  result of the report, ended by an exception that nothing caught, or interrupted
  before the loop.

  \<^bold>\<open>What the lemmas show.\<close>
  \<^item> State machine: the invariant that a disconnection start is recorded exactly while
    disconnected; that the handler refines the specification's machine; that the events
    series receives exactly one row per completed outage, with the duration counted
    from the first failed check; that successful checks while connected are
    idempotent; that the durations the handler writes, with the outage it still holds
    open, are exactly the time the machine of the specification spends disconnected;
    that the series only grow; that the durations written are non-negative when the
    clock is monotone, and negative when a restoring check is timed before the loss.
  \<^item> Probes and aggregation: the probes never raise and change nothing; which outcomes
    are successes; which outputs of an answered ping are reported as failures because
    the time cannot be read; the verdict is the strict majority of all probes, with its boundary
    cases; every probe is recorded, in order, with the status and time it returned.
  \<^item> Speed test: exactly one row for each invocation and a result that agrees with it;
    which paths reach the fallback and what each failure records; the normalisation
    of both schemas; that nothing but the speed-test series and the log is touched.
  \<^item> Report: the counts and the rate of the connectivity summary, the totals of the
    disconnection summary, the bounds of the speed summary, when a summary is left
    out, and that one failing summary fails the whole report.
  \<^item> Upload: nothing is started unless the configuration enables it; the commands and
    their order when all succeed; the stop at the first failure, which is logged and
    never raised; that the store is left as it is; that the option \<^verbatim>\<open>port\<close> is never
    read.
  \<^item> Scheduler: the loop of the program returns exactly when the interrupt arrives;
    the method on that loop then returns the report, in the state the rounds before
    the interrupt lead to; a run is the sequence of operations
    \<open>monitor_trace\<close>, with one connectivity check for each round; a round runs the jobs
    that the timers of the specification's scheduler make due; the speed test runs
    when it is due and is scheduled again from the time it finished; no upload job
    exists when uploads are disabled; the interrupt ends in a successful report; every
    run leaves well-typed series; and the three ways in which the run ends by an
    exception or without a report (a value of \<^verbatim>\<open>enabled\<close> that is no boolean, a
    negative ping interval, an interrupt during the first speed test).
  \<^item> Command line: the setting written by \<^verbatim>\<open>--setup-vps\<close> is read back by the next
    start; that mode fails on a configuration without the section; the report mode
    measures nothing.
  \<^item> Across components: every reachable monitor satisfies the invariants; on such a
    monitor the report never fails; the disconnection summary of the report is the
    summary of the outages of the specification's machine on the verdicts of the run;
    and the program started with its defaults on an empty directory ends at the
    interrupt with the report of the outages of the whole run.

  \<^bold>\<open>Bounds.\<close> Floats are reals (no rounding, infinities or NaN), so sums and averages are
  exact; strings are lists of bytes, and white space is the ASCII white space; the text
  of numbers and dates in the CSV and report files is not modelled (a cell keeps its
  value, a report its numbers); the name of a report file is the second of its
  timestamp; failures of the file system are not modelled. The configuration is the
  list of its options: interpolation and the section \<^verbatim>\<open>DEFAULT\<close> of \<^verbatim>\<open>configparser\<close>
  are not modelled. No fuel is used. Every function but one is total, the two with
  non-structural recursion by a termination proof over the length of the string, the
  loops over targets, rows, jobs and rounds by structural recursion. The exception is
  \<open>monitor_loop\<close>, the \<^verbatim>\<open>while True\<close> of \<^verbatim>\<open>run_monitor\<close>, which is a partial function
  with an optional result, and \<open>run_forever\<close>, the method on that loop: they are
  proved to return exactly when an interrupt arrives (or a round raises) and then to
  equal \<open>run_ticks\<close> and \<open>run_monitor\<close> on the rounds before the interrupt, which is
  why the other properties of a run are stated of \<open>run_monitor\<close>, on the finite list
  of those rounds. The interrupt is
  modelled where it arrives during the sleep of the loop and during the first speed
  test; the clock readings that \<^verbatim>\<open>run_pending\<close> makes while it selects the due jobs
  are one reading.

  \<^bold>\<open>Not modelled.\<close> An interrupt that arrives inside a probe, a speed test or an upload
  of the loop; the parsing of the argument strings by \<^verbatim>\<open>argparse\<close> (the arguments are
  the parsed values); what the commands of an upload do on the remote host (their
  exit status and error output are given); a command of an upload that never returns
  (\<^verbatim>\<open>subprocess.run\<close> is called without a timeout there, and \<open>run_steps\<close> gives every
  command an outcome); the creation of the log directory and the handlers and format
  of the logger in \<^verbatim>\<open>__init__\<close> (the log is the list of the lines at or above
  \<^verbatim>\<open>INFO\<close>); a home directory that \<^verbatim>\<open>Path.expanduser\<close> cannot resolve (the key path is
  taken as it is written); a configuration section without options (a section exists
  when one of its options does, so an empty \<^verbatim>\<open>[VPS]\<close> section reads as a missing one);
  jobs of the scheduler that share a kind (\<open>reschedule\<close> identifies a job by its kind,
  and the program registers at most one of each); and the libraries the program only calls
  (\<^verbatim>\<open>requests\<close>, \<^verbatim>\<open>subprocess\<close>, \<^verbatim>\<open>json\<close>, \<^verbatim>\<open>csv\<close>, \<^verbatim>\<open>configparser\<close>,
  \<^verbatim>\<open>schedule\<close>) beyond the behaviour the program depends on, which is taken from
  their documentation.
\<close>

section \<open>Properties\<close>

text \<open>
  C6 (refinement). Whatever checks, speed tests and reports a run on an empty log
  directory performs, the disconnection summary of a report at its end is the summary
  of the outages of the specification's machine on the verdicts of the run: their
  number, their downtime and the average. The run \<open>outage_run\<close>, in which the
  connection is lost at second 3 and restored at second 7, reports one disconnection
  of 4 seconds.
\<close>

theorem report_matches_machine:
  "disconnection_section flt (events_log (run_actions flt as (default_monitor empty_disk now))) =
     Inr (outage_summary (outages CONNECTED (verdicts flt as (default_monitor empty_disk now)))) \<and>
   disconnection_section flt (events_log (run_actions flt outage_run (default_monitor empty_disk now))) =
     Inr [Disconnection_summary 1 4 4]"
proof -
  have summary: "disconnection_section flt (events_log (run_actions flt as' (default_monitor empty_disk now))) =
      Inr (outage_summary (outages CONNECTED (verdicts flt as' (default_monitor empty_disk now))))" for as'
    by (simp only: run_events_log disconnection_section_outages)
  have "outage_summary (outages CONNECTED (verdicts flt outage_run (default_monitor empty_disk now))) =
      [Disconnection_summary 1 4 4]"
    by (simp add: outage_run_verdicts outage_summary_def total_seconds_def)
  with summary [of outage_run] summary [of as] show ?thesis by simp
qed

text \<open>
  C13 (invariant). Every monitor that a run on an empty log directory can reach is well
  formed: a disconnection start is recorded exactly while disconnected, the three
  series exist with their headers and rows of the right length, and the rows that the
  report converts to numbers hold numbers.
\<close>

theorem run_invariants:
  assumes "reachable flt m"
  shows "conn_inv m \<and> store_ok m \<and> readable m"
  using reachable_run_inv [OF assms] by (simp add: run_inv_def)

theorem run_invariants_witness:
  "conn_inv (perform (\<lambda>s. None) (Run_check pings_down) (default_monitor empty_disk 0)) \<and>
   store_ok (perform (\<lambda>s. None) (Run_check pings_down) (default_monitor empty_disk 0)) \<and>
   readable (perform (\<lambda>s. None) (Run_check pings_down) (default_monitor empty_disk 0))"
  by (rule run_invariants [OF reachable.step [OF reachable_default]])

text \<open>
  C10 (safety). On a store that only the program has written, generating a report never
  fails: it returns the name of the file, whatever checks and speed tests came before
  and however they ended.
\<close>

theorem report_succeeds_on_own_store:
  assumes "reachable flt m"
  shows "fst (generate_report flt named generated m) = Some (named div 1000000)"
proof -
  from assms have "readable m" by (simp add: reachable_run_inv [unfolded run_inv_def])
  then obtain a b c where "sections flt m = [Inr a, Inr b, Inr c]"
    using readable_sections by blast
  then show ?thesis by (simp add: generate_report_result)
qed

theorem report_succeeds_on_own_store_witness:
  "fst (generate_report (\<lambda>s. None) 8000000 8000001
          (perform (\<lambda>s. None) (Run_speedtest broken_env) (default_monitor empty_disk 0))) =
     Some (8000000 div 1000000)"
  by (rule report_succeeds_on_own_store [OF reachable.step [OF reachable_default]])

text \<open>
  C11 (liveness). Started with the defaults on an empty directory, the program ends at
  the interrupt with a report of the whole run. It has made the connectivity checks of
  its rounds, one for each round, and the report it leaves under the name of the
  second of the interrupt states, between the connectivity summary and the speed test
  summary, the outages of the specification's machine on the verdicts of all
  operations of the run: their number, their downtime and the average.
\<close>

theorem default_run_reports_outages:
  assumes "initial_speed (run env) = Some senv"
  shows "fst (main flt env default_args empty_disk) =
           Monitor_ended (Stopped (Some (report_named (run env) div 1000000))) \<and>
         checks_of (monitor_trace flt (run env) senv (default_monitor empty_disk (constructed env)) False) =
           map check (ticks (run env)) \<and>
         (\<exists>c s. map_of (report_files (snd (main flt env default_args empty_disk)))
                   (report_named (run env) div 1000000) =
                 Some (Heading (report_generated (run env)) # c @
                   outage_summary (outages CONNECTED
                     (verdicts flt
                       (monitor_trace flt (run env) senv (default_monitor empty_disk (constructed env)) False)
                       (default_monitor empty_disk (constructed env)))) @ s))"
proof -
  define m where "m = default_monitor empty_disk (constructed env)"
  define pre where "pre = announce_lines m False @ [Run_speedtest senv] @
    run_trace flt (ticks (run env)) (loop_entry flt (run env) senv m False) @
    [Log_line INFO Stopped_by_user]"
  define mb where "mb = run_actions flt pre m"
  let ?named = "report_named (run env)" and ?generated = "report_generated (run env)"
  have trace: "monitor_trace flt (run env) senv m False = pre @ [Make_report ?named ?generated]"
    by (simp add: monitor_trace_def pre_def)
  have checks: "checks_of (monitor_trace flt (run env) senv m False) = map check (ticks (run env))"
    by (simp add: monitor_trace_def announce_lines_def)
  have "vps_enabled m = Inr False" and "0 \<le> ping_interval m" by (simp_all add: m_def)
  from run_monitor_steady [OF this assms, of flt] obtain st
    where "run_monitor flt (run env) m = stop flt (run env) st"
      and "log_emit INFO Stopped_by_user (mon st) = mb"
    by (auto simp: mb_def pre_def run_actions_append)
  then have main: "fst (main flt env default_args empty_disk) =
        Monitor_ended (Stopped (fst (generate_report flt ?named ?generated mb)))"
      "snd (main flt env default_args empty_disk) = snd (generate_report flt ?named ?generated mb)"
    by (simp_all add: main_modes construct_default m_def [symmetric])
  have "reachable flt mb" unfolding mb_def m_def by (intro reachable_run reachable_default)
  note result = reachable_report [OF this, of ?named ?generated]
  from run_report_parts [of flt ?generated pre "constructed env"] obtain c s
    where "report_of flt ?generated mb =
      Heading ?generated # c @ outage_summary (outages CONNECTED (verdicts flt pre m)) @ s"
    unfolding mb_def m_def by blast
  then have "\<exists>c s. map_of (report_files (snd (main flt env default_args empty_disk))) (?named div 1000000) =
      Some (Heading ?generated # c @
        outage_summary (outages CONNECTED (verdicts flt (monitor_trace flt (run env) senv m False) m)) @ s)"
    by (intro exI [of _ c] exI [of _ s]) (simp add: main generate_report_file trace verdicts_append)
  with main(1) result checks show ?thesis unfolding m_def by simp
qed

theorem default_run_reports_outages_witness:
  "fst (main (\<lambda>s. None) first_start default_args empty_disk) = Monitor_ended (Stopped (Some 8)) \<and>
   checks_of (monitor_trace (\<lambda>s. None) short_run broken_env (default_monitor empty_disk 0) False) =
     [all_up] \<and>
   (\<exists>c s. map_of (report_files (snd (main (\<lambda>s. None) first_start default_args empty_disk))) 8 =
           Some (Heading 8000001 # c @
             outage_summary (outages CONNECTED
               (verdicts (\<lambda>s. None)
                 (monitor_trace (\<lambda>s. None) short_run broken_env (default_monitor empty_disk 0) False)
                 (default_monitor empty_disk 0))) @ s))"
  using default_run_reports_outages [of first_start broken_env "\<lambda>s. None"]
  by (simp add: first_start_def quiet_round_def)

end
